(* ===== verification/Prelude.thy ===== *)
theory Prelude
  imports Complex_Main "HOL-Library.AList"
begin

text \<open>
  Shared vocabulary of the PINT development: the Python exceptions the modelled code can
  raise, the result type that carries them, the \<open>named_theorems\<close> collections the component
  theories fill, and generic lemmas on results and association lists. Every component
  theory imports this one.
\<close>

named_theorems result_simps "evaluation rules of the result bind"
named_theorems pydict_simps "evaluation rules of the ordered-dictionary model"
named_theorems pyval_simps "evaluation rules of the Python/astropy value model"

section \<open>Python exceptions as values\<close>

text \<open>
  One constructor per exception class the modelled code raises or lets through:
  \<^item> \<open>KeyError k\<close>: \<^verbatim>\<open>del d[k]\<close> or \<^verbatim>\<open>d[k]\<close> on a missing key;
  \<^item> \<open>AttributeError a\<close>: \<^verbatim>\<open>getattr(obj, a)\<close> on an attribute the object does not have
    (also \<^verbatim>\<open>x.unit\<close> on a plain number);
  \<^item> \<open>TypeError\<close>: \<^verbatim>\<open>len(None)\<close>;
  \<^item> \<open>UnitTypeError\<close> / \<open>UnitConversionError\<close>: astropy refusing \<^verbatim>\<open>np.exp\<close> of, or
    subtraction from, a quantity that is not dimensionless;
  \<^item> \<open>LinAlgError\<close>: a singular matrix in a least-squares solve;
  \<^item> \<open>ConfigError p\<close>: a fit parameter the timing model does not have, or an
    unrecognised residual kind or option in the fitter's \<^verbatim>\<open>additional_args\<close>;
  \<^item> \<open>IndexError\<close>: \<^verbatim>\<open>xs[0]\<close> on an empty list;
  \<^item> \<open>ValueError m\<close>: a value the code rejects (zero data errors in a weighted RMS);
  \<^item> \<open>AssertionError\<close>: a failing \<^verbatim>\<open>assert\<close> statement of a test;
  \<^item> \<open>PytestSkip m\<close>: the exception \<^verbatim>\<open>pytest.skip(m)\<close> raises to skip a test;
  \<^item> \<open>OSError m\<close>: a file that cannot be read (clock files, parameter files).
\<close>

datatype py_error =
    KeyError string
  | AttributeError string
  | TypeError
  | UnitTypeError
  | UnitConversionError
  | LinAlgError
  | ConfigError string
  | IndexError
  | ValueError string
  | AssertionError
  | PytestSkip string
  | OSError string

type_synonym 'a result = "py_error + 'a"

text \<open>The key list of an association list, in order; Python's \<^verbatim>\<open>list(d.keys())\<close>.\<close>

abbreviation keys_of :: "('k \<times> 'v) list \<Rightarrow> 'k list" where
  "keys_of d \<equiv> map fst d"

text \<open>Sequencing of two Python statements: the first exception propagates.\<close>

definition rbind :: "'a result \<Rightarrow> ('a \<Rightarrow> 'b result) \<Rightarrow> 'b result" where
  "rbind r f = (case r of Inl e \<Rightarrow> Inl e | Inr x \<Rightarrow> f x)"

text \<open>A loop that builds a list and stops at the first exception.\<close>

fun rmap :: "('a \<Rightarrow> 'b result) \<Rightarrow> 'a list \<Rightarrow> 'b list result" where
  "rmap f [] = Inr []"
| "rmap f (x # xs) = rbind (f x) (\<lambda>y. rbind (rmap f xs) (\<lambda>ys. Inr (y # ys)))"

lemma rbind_Inl [simp, result_simps]: "rbind (Inl e) f = Inl e"
  by (simp add: rbind_def)

lemma rbind_Inr [simp, result_simps]: "rbind (Inr x) f = f x"
  by (simp add: rbind_def)

lemma rbind_eq_Inr_iff: "rbind r f = Inr y \<longleftrightarrow> (\<exists>x. r = Inr x \<and> f x = Inr y)"
  by (cases r) simp_all

lemma rbind_eq_Inl_iff:
  "rbind r f = Inl e \<longleftrightarrow> r = Inl e \<or> (\<exists>x. r = Inr x \<and> f x = Inl e)"
  by (cases r) simp_all

lemma rmap_Inr_length: "rmap f xs = Inr ys \<Longrightarrow> length ys = length xs"
  by (induction xs arbitrary: ys) (auto simp: rbind_eq_Inr_iff)

lemma rmap_Inr_nth:
  "rmap f xs = Inr ys \<Longrightarrow> i < length xs \<Longrightarrow> f (xs ! i) = Inr (ys ! i)"
proof (induction xs arbitrary: ys i)
  case Nil
  then show ?case by simp
next
  case (Cons x xs)
  then obtain y ys' where "f x = Inr y" "rmap f xs = Inr ys'" "ys = y # ys'"
    by (auto simp: rbind_eq_Inr_iff)
  with Cons show ?case by (cases i) auto
qed

lemma rmap_all_Inr: "(\<And>x. x \<in> set xs \<Longrightarrow> f x = Inr (g x)) \<Longrightarrow> rmap f xs = Inr (map g xs)"
  by (induction xs) auto

section \<open>Association lists\<close>

lemma map_of_filter_neq:
  "map_of (filter (\<lambda>p. fst p \<noteq> k) d) = (map_of d)(k := None)"
  by (induction d) (auto simp: fun_eq_iff)

lemma keys_of_filter_neq:
  "keys_of (filter (\<lambda>p. fst p \<noteq> k) d) = filter (\<lambda>x. x \<noteq> k) (keys_of d)"
  by (induction d) auto

lemma distinct_filter_keys:
  "distinct (keys_of d) \<Longrightarrow> distinct (keys_of (filter P d))"
  by (induction d) (auto simp: image_iff)

lemma map_of_rev_distinct: "distinct (keys_of d) \<Longrightarrow> map_of (rev d) = map_of d"
proof (induction d)
  case Nil
  then show ?case by simp
next
  case (Cons p d)
  obtain a b where p: "p = (a, b)" by fastforce
  with Cons.prems have "a \<notin> set (keys_of d)" and "distinct (keys_of d)" by auto
  then have "map_of d a = None" and "map_of (rev d) = map_of d"
    by (simp_all add: map_of_eq_None_iff Cons.IH)
  then show ?case by (auto simp: p map_add_def fun_eq_iff split: option.splits)
qed

end
