(* ===== verification/PyDict.thy ===== *)
theory PyDict
  imports Prelude
begin

text \<open>
  Python's \<^verbatim>\<open>dict\<close> keeps its keys in insertion order, and the modelled code depends on
  that order: \<^verbatim>\<open>list(self.param_default_value.keys())\<close> becomes \<^verbatim>\<open>binary_params\<close>, and
  \<^verbatim>\<open>set_param_values\<close> assigns the defaults in the table's order. A dictionary is
  therefore an association list with distinct keys:
  \<^item> \<open>dict_setitem\<close> is \<^verbatim>\<open>d[k] = v\<close>: an existing key keeps its place, a new key goes last;
  \<^item> \<open>dict_update\<close> is \<^verbatim>\<open>d.update(other)\<close>: \<^verbatim>\<open>d[k] = v\<close> for each item of \<^verbatim>\<open>other\<close>, in order;
  \<^item> \<open>dict_delitem\<close> is \<^verbatim>\<open>del d[k]\<close>: \<open>KeyError\<close> when \<open>k\<close> is absent.
  The lemmas show the abstract map behaviour (\<open>map_of\<close>, as in the map specification of
  the verified data structures), the key order of \<open>dict_setitem\<close> and \<open>dict_delitem\<close>,
  that \<open>dict_setitem\<close> is the library's \<open>AList.update\<close>, and that distinct keys are an
  invariant of every operation.
\<close>

type_synonym ('k, 'v) pydict = "('k \<times> 'v) list"

definition dict_wf :: "('k, 'v) pydict \<Rightarrow> bool" where
  "dict_wf d \<longleftrightarrow> distinct (keys_of d)"

fun dict_setitem :: "'k \<Rightarrow> 'v \<Rightarrow> ('k, 'v) pydict \<Rightarrow> ('k, 'v) pydict" where
  "dict_setitem k v [] = [(k, v)]"
| "dict_setitem k v ((k', v') # d) =
     (if k' = k then (k, v) # d else (k', v') # dict_setitem k v d)"

definition dict_update :: "('k, 'v) pydict \<Rightarrow> ('k \<times> 'v) list \<Rightarrow> ('k, 'v) pydict" where
  "dict_update d other = foldl (\<lambda>acc (k, v). dict_setitem k v acc) d other"

text \<open>The keys of the modelled dictionaries are parameter names, so the error names one.\<close>

definition dict_delitem :: "string \<Rightarrow> (string, 'v) pydict \<Rightarrow> (string, 'v) pydict result" where
  "dict_delitem k d =
     (if k \<in> set (keys_of d) then Inr (filter (\<lambda>p. fst p \<noteq> k) d)
      else Inl (KeyError k))"

text \<open>\<^verbatim>\<open>d[k]\<close>.\<close>

definition dict_getitem :: "string \<Rightarrow> (string, 'v) pydict \<Rightarrow> 'v result" where
  "dict_getitem k d = (case map_of d k of None \<Rightarrow> Inl (KeyError k) | Some v \<Rightarrow> Inr v)"

subsection \<open>Map behaviour and key order\<close>

lemma dict_setitem_eq_update: "dict_setitem k v d = AList.update k v d"
  by (induction d) auto

lemma map_of_dict_setitem [pydict_simps]:
  "map_of (dict_setitem k v d) = (map_of d)(k \<mapsto> v)"
  by (simp add: dict_setitem_eq_update update_conv')

lemma keys_dict_setitem [pydict_simps]:
  "keys_of (dict_setitem k v d) =
     (if k \<in> set (keys_of d) then keys_of d else keys_of d @ [k])"
  by (simp add: dict_setitem_eq_update update_keys)

lemma set_keys_dict_setitem [pydict_simps]:
  "fst ` set (dict_setitem k v d) = insert k (fst ` set d)"
  by (simp add: dict_setitem_eq_update dom_update)

lemma dict_wf_setitem: "dict_wf d \<Longrightarrow> dict_wf (dict_setitem k v d)"
  by (simp add: dict_wf_def keys_dict_setitem)

lemma dict_update_Cons [pydict_simps]:
  "dict_update d ((k, v) # other) = dict_update (dict_setitem k v d) other"
  by (simp add: dict_update_def)

lemma dict_update_Nil [pydict_simps]: "dict_update d [] = d"
  by (simp add: dict_update_def)

lemma dict_wf_update: "dict_wf d \<Longrightarrow> dict_wf (dict_update d other)"
  by (induction other arbitrary: d) (auto simp: dict_update_Cons dict_update_Nil dict_wf_setitem)

lemma map_of_dict_update [pydict_simps]:
  "map_of (dict_update d other) = map_of d ++ map_of (rev other)"
  by (induction other arbitrary: d)
     (auto simp: dict_update_Cons dict_update_Nil map_of_dict_setitem map_add_def fun_eq_iff
           split: option.splits)

lemma dict_delitem_Inr_iff:
  "dict_delitem k d = Inr d' \<longleftrightarrow> k \<in> set (keys_of d) \<and> d' = filter (\<lambda>p. fst p \<noteq> k) d"
  by (auto simp: dict_delitem_def)

lemma map_of_dict_delitem:
  "dict_delitem k d = Inr d' \<Longrightarrow> map_of d' = (map_of d)(k := None)"
  by (auto simp: dict_delitem_Inr_iff map_of_filter_neq)

lemma keys_dict_delitem:
  "dict_delitem k d = Inr d' \<Longrightarrow> keys_of d' = filter (\<lambda>x. x \<noteq> k) (keys_of d)"
  by (auto simp: dict_delitem_Inr_iff keys_of_filter_neq)

lemma dict_wf_delitem: "dict_wf d \<Longrightarrow> dict_delitem k d = Inr d' \<Longrightarrow> dict_wf d'"
  by (auto simp: dict_delitem_Inr_iff dict_wf_def distinct_filter_keys)

lemma dict_setitem_new: "k \<notin> set (keys_of d) \<Longrightarrow> dict_setitem k v d = d @ [(k, v)]"
  by (induction d) auto

lemma map_of_dict_update_distinct:
  "distinct (keys_of other) \<Longrightarrow> map_of (dict_update d other) = map_of d ++ map_of other"
  by (simp add: map_of_dict_update map_of_rev_distinct)

lemma dict_getitem_Cons [simp]:
  "dict_getitem k ((k', v) # d) = (if k' = k then Inr v else dict_getitem k d)"
  by (simp add: dict_getitem_def)

subsection \<open>Refinement of the map specification\<close>

end
