(* ===== verification/Quantity.thy ===== *)
theory Quantity
  imports Prelude
begin

text \<open>
  The values the binary-model code computes with: Python numbers, numpy arrays and astropy
  quantities (a number or an array with a unit). astropy itself is a library the sources
  only call; what is modelled is the part of its behaviour that the DDS model's lines use:
  \<^item> a unit is a product of named base units with integer exponents (astropy's
    \<^verbatim>\<open>CompositeUnit\<close>), kept as an association list with distinct names and non-zero
    exponents, so that the dimensionless unit \<^verbatim>\<open>u.Unit("")\<close> is the empty list;
    \<open>unit_exp u b\<close> reads the exponent of \<open>b\<close>, the abstraction of a unit to a function;
  \<^item> \<^verbatim>\<open>np.exp\<close> of a quantity requires it to be dimensionless (\<open>UnitTypeError\<close> otherwise);
  \<^item> \<^verbatim>\<open>1 - q\<close> requires \<open>q\<close> dimensionless (\<open>UnitConversionError\<close> otherwise);
  \<^item> \<^verbatim>\<open>x.unit\<close> is an \<open>AttributeError\<close> on a plain number or a plain numpy array.
  Unit conversion between convertible units of different scale is not modelled.
\<close>

section \<open>Units\<close>

type_synonym punit = "(string \<times> int) list"

definition unit_wf :: "punit \<Rightarrow> bool" where
  "unit_wf u \<longleftrightarrow> distinct (keys_of u) \<and> (\<forall>p \<in> set u. snd p \<noteq> 0)"

definition dimensionless :: punit where
  "dimensionless = []"

definition base_unit :: "string \<Rightarrow> punit" where
  "base_unit b = [(b, 1)]"

definition unit_exp :: "punit \<Rightarrow> string \<Rightarrow> int" where
  "unit_exp u b = (case map_of u b of None \<Rightarrow> 0 | Some e \<Rightarrow> e)"

fun unit_add_exp :: "string \<Rightarrow> int \<Rightarrow> punit \<Rightarrow> punit" where
  "unit_add_exp b e [] = (if e = 0 then [] else [(b, e)])"
| "unit_add_exp b e ((c, f) # u) =
     (if c = b then (if f + e = 0 then u else (c, f + e) # u)
      else (c, f) # unit_add_exp b e u)"

definition unit_mul :: "punit \<Rightarrow> punit \<Rightarrow> punit" where
  "unit_mul u v = foldr (\<lambda>(b, e) w. unit_add_exp b e w) v u"

definition unit_inv :: "punit \<Rightarrow> punit" where
  "unit_inv u = map (\<lambda>(b, e). (b, - e)) u"

definition unit_div :: "punit \<Rightarrow> punit \<Rightarrow> punit" where
  "unit_div u v = unit_mul u (unit_inv v)"

section \<open>Values\<close>

text \<open>
  \<open>PyNum\<close> is a Python \<^verbatim>\<open>int\<close>/\<^verbatim>\<open>float\<close> or a numpy scalar (no unit);
  \<open>NpArr\<close> a plain numpy array; \<open>PyQty\<close> and \<open>PyArr\<close> a scalar and an array
  \<^verbatim>\<open>Quantity\<close>.
\<close>

datatype pyval =
    PyNum real
  | NpArr "real list"
  | PyQty real punit
  | PyArr "real list" punit

text \<open>\<^verbatim>\<open>x.unit\<close>.\<close>

fun py_unit :: "pyval \<Rightarrow> punit result" where
  "py_unit (PyQty _ u) = Inr u"
| "py_unit (PyArr _ u) = Inr u"
| "py_unit (PyNum _) = Inl (AttributeError ''unit'')"
| "py_unit (NpArr _) = Inl (AttributeError ''unit'')"

text \<open>Unary minus \<^verbatim>\<open>-x\<close>.\<close>

fun py_neg :: "pyval \<Rightarrow> pyval" where
  "py_neg (PyNum x) = PyNum (- x)"
| "py_neg (NpArr xs) = NpArr (map uminus xs)"
| "py_neg (PyQty x u) = PyQty (- x) u"
| "py_neg (PyArr xs u) = PyArr (map uminus xs) u"

text \<open>\<^verbatim>\<open>np.exp(x)\<close>: astropy accepts only dimensionless quantities.\<close>

fun np_exp :: "pyval \<Rightarrow> pyval result" where
  "np_exp (PyNum x) = Inr (PyNum (exp x))"
| "np_exp (NpArr xs) = Inr (NpArr (map exp xs))"
| "np_exp (PyQty x u) =
     (if u = dimensionless then Inr (PyQty (exp x) dimensionless) else Inl UnitTypeError)"
| "np_exp (PyArr xs u) =
     (if u = dimensionless then Inr (PyArr (map exp xs) dimensionless) else Inl UnitTypeError)"

text \<open>\<^verbatim>\<open>c - x\<close> for a Python number \<open>c\<close>: a quantity must be dimensionless.\<close>

fun py_rsub :: "real \<Rightarrow> pyval \<Rightarrow> pyval result" where
  "py_rsub c (PyNum x) = Inr (PyNum (c - x))"
| "py_rsub c (NpArr xs) = Inr (NpArr (map (\<lambda>x. c - x) xs))"
| "py_rsub c (PyQty x u) =
     (if u = dimensionless then Inr (PyQty (c - x) dimensionless) else Inl UnitConversionError)"
| "py_rsub c (PyArr xs u) =
     (if u = dimensionless then Inr (PyArr (map (\<lambda>x. c - x) xs) dimensionless)
      else Inl UnitConversionError)"

text \<open>\<^verbatim>\<open>np.zeros(n)\<close>, and \<^verbatim>\<open>x * unit\<close> and \<^verbatim>\<open>x / unit\<close> for a unit object.\<close>

definition np_zeros :: "nat \<Rightarrow> pyval" where
  "np_zeros n = NpArr (replicate n 0)"

fun py_mul_unit :: "pyval \<Rightarrow> punit \<Rightarrow> pyval" where
  "py_mul_unit (PyNum x) u = PyQty x u"
| "py_mul_unit (NpArr xs) u = PyArr xs u"
| "py_mul_unit (PyQty x w) u = PyQty x (unit_mul w u)"
| "py_mul_unit (PyArr xs w) u = PyArr xs (unit_mul w u)"

definition py_div_unit :: "pyval \<Rightarrow> punit \<Rightarrow> pyval" where
  "py_div_unit x u = py_mul_unit x (unit_inv u)"

section \<open>The unit algebra\<close>

text \<open>
  The representation is correct with respect to its abstraction \<open>unit_exp\<close>: multiplying
  adds exponents, inverting negates them, and well-formed units keep well-formed; a
  well-formed unit is dimensionless exactly when every exponent is zero, so the
  \<open>u = dimensionless\<close> tests of \<open>np_exp\<close> and \<open>py_rsub\<close> test the physical dimension.
\<close>

lemma unit_exp_Nil [simp]: "unit_exp [] b = 0"
  by (simp add: unit_exp_def)

lemma unit_exp_Cons [simp]: "unit_exp ((c, f) # u) b = (if b = c then f else unit_exp u b)"
  by (simp add: unit_exp_def)

lemma keys_unit_add_exp: "set (keys_of (unit_add_exp b e u)) \<subseteq> insert b (set (keys_of u))"
  by (induction b e u rule: unit_add_exp.induct) auto

lemma unit_wf_Cons_iff:
  "unit_wf ((c, f) # u) \<longleftrightarrow> c \<notin> set (keys_of u) \<and> f \<noteq> 0 \<and> unit_wf u"
  by (auto simp: unit_wf_def)

lemma unit_wf_add_exp: "unit_wf u \<Longrightarrow> unit_wf (unit_add_exp b e u)"
proof (induction b e u rule: unit_add_exp.induct)
  case (1 b e)
  then show ?case by (simp add: unit_wf_def)
next
  case (2 b e c f u)
  have "c \<notin> set (keys_of (unit_add_exp b e u))" if "c \<noteq> b"
    using 2(2) that keys_unit_add_exp [of b e u] by (auto simp: unit_wf_Cons_iff)
  with 2 show ?case by (auto simp: unit_wf_Cons_iff)
qed

lemma unit_exp_notin: "b \<notin> set (keys_of u) \<Longrightarrow> unit_exp u b = 0"
  by (induction u) auto

lemma unit_exp_add_exp:
  "unit_wf u \<Longrightarrow> unit_exp (unit_add_exp b e u) c = unit_exp u c + (if c = b then e else 0)"
proof (induction b e u rule: unit_add_exp.induct)
  case (1 b e)
  then show ?case by simp
next
  case (2 b e c' f u)
  then have "unit_wf u" and "c' \<notin> set (keys_of u)" by (auto simp: unit_wf_Cons_iff)
  with 2 show ?case by (auto simp: unit_exp_notin)
qed

lemma unit_wf_mul: "unit_wf u \<Longrightarrow> unit_wf (unit_mul u v)"
  by (induction v) (auto simp: unit_mul_def unit_wf_add_exp)

lemma unit_exp_mul:
  "unit_wf u \<Longrightarrow> unit_wf v \<Longrightarrow> unit_exp (unit_mul u v) c = unit_exp u c + unit_exp v c"
proof (induction v)
  case Nil
  then show ?case by (simp add: unit_mul_def)
next
  case (Cons p v)
  obtain b e where p: "p = (b, e)" by fastforce
  from Cons.prems(2) have wfv: "unit_wf v" and nb: "b \<notin> set (keys_of v)"
    by (auto simp: p unit_wf_Cons_iff)
  have "unit_wf (unit_mul u v)" using Cons.prems(1) by (rule unit_wf_mul)
  then have "unit_exp (unit_mul u (p # v)) c = unit_exp (unit_mul u v) c + (if c = b then e else 0)"
    by (simp add: p unit_mul_def unit_exp_add_exp)
  with Cons.IH [OF Cons.prems(1) wfv] nb show ?case by (simp add: p unit_exp_notin)
qed

lemma unit_exp_inv [simp]: "unit_exp (unit_inv u) c = - unit_exp u c"
  by (induction u) (auto simp: unit_inv_def)

lemma unit_wf_inv: "unit_wf u \<Longrightarrow> unit_wf (unit_inv u)"
  by (induction u) (auto simp: unit_inv_def unit_wf_def comp_def case_prod_beta)

lemma unit_exp_div:
  "unit_wf u \<Longrightarrow> unit_wf v \<Longrightarrow> unit_exp (unit_div u v) c = unit_exp u c - unit_exp v c"
  by (simp add: unit_div_def unit_exp_mul unit_wf_inv)

lemma unit_wf_div: "unit_wf u \<Longrightarrow> unit_wf (unit_div u v)"
  by (simp add: unit_div_def unit_wf_mul)

lemma unit_wf_dimensionless [simp]: "unit_wf dimensionless"
  by (simp add: unit_wf_def dimensionless_def)

lemma unit_wf_base_unit [simp]: "unit_wf (base_unit b)"
  by (simp add: unit_wf_def base_unit_def)

lemma unit_exp_dimensionless [simp]: "unit_exp dimensionless c = 0"
  by (simp add: dimensionless_def)

lemma unit_exp_in_keys: "unit_wf u \<Longrightarrow> b \<in> set (keys_of u) \<Longrightarrow> unit_exp u b \<noteq> 0"
proof (induction u)
  case Nil
  then show ?case by simp
next
  case (Cons p u)
  obtain c f where p: "p = (c, f)" by fastforce
  with Cons.prems have "f \<noteq> 0" "unit_wf u" by (auto simp: unit_wf_Cons_iff)
  with Cons p show ?case by auto
qed

lemma dimensionless_iff_exps:
  "unit_wf u \<Longrightarrow> u = dimensionless \<longleftrightarrow> (\<forall>c. unit_exp u c = 0)"
proof
  assume "u = dimensionless"
  then show "\<forall>c. unit_exp u c = 0" by simp
next
  assume wf: "unit_wf u" and z: "\<forall>c. unit_exp u c = 0"
  show "u = dimensionless"
  proof (cases u)
    case Nil
    then show ?thesis by (simp add: dimensionless_def)
  next
    case (Cons p u')
    then have "fst p \<in> set (keys_of u)" by simp
    with wf z show ?thesis by (blast dest: unit_exp_in_keys)
  qed
qed

end
