(* ===== verification/BinaryModel.thy ===== *)
theory BinaryModel
  imports PyDict Quantity
begin

text \<open>
  The binary-model base class that \<^verbatim>\<open>DDSmodel\<close> extends (\<^verbatim>\<open>DDmodel\<close> and its parent
  \<^verbatim>\<open>PSR_BINARY\<close>, in \<^verbatim>\<open>pint/models/stand_alone_psr_binaries/\<close>, not under src/). It is
  modelled from the specification (section 3, "Binary Model"; section 4.1,
  \<^verbatim>\<open>set_param_values\<close>): a default-value table, the parameter-name list, the parameter
  attributes of the instance, the epochs and the cached time since periastron \<open>tt0\<close>, and
  the warnings issued.

  Python dispatches \<^verbatim>\<open>setattr(self, name, value)\<close> on the class of \<^verbatim>\<open>self\<close>: a property
  of the subclass runs its setter, any other name is stored in the instance. The base
  class's code is therefore generic in the attribute-assignment function, a parameter of
  type \<open>setattr_fn\<close>; the DDS theory supplies the one that dispatches on the class.
\<close>

datatype binary_class = DDmodel | DDSmodel

record binary_model =
  cls :: binary_class
  binary_name :: string
  param_default_value :: "(string, pyval) pydict"
  binary_params :: "string list"
  instance_dict :: "(string, pyval) pydict"
  t :: "real list option"
  tt0 :: "real list option"
  warnings :: "string list"

type_synonym setattr_fn = "binary_model \<Rightarrow> string \<Rightarrow> pyval \<Rightarrow> binary_model"

section \<open>Plain attributes\<close>

text \<open>\<^verbatim>\<open>self.__dict__[name] = value\<close> and the instance lookup of \<^verbatim>\<open>getattr\<close>.\<close>

definition store_attr :: setattr_fn where
  "store_attr st k v = st\<lparr>instance_dict := dict_setitem k v (instance_dict st)\<rparr>"

definition load_attr :: "binary_model \<Rightarrow> string \<Rightarrow> pyval result" where
  "load_attr st k =
     (case map_of (instance_dict st) k of Some v \<Rightarrow> Inr v | None \<Rightarrow> Inl (AttributeError k))"

text \<open>\<^verbatim>\<open>warnings.warn(msg)\<close>: every call is recorded, as under an \<^verbatim>\<open>"always"\<close> filter.\<close>

definition warn :: "string \<Rightarrow> binary_model \<Rightarrow> binary_model" where
  "warn msg st = st\<lparr>warnings := warnings st @ [msg]\<rparr>"

section \<open>The base class\<close>

text \<open>
  The default table of \<^verbatim>\<open>PSR_BINARY\<close> extended by \<^verbatim>\<open>DDmodel\<close> (\<^verbatim>\<open>A0\<close>, \<^verbatim>\<open>B0\<close>,
  \<^verbatim>\<open>DR\<close>, \<^verbatim>\<open>DTH\<close>), with the units the defaults carry. The theorems about the DDS
  constructor hold for any table with distinct keys that holds \<^verbatim>\<open>SINI\<close>; this table is
  the one their witnesses use.
\<close>

definition u_day :: punit where "u_day = base_unit ''d''"
definition u_s :: punit where "u_s = base_unit ''s''"
definition u_ls :: punit where "u_ls = base_unit ''lt-s''"
definition u_deg :: punit where "u_deg = base_unit ''deg''"

definition DD_param_default_value :: "(string, pyval) pydict" where
  "DD_param_default_value =
     [(''PB'', PyQty 10 u_day), (''PBDOT'', PyQty 0 dimensionless),
      (''ECC'', PyQty 0 dimensionless), (''EDOT'', PyQty 0 (unit_inv u_s)),
      (''A1'', PyQty 10 u_ls), (''A1DOT'', PyQty 0 (unit_div u_ls u_s)),
      (''T0'', PyQty 54000 u_day), (''OM'', PyQty 0 u_deg),
      (''OMDOT'', PyQty 0 (unit_div u_deg (base_unit ''yr''))),
      (''XPBDOT'', PyQty 0 dimensionless), (''M2'', PyQty 0 (base_unit ''solMass'')),
      (''SINI'', PyQty 0 dimensionless), (''GAMMA'', PyQty 0 u_s),
      (''A0'', PyQty 0 u_s), (''B0'', PyQty 0 u_s),
      (''DR'', PyQty 0 dimensionless), (''DTH'', PyQty 0 dimensionless)]"

text \<open>
  \<^verbatim>\<open>set_param_values()\<close> without a value dictionary: \<^verbatim>\<open>setattr(self, par, default)\<close> for
  every key of the default table, in the table's order.
\<close>

definition set_param_values :: "setattr_fn \<Rightarrow> binary_model \<Rightarrow> binary_model" where
  "set_param_values setattr st =
     fold (\<lambda>(k, v) s. setattr s k v) (param_default_value st) st"

text \<open>
  \<^verbatim>\<open>DDmodel.__init__()\<close> (through \<^verbatim>\<open>PSR_BINARY.__init__()\<close>) on an instance of class
  \<open>c\<close>: the table, the parameter list taken from its keys, no epochs, then
  \<^verbatim>\<open>set_param_values()\<close>, whose assignments dispatch on \<open>c\<close>.
\<close>

definition DD_init :: "setattr_fn \<Rightarrow> binary_class \<Rightarrow> binary_model" where
  "DD_init setattr c =
     set_param_values setattr
       \<lparr>cls = c, binary_name = ''DD'', param_default_value = DD_param_default_value,
        binary_params = keys_of DD_param_default_value, instance_dict = [],
        t = None, tt0 = None, warnings = []\<rparr>"

text \<open>
  Assigning the epochs (the \<^verbatim>\<open>t\<close> setter) recomputes the cached \<^verbatim>\<open>tt0\<close> by
  \<^verbatim>\<open>get_tt0\<close>: \<^verbatim>\<open>(t * u.day - self.T0).to("second")\<close>; \<^verbatim>\<open>T0\<close> must be a time in days.
\<close>

definition get_tt0 :: "binary_model \<Rightarrow> real list \<Rightarrow> real list result" where
  "get_tt0 st ts =
     rbind (load_attr st ''T0'')
       (\<lambda>v. case v of
              PyQty x u \<Rightarrow>
                if u = u_day then Inr (map (\<lambda>y. (y - x) * 86400) ts) else Inl UnitConversionError
            | _ \<Rightarrow> Inl UnitConversionError)"

definition set_t :: "real list \<Rightarrow> binary_model \<Rightarrow> binary_model result" where
  "set_t ts st = rbind (get_tt0 st ts) (\<lambda>tt. Inr (st\<lparr>t := Some ts, tt0 := Some tt\<rparr>))"

section \<open>The attribute protocol and \<open>set_param_values\<close>\<close>

text \<open>
  The contract the subclasses' assignment functions meet: a name in the property set
  \<open>P c\<close> of the instance's class \<open>c\<close> runs a setter that only warns with \<open>msg\<close>; any other name is stored. Under it,
  \<^verbatim>\<open>set_param_values\<close> stores every default whose name is not a property, in table
  order, issues one warning per property name in the table, and changes nothing else.
\<close>

definition warns_on :: "(binary_class \<Rightarrow> string set) \<Rightarrow> string \<Rightarrow> setattr_fn \<Rightarrow> bool" where
  "warns_on P msg f \<longleftrightarrow>
     (\<forall>s k v. f s k v = (if k \<in> P (cls s) then warn msg s else store_attr s k v))"

lemma store_attr_frame [simp]:
  "cls (store_attr s k v) = cls s" "binary_name (store_attr s k v) = binary_name s"
  "param_default_value (store_attr s k v) = param_default_value s"
  "binary_params (store_attr s k v) = binary_params s"
  "t (store_attr s k v) = t s" "tt0 (store_attr s k v) = tt0 s"
  "warnings (store_attr s k v) = warnings s"
  "instance_dict (store_attr s k v) = dict_setitem k v (instance_dict s)"
  by (simp_all add: store_attr_def)

lemma warn_frame [simp]:
  "cls (warn m s) = cls s" "binary_name (warn m s) = binary_name s"
  "param_default_value (warn m s) = param_default_value s"
  "binary_params (warn m s) = binary_params s"
  "t (warn m s) = t s" "tt0 (warn m s) = tt0 s"
  "instance_dict (warn m s) = instance_dict s"
  "warnings (warn m s) = warnings s @ [m]"
  by (simp_all add: warn_def)

text \<open>The fields no assignment touches, over a whole sequence of assignments.\<close>

lemma fold_setattr_frame:
  assumes "warns_on P msg f"
  shows "cls (fold (\<lambda>(k, v) s. f s k v) kvs st) = cls st \<and>
    binary_name (fold (\<lambda>(k, v) s. f s k v) kvs st) = binary_name st \<and>
    param_default_value (fold (\<lambda>(k, v) s. f s k v) kvs st) = param_default_value st \<and>
    binary_params (fold (\<lambda>(k, v) s. f s k v) kvs st) = binary_params st \<and>
    t (fold (\<lambda>(k, v) s. f s k v) kvs st) = t st \<and>
    tt0 (fold (\<lambda>(k, v) s. f s k v) kvs st) = tt0 st"
  using assms by (induction kvs arbitrary: st) (auto simp: warns_on_def)

lemma fold_setattr_dict:
  assumes "warns_on P msg f"
  shows "instance_dict (fold (\<lambda>(k, v) s. f s k v) kvs st) =
    dict_update (instance_dict st) (filter (\<lambda>p. fst p \<notin> P (cls st)) kvs)"
  using assms
  by (induction kvs arbitrary: st) (auto simp: warns_on_def pydict_simps)

lemma fold_setattr_warnings:
  assumes "warns_on P msg f"
  shows "warnings (fold (\<lambda>(k, v) s. f s k v) kvs st) =
    warnings st @ replicate (length (filter (\<lambda>p. fst p \<in> P (cls st)) kvs)) msg"
  using assms
  by (induction kvs arbitrary: st) (auto simp: warns_on_def replicate_app_Cons_same)

lemmas set_param_values_facts = fold_setattr_frame fold_setattr_dict fold_setattr_warnings

section \<open>The cached time since periastron\<close>

lemma get_tt0_length: "get_tt0 st ts = Inr tt \<Longrightarrow> length tt = length ts"
proof -
  assume g: "get_tt0 st ts = Inr tt"
  then obtain v where "load_attr st ''T0'' = Inr v"
    and v: "(case v of PyQty x u \<Rightarrow> if u = u_day then Inr (map (\<lambda>y. (y - x) * 86400) ts)
               else Inl UnitConversionError | _ \<Rightarrow> Inl UnitConversionError) = Inr tt"
    by (auto simp: get_tt0_def rbind_eq_Inr_iff)
  from v show ?thesis by (cases v) (auto split: if_splits)
qed

lemma set_t_tt0:
  "set_t ts st = Inr st' \<Longrightarrow> t st' = Some ts \<and> (\<exists>tt. tt0 st' = Some tt \<and> length tt = length ts)"
  by (auto simp: set_t_def rbind_eq_Inr_iff dest: get_tt0_length)

lemma set_t_day_T0:
  "map_of (instance_dict st) ''T0'' = Some (PyQty x u_day) \<Longrightarrow>
   set_t ts st = Inr (st\<lparr>t := Some ts, tt0 := Some (map (\<lambda>y. (y - x) * 86400) ts)\<rparr>)"
  by (simp add: set_t_def get_tt0_def load_attr_def)

end
