(* ===== verification/DDS.thy ===== *)
theory DDS
  imports BinaryModel
begin

text \<open>
  \<^verbatim>\<open>src/src/pint/models/stand_alone_psr_binaries/DDS_model.py\<close>: the DDS binary model, a
  DD model whose Shapiro-delay inclination is the parameter \<^verbatim>\<open>SHAPMAX\<close> \<open>= -log(1 - sin i)\<close>,
  with \<^verbatim>\<open>SINI\<close> retired into a computed property. One definition per method:
  \<^item> \<open>DDS_SINI\<close>, \<open>DDS_SINI_setter\<close>: the \<^verbatim>\<open>SINI\<close> property (lines 60-68);
  \<^item> \<open>d_SINI_d_SHAPMAX\<close> (lines 70-71) and \<open>d_SINI_d_par\<close> (lines 73-79), with the
    method lookup \<^verbatim>\<open>getattr(self, "d_SINI_d_" + par)\<close> as \<open>d_SINI_method\<close>;
  \<^item> \<open>py_setattr\<close>, \<open>py_getattr\<close>: Python's attribute protocol on the two classes, where the
    \<^verbatim>\<open>SINI\<close> property of \<^verbatim>\<open>DDSmodel\<close> takes precedence over the instance;
  \<^item> \<open>DDS_init_body\<close> and \<open>DDSmodel_init\<close>: the constructor (lines 44-58).
\<close>

section \<open>The SINI property\<close>

text \<open>
  Lines 60-62: \<^verbatim>\<open>return 1 - np.exp(-self.SHAPMAX)\<close>. \<^verbatim>\<open>SHAPMAX\<close> is no property of any
  class, so \<^verbatim>\<open>self.SHAPMAX\<close> is the instance attribute.
\<close>

definition DDS_SINI :: "binary_model \<Rightarrow> pyval result" where
  "DDS_SINI st =
     rbind (load_attr st ''SHAPMAX'') (\<lambda>shapmax.
       rbind (np_exp (py_neg shapmax)) (\<lambda>e. py_rsub 1 e))"

text \<open>Lines 64-68: the setter only warns; the value is dropped.\<close>

definition DDS_SINI_warning :: string where
  "DDS_SINI_warning = ''DDS model uses SHAPMAX as inclination angle. SINI will not be used.''"

definition DDS_SINI_setter :: "binary_model \<Rightarrow> pyval \<Rightarrow> binary_model" where
  "DDS_SINI_setter st val = warn DDS_SINI_warning st"

section \<open>Attribute access on the model classes\<close>

text \<open>
  \<^verbatim>\<open>setattr(self, k, v)\<close> and \<^verbatim>\<open>getattr(self, k)\<close>: the data descriptor \<^verbatim>\<open>SINI\<close> of
  \<^verbatim>\<open>DDSmodel\<close> runs its setter or getter; every other parameter name is an instance attribute.
\<close>

definition py_setattr :: setattr_fn where
  "py_setattr st k v =
     (if cls st = DDSmodel \<and> k = ''SINI'' then DDS_SINI_setter st v else store_attr st k v)"

definition py_getattr :: "binary_model \<Rightarrow> string \<Rightarrow> pyval result" where
  "py_getattr st k =
     (if cls st = DDSmodel \<and> k = ''SINI'' then DDS_SINI st else load_attr st k)"

section \<open>Derivatives of SINI\<close>

text \<open>Lines 70-71: \<^verbatim>\<open>return -np.exp(self.SHAPMAX)\<close>.\<close>

definition d_SINI_d_SHAPMAX :: "binary_model \<Rightarrow> pyval result" where
  "d_SINI_d_SHAPMAX st =
     rbind (load_attr st ''SHAPMAX'') (\<lambda>shapmax. rbind (np_exp shapmax) (\<lambda>e. Inr (py_neg e)))"

text \<open>
  \<^verbatim>\<open>getattr(self, "d_SINI_d_" + par)\<close>: the methods of the class whose name has that
  prefix. \<^verbatim>\<open>DDSmodel\<close> has two, \<^verbatim>\<open>d_SINI_d_SHAPMAX\<close> and \<^verbatim>\<open>d_SINI_d_par\<close> itself; the
  latter, called as \<^verbatim>\<open>ko_func()\<close> without its argument, raises \<open>TypeError\<close>. The DD base
  class defines no method with the prefix.
\<close>

definition d_SINI_method :: "binary_class \<Rightarrow> string \<Rightarrow> (binary_model \<Rightarrow> pyval result) option" where
  "d_SINI_method c par =
     (if c = DDSmodel \<and> par = ''SHAPMAX'' then Some d_SINI_d_SHAPMAX
      else if c = DDSmodel \<and> par = ''par'' then Some (\<lambda>_. Inl TypeError)
      else None)"

text \<open>\<^verbatim>\<open>len(self.tt0)\<close>: \<open>TypeError\<close> while no epochs are set.\<close>

definition len_tt0 :: "binary_model \<Rightarrow> nat result" where
  "len_tt0 st = (case tt0 st of None \<Rightarrow> Inl TypeError | Some tt \<Rightarrow> Inr (length tt))"

text \<open>
  Lines 73-79. \<^verbatim>\<open>getattr(self, par)\<close> runs first and outside the \<^verbatim>\<open>try\<close>; when no method
  is found, the fallback lambda builds \<^verbatim>\<open>np.zeros(len(self.tt0)) * u.Unit("") / par_obj.unit\<close>
  when it is called, so its errors (no epochs, no unit) are raised by \<^verbatim>\<open>ko_func()\<close>.
\<close>

definition d_SINI_d_par :: "binary_model \<Rightarrow> string \<Rightarrow> pyval result" where
  "d_SINI_d_par st par =
     rbind (py_getattr st par) (\<lambda>par_obj.
       case d_SINI_method (cls st) par of
         Some ko_func \<Rightarrow> ko_func st
       | None \<Rightarrow>
           rbind (len_tt0 st) (\<lambda>n.
             rbind (py_unit par_obj) (\<lambda>u.
               Inr (py_div_unit (py_mul_unit (np_zeros n) dimensionless) u))))"

section \<open>The constructor\<close>

text \<open>
  Lines 46-58, run on the state \<^verbatim>\<open>super().__init__()\<close> left: rename, add \<^verbatim>\<open>SHAPMAX\<close>
  (the Python \<^verbatim>\<open>int\<close> 0) to the default table, take the parameter list from the table's
  keys, delete \<^verbatim>\<open>SINI\<close> from the table, assign the defaults.
\<close>

definition DDS_init_body :: "binary_model \<Rightarrow> binary_model result" where
  "DDS_init_body st0 =
     (let st1 = st0\<lparr>binary_name := ''DDS''\<rparr>;
          st2 = st1\<lparr>param_default_value :=
                      dict_update (param_default_value st1) [(''SHAPMAX'', PyNum 0)]\<rparr>;
          st3 = st2\<lparr>binary_params := keys_of (param_default_value st2)\<rparr>
      in rbind (dict_delitem ''SINI'' (param_default_value st3)) (\<lambda>pdv.
           Inr (set_param_values py_setattr (st3\<lparr>param_default_value := pdv\<rparr>))))"

text \<open>
  Line 44-45: \<^verbatim>\<open>DDSmodel(t=None, input_params=None)\<close> calls \<^verbatim>\<open>super().__init__()\<close> with no
  arguments, on an instance whose class is \<^verbatim>\<open>DDSmodel\<close>; \<open>t\<close> and \<open>input_params\<close> are
  accepted and not used.
\<close>

definition DDSmodel_init ::
  "real list option \<Rightarrow> (string \<times> pyval) list option \<Rightarrow> binary_model result" where
  "DDSmodel_init t_arg input_params = DDS_init_body (DD_init py_setattr DDSmodel)"

section \<open>The default instance and the reachable states\<close>

text \<open>
  The instance \<^verbatim>\<open>DDSmodel()\<close> builds from the DD defaults: the table without \<^verbatim>\<open>SINI\<close>
  and with \<^verbatim>\<open>SHAPMAX\<close> last, every entry of it an instance attribute, the parameter list
  of the table before \<^verbatim>\<open>SINI\<close> was deleted, and the one warning the base constructor's
  assignment to \<^verbatim>\<open>SINI\<close> issued.
\<close>

definition DDS_default_table :: "(string, pyval) pydict" where
  "DDS_default_table =
     filter (\<lambda>p. fst p \<noteq> ''SINI'') DD_param_default_value @ [(''SHAPMAX'', PyNum 0)]"

definition DDS_default_state :: binary_model where
  "DDS_default_state =
     \<lparr>cls = DDSmodel, binary_name = ''DDS'', param_default_value = DDS_default_table,
      binary_params = keys_of DD_param_default_value @ [''SHAPMAX''],
      instance_dict = DDS_default_table, t = None, tt0 = None,
      warnings = [DDS_SINI_warning]\<rparr>"

text \<open>
  The invariant of a DDS instance: \<^verbatim>\<open>SHAPMAX\<close> is an attribute, \<^verbatim>\<open>SINI\<close> is neither an
  attribute nor a key of the table, and the cached \<^verbatim>\<open>tt0\<close> is set exactly when the
  epochs are, with one entry per epoch.
\<close>

definition DDS_inv :: "binary_model \<Rightarrow> bool" where
  "DDS_inv st \<longleftrightarrow> cls st = DDSmodel \<and>
     ''SHAPMAX'' \<in> set (keys_of (instance_dict st)) \<and>
     ''SINI'' \<notin> set (keys_of (instance_dict st)) \<and>
     ''SINI'' \<notin> set (keys_of (param_default_value st)) \<and>
     (case t st of None \<Rightarrow> tt0 st = None
      | Some ts \<Rightarrow> (\<exists>tt. tt0 st = Some tt \<and> length tt = length ts))"

text \<open>
  The states a DDS instance can reach: construction, then any sequence of parameter
  assignments (\<^verbatim>\<open>setattr\<close>) and epoch assignments (the \<^verbatim>\<open>t\<close> setter).
\<close>

inductive dds_reachable :: "binary_model \<Rightarrow> bool" where
  init: "DDSmodel_init t_arg input_params = Inr st \<Longrightarrow> dds_reachable st"
| assign: "dds_reachable st \<Longrightarrow> dds_reachable (py_setattr st k v)"
| epochs: "dds_reachable st \<Longrightarrow> set_t ts st = Inr st' \<Longrightarrow> dds_reachable st'"

section \<open>Attribute access\<close>

lemma load_attr_warn [simp]: "load_attr (warn m s) k = load_attr s k"
  by (simp add: load_attr_def)

lemma load_attr_store_same [simp]: "load_attr (store_attr s k v) k = Inr v"
  by (simp add: load_attr_def store_attr_def pydict_simps)

lemma py_setattr_warns_on:
  "warns_on (\<lambda>c. if c = DDSmodel then {''SINI''} else {}) DDS_SINI_warning py_setattr"
  by (simp add: warns_on_def py_setattr_def DDS_SINI_setter_def)

lemma py_getattr_SINI_num:
  "cls st = DDSmodel \<Longrightarrow>
   py_getattr (py_setattr st ''SHAPMAX'' (PyNum s)) ''SINI'' = Inr (PyNum (1 - exp (- s)))"
  by (simp add: py_getattr_def py_setattr_def DDS_SINI_def)

lemma SINI_of_SHAPMAX_deriv: "DERIV (\<lambda>x. 1 - exp (- x)) s :> exp (- s)"
  by (auto intro!: derivative_eq_intros)

lemma unit_exp_dimensionless_div:
  "unit_wf u \<Longrightarrow> unit_exp (unit_mul dimensionless (unit_inv u)) c = - unit_exp u c"
  by (simp add: unit_exp_mul unit_wf_inv)

lemma d_SINI_d_par_fallback:
  assumes "cls st = DDSmodel" "par \<noteq> ''SINI''" "par \<noteq> ''SHAPMAX''" "par \<noteq> ''par''"
    and "load_attr st par = Inr v" "py_unit v = Inr u" "unit_wf u" "tt0 st = Some tt"
  shows "\<exists>U. d_SINI_d_par st par = Inr (PyArr (replicate (length tt) 0) U) \<and>
    (\<forall>c. unit_exp U c = - unit_exp u c)"
  using assms
  by (simp add: d_SINI_d_par_def py_getattr_def d_SINI_method_def len_tt0_def np_zeros_def
      py_div_unit_def unit_exp_dimensionless_div)

lemma py_getattr_SINI_DDS:
  "cls st = DDSmodel \<Longrightarrow> load_attr st ''SHAPMAX'' = Inr v \<Longrightarrow>
   py_getattr st ''SINI'' = rbind (np_exp (py_neg v)) (py_rsub 1)"
  by (simp add: py_getattr_def DDS_SINI_def)

lemma SINI_scalar_bounds:
  fixes s :: real
  shows "1 - exp (- s) < 1 \<and> (0 \<le> 1 - exp (- s) \<longleftrightarrow> 0 \<le> s) \<and> - ln (1 - (1 - exp (- s))) = s"
  by simp

section \<open>The constructor\<close>

lemma DDS_init_body_Inr:
  assumes "''SINI'' \<in> set (keys_of (param_default_value st0))"
    and "''SHAPMAX'' \<notin> set (keys_of (param_default_value st0))"
  shows "DDS_init_body st0 = Inr (set_param_values py_setattr
    (st0\<lparr>binary_name := ''DDS'',
         binary_params := keys_of (param_default_value st0) @ [''SHAPMAX''],
         param_default_value := filter (\<lambda>p. fst p \<noteq> ''SINI'') (param_default_value st0)
                                @ [(''SHAPMAX'', PyNum 0)]\<rparr>))"
  using assms
  by (simp add: DDS_init_body_def dict_update_def dict_setitem_new dict_delitem_def)

text \<open>
  With \<^verbatim>\<open>SINI\<close> gone from the table, \<^verbatim>\<open>set_param_values\<close> stores every default and
  warns about nothing.
\<close>

lemma set_param_values_py_setattr:
  assumes "''SINI'' \<notin> set (keys_of (param_default_value st))"
  shows "instance_dict (set_param_values py_setattr st) =
      dict_update (instance_dict st) (param_default_value st) \<and>
    warnings (set_param_values py_setattr st) = warnings st \<and>
    cls (set_param_values py_setattr st) = cls st \<and>
    binary_name (set_param_values py_setattr st) = binary_name st \<and>
    param_default_value (set_param_values py_setattr st) = param_default_value st \<and>
    binary_params (set_param_values py_setattr st) = binary_params st \<and>
    t (set_param_values py_setattr st) = t st \<and> tt0 (set_param_values py_setattr st) = tt0 st"
proof -
  have f: "filter (\<lambda>p. fst p \<notin> (if cls st = DDSmodel then {''SINI''} else {})) (param_default_value st)
      = param_default_value st"
    using assms by (auto intro!: filter_True simp: image_iff)
  have w: "filter (\<lambda>p. fst p \<in> (if cls st = DDSmodel then {''SINI''} else {})) (param_default_value st) = []"
    using assms by (auto simp: filter_empty_conv image_iff)
  show ?thesis
    using set_param_values_facts [OF py_setattr_warns_on, of "param_default_value st" st] f w
    by (simp add: set_param_values_def)
qed

lemma DDS_init_body_fields:
  assumes "''SINI'' \<in> set (keys_of (param_default_value st0))"
    and "''SHAPMAX'' \<notin> set (keys_of (param_default_value st0))"
  obtains st where "DDS_init_body st0 = Inr st"
    and "param_default_value st =
           filter (\<lambda>p. fst p \<noteq> ''SINI'') (param_default_value st0) @ [(''SHAPMAX'', PyNum 0)]"
    and "binary_params st = keys_of (param_default_value st0) @ [''SHAPMAX'']"
    and "binary_name st = ''DDS''"
    and "instance_dict st = dict_update (instance_dict st0) (param_default_value st)"
    and "warnings st = warnings st0" and "cls st = cls st0"
    and "t st = t st0" and "tt0 st = tt0 st0"
proof -
  define st1 where "st1 = st0\<lparr>binary_name := ''DDS'',
         binary_params := keys_of (param_default_value st0) @ [''SHAPMAX''],
         param_default_value := filter (\<lambda>p. fst p \<noteq> ''SINI'') (param_default_value st0)
                                @ [(''SHAPMAX'', PyNum 0)]\<rparr>"
  have nS: "''SINI'' \<notin> set (keys_of (param_default_value st1))"
    by (auto simp: st1_def)
  have init: "DDS_init_body st0 = Inr (set_param_values py_setattr st1)"
    unfolding st1_def by (rule DDS_init_body_Inr [OF assms])
  have f1: "param_default_value st1 =
      filter (\<lambda>p. fst p \<noteq> ''SINI'') (param_default_value st0) @ [(''SHAPMAX'', PyNum 0)]"
    and f2: "binary_params st1 = keys_of (param_default_value st0) @ [''SHAPMAX'']"
    and f3: "binary_name st1 = ''DDS''" and f4: "instance_dict st1 = instance_dict st0"
    and f5: "warnings st1 = warnings st0" and f6: "cls st1 = cls st0"
    and f7: "t st1 = t st0" and f8: "tt0 st1 = tt0 st0"
    by (simp_all add: st1_def)
  note sp = set_param_values_py_setattr [OF nS]
  show ?thesis
    by (rule that [OF init]) (simp_all only: sp f1 f2 f3 f4 f5 f6 f7 f8)
qed

lemma DDSmodel_init_default: "DDSmodel_init t_arg input_params = Inr DDS_default_state"
  by (simp add: DDSmodel_init_def DDS_init_body_def DD_init_def set_param_values_def
      DD_param_default_value_def py_setattr_def dict_update_def dict_delitem_def
      DDS_SINI_setter_def DDS_default_state_def DDS_default_table_def)

section \<open>The invariant of the reachable states\<close>

lemma DDS_inv_default: "DDS_inv DDS_default_state"
  by (simp add: DDS_inv_def DDS_default_state_def DDS_default_table_def DD_param_default_value_def)

lemma DDS_inv_py_setattr: "DDS_inv st \<Longrightarrow> DDS_inv (py_setattr st k v)"
  by (auto simp: DDS_inv_def py_setattr_def DDS_SINI_setter_def pydict_simps split: option.splits)

lemma DDS_inv_set_t: "DDS_inv st \<Longrightarrow> set_t ts st = Inr st' \<Longrightarrow> DDS_inv st'"
  by (auto simp: DDS_inv_def set_t_def rbind_eq_Inr_iff dest: get_tt0_length)

lemma dds_reachable_inv: "dds_reachable st \<Longrightarrow> DDS_inv st"
proof (induction rule: dds_reachable.induct)
  case (init t_arg input_params st)
  then show ?case by (simp add: DDSmodel_init_default DDS_inv_default)
next
  case (assign st k v)
  then show ?case by (simp add: DDS_inv_py_setattr)
next
  case (epochs st ts st')
  then show ?case by (blast intro: DDS_inv_set_t)
qed

lemma dds_reachable_cls: "dds_reachable st \<Longrightarrow> cls st = DDSmodel"
  using dds_reachable_inv by (simp add: DDS_inv_def)

lemma dds_reachable_default: "dds_reachable DDS_default_state"
  by (rule dds_reachable.init [OF DDSmodel_init_default [of None None]])

section \<open>Properties of the DDS model\<close>

subsection \<open>The SINI property\<close>

text \<open>
  C1. After \<^verbatim>\<open>SHAPMAX\<close> is assigned a number \<open>s\<close>, or a dimensionless quantity \<open>s\<close>,
  reading \<^verbatim>\<open>SINI\<close> returns exactly \<open>1 - exp (-s)\<close> of the same kind: the retired
  parameter is the function of the new one that the class documentation states.
\<close>

theorem SINI_roundtrip_SHAPMAX:
  assumes "cls st = DDSmodel"
  shows "py_getattr (py_setattr st ''SHAPMAX'' (PyNum s)) ''SINI'' = Inr (PyNum (1 - exp (- s))) \<and>
    py_getattr (py_setattr st ''SHAPMAX'' (PyQty s dimensionless)) ''SINI'' =
      Inr (PyQty (1 - exp (- s)) dimensionless)"
  using assms by (simp add: py_getattr_def py_setattr_def DDS_SINI_def)

theorem SINI_roundtrip_SHAPMAX_witness:
  "cls DDS_default_state = DDSmodel \<and>
   py_getattr (py_setattr DDS_default_state ''SHAPMAX'' (PyNum 2)) ''SINI'' =
     Inr (PyNum (1 - exp (- 2))) \<and>
   py_getattr (py_setattr DDS_default_state ''SHAPMAX'' (PyQty 2 dimensionless)) ''SINI'' =
     Inr (PyQty (1 - exp (- 2)) dimensionless)"
  using SINI_roundtrip_SHAPMAX [of DDS_default_state 2] by (simp add: DDS_default_state_def)

text \<open>
  C2. The analytic derivative is wrong. As a function of \<^verbatim>\<open>SHAPMAX\<close> \<open>= s\<close>, the value
  the \<^verbatim>\<open>SINI\<close> getter returns has derivative \<open>exp (-s)\<close>; \<^verbatim>\<open>d_SINI_d_par("SHAPMAX")\<close>
  dispatches to \<^verbatim>\<open>d_SINI_d_SHAPMAX\<close> and returns \<open>-exp s\<close>, which differs from it at
  every \<open>s\<close> (it is negative, the true derivative positive).
\<close>

theorem d_SINI_d_SHAPMAX_sign_bug:
  assumes "cls st = DDSmodel"
  shows "DERIV (\<lambda>x. case py_getattr (py_setattr st ''SHAPMAX'' (PyNum x)) ''SINI'' of
                      Inr (PyNum y) \<Rightarrow> y | _ \<Rightarrow> 0) s :> exp (- s) \<and>
    d_SINI_d_par (py_setattr st ''SHAPMAX'' (PyNum s)) ''SHAPMAX'' = Inr (PyNum (- exp s)) \<and>
    - exp s \<noteq> exp (- s)"
proof -
  have "\<And>x. (case py_getattr (py_setattr st ''SHAPMAX'' (PyNum x)) ''SINI'' of
                      Inr (PyNum y) \<Rightarrow> y | _ \<Rightarrow> 0) = 1 - exp (- x)"
    using py_getattr_SINI_num [OF assms] by simp
  then have "DERIV (\<lambda>x. case py_getattr (py_setattr st ''SHAPMAX'' (PyNum x)) ''SINI'' of
                      Inr (PyNum y) \<Rightarrow> y | _ \<Rightarrow> 0) s :> exp (- s)"
    by (simp add: SINI_of_SHAPMAX_deriv)
  moreover have "d_SINI_d_par (py_setattr st ''SHAPMAX'' (PyNum s)) ''SHAPMAX'' = Inr (PyNum (- exp s))"
    using assms by (simp add: d_SINI_d_par_def py_getattr_def py_setattr_def d_SINI_method_def
        d_SINI_d_SHAPMAX_def)
  moreover have "- exp s \<noteq> exp (- s)"
    using exp_gt_zero [of s] exp_gt_zero [of "- s"] by linarith
  ultimately show ?thesis by blast
qed

theorem d_SINI_d_SHAPMAX_sign_bug_witness:
  "cls DDS_default_state = DDSmodel \<and>
   DERIV (\<lambda>x. case py_getattr (py_setattr DDS_default_state ''SHAPMAX'' (PyNum x)) ''SINI'' of
                      Inr (PyNum y) \<Rightarrow> y | _ \<Rightarrow> 0) 0 :> 1 \<and>
   d_SINI_d_par (py_setattr DDS_default_state ''SHAPMAX'' (PyNum 0)) ''SHAPMAX'' = Inr (PyNum (- 1))"
  using d_SINI_d_SHAPMAX_sign_bug [of DDS_default_state 0] by (simp add: DDS_default_state_def)

text \<open>
  C3. Assigning \<^verbatim>\<open>SINI\<close> on a DDS instance changes no attribute (every \<^verbatim>\<open>getattr\<close>,
  \<^verbatim>\<open>SINI\<close> included, reads what it read before) and issues exactly one compatibility warning.
\<close>

theorem SINI_write_ignored:
  assumes "cls st = DDSmodel"
  shows "(\<forall>k. py_getattr (py_setattr st ''SINI'' v) k = py_getattr st k) \<and>
    instance_dict (py_setattr st ''SINI'' v) = instance_dict st \<and>
    warnings (py_setattr st ''SINI'' v) = warnings st @ [DDS_SINI_warning]"
  using assms by (simp add: py_getattr_def py_setattr_def DDS_SINI_setter_def DDS_SINI_def)

theorem SINI_write_ignored_witness:
  "cls DDS_default_state = DDSmodel \<and>
   py_getattr (py_setattr DDS_default_state ''SINI'' (PyNum (1 / 2))) ''SINI'' =
     py_getattr DDS_default_state ''SINI'' \<and>
   warnings (py_setattr DDS_default_state ''SINI'' (PyNum (1 / 2))) =
     [DDS_SINI_warning, DDS_SINI_warning]"
  using SINI_write_ignored [of DDS_default_state "PyNum (1 / 2)"]
  by (simp add: DDS_default_state_def)

subsection \<open>The derivative dispatch\<close>

text \<open>
  C4. In every reachable state with epochs set, the derivative of \<^verbatim>\<open>SINI\<close> with respect to
  a parameter it does not depend on (an attribute with a unit \<open>u\<close>, other than
  \<^verbatim>\<open>SHAPMAX\<close>) is an array of zeros with one entry per epoch and the unit \<open>1/u\<close>.
\<close>

theorem dds_reachable_zero_derivative:
  assumes "dds_reachable st" "t st = Some ts"
    and "load_attr st p = Inr v" "py_unit v = Inr u" "unit_wf u"
    and "p \<noteq> ''SHAPMAX''" "p \<noteq> ''par''"
  shows "\<exists>U. d_SINI_d_par st p = Inr (PyArr (replicate (length ts) 0) U) \<and>
    (\<forall>c. unit_exp U c = - unit_exp u c)"
proof -
  from assms(1) have inv: "DDS_inv st" by (rule dds_reachable_inv)
  with assms(2) obtain tt where tt: "tt0 st = Some tt" "length tt = length ts"
    by (auto simp: DDS_inv_def)
  from inv have "map_of (instance_dict st) ''SINI'' = None"
    by (simp add: DDS_inv_def map_of_eq_None_iff)
  with assms(3) have "p \<noteq> ''SINI''" by (auto simp: load_attr_def)
  with inv assms(3-7) tt d_SINI_d_par_fallback [of st p v u tt] show ?thesis
    by (simp add: DDS_inv_def)
qed

theorem dds_reachable_zero_derivative_witness:
  "dds_reachable (DDS_default_state\<lparr>t := Some [54001, 54002],
                   tt0 := Some [86400, 2 * 86400]\<rparr>) \<and>
   (\<exists>U. d_SINI_d_par (DDS_default_state\<lparr>t := Some [54001, 54002],
                   tt0 := Some [86400, 2 * 86400]\<rparr>) ''PB'' = Inr (PyArr [0, 0] U) \<and>
        (\<forall>c. unit_exp U c = - unit_exp u_day c))"
proof -
  let ?st = "DDS_default_state\<lparr>t := Some [54001, 54002], tt0 := Some [86400, 2 * 86400]\<rparr>"
  have set: "set_t [54001, 54002] DDS_default_state = Inr ?st"
    by (simp add: set_t_def get_tt0_def load_attr_def DDS_default_state_def DDS_default_table_def
        DD_param_default_value_def)
  have r: "dds_reachable ?st"
    by (rule dds_reachable.epochs [OF dds_reachable_default set])
  have pb: "load_attr ?st ''PB'' = Inr (PyQty 10 u_day)"
    by (simp add: load_attr_def DDS_default_state_def DDS_default_table_def DD_param_default_value_def)
  show ?thesis
    using r dds_reachable_zero_derivative [OF r _ pb, of "[54001, 54002]" u_day]
    by (simp add: u_day_def)
qed

text \<open>
  C5. In every reachable state \<^verbatim>\<open>SINI\<close> is never stored on the instance, \<^verbatim>\<open>SHAPMAX\<close> is,
  and reading \<^verbatim>\<open>SINI\<close> computes \<^verbatim>\<open>1 - np.exp(-SHAPMAX)\<close> from the current \<^verbatim>\<open>SHAPMAX\<close>.
\<close>

theorem dds_reachable_SINI_derived:
  assumes "dds_reachable st"
  shows "''SINI'' \<notin> set (keys_of (instance_dict st)) \<and>
    (\<exists>v. load_attr st ''SHAPMAX'' = Inr v \<and>
         py_getattr st ''SINI'' = rbind (np_exp (py_neg v)) (py_rsub 1))"
proof -
  from assms have inv: "DDS_inv st" by (rule dds_reachable_inv)
  then obtain v where "map_of (instance_dict st) ''SHAPMAX'' = Some v"
    by (auto simp: DDS_inv_def dest: weak_map_of_SomeI)
  with inv show ?thesis
    by (auto simp: DDS_inv_def py_getattr_def load_attr_def DDS_SINI_def)
qed

theorem dds_reachable_SINI_derived_witness:
  "dds_reachable (py_setattr DDS_default_state ''SHAPMAX'' (PyNum 3)) \<and>
   py_getattr (py_setattr DDS_default_state ''SHAPMAX'' (PyNum 3)) ''SINI'' = Inr (PyNum (1 - exp (- 3)))"
proof -
  have r: "dds_reachable (py_setattr DDS_default_state ''SHAPMAX'' (PyNum 3))"
    by (rule dds_reachable.assign [OF dds_reachable_default])
  show ?thesis
    using r dds_reachable_SINI_derived [OF r]
    by (simp add: py_setattr_def DDS_default_state_def)
qed

subsection \<open>Construction\<close>

text \<open>
  C6. On a base instance whose default table has \<^verbatim>\<open>SINI\<close> and no \<^verbatim>\<open>SHAPMAX\<close>, the
  constructor body succeeds, names the model \<^verbatim>\<open>DDS\<close>, and leaves the table's keys in their
  order without \<^verbatim>\<open>SINI\<close> and with \<^verbatim>\<open>SHAPMAX\<close> appended.
\<close>

theorem DDS_init_param_table:
  assumes "''SINI'' \<in> set (keys_of (param_default_value st0))"
    and "''SHAPMAX'' \<notin> set (keys_of (param_default_value st0))"
  shows "\<exists>st. DDS_init_body st0 = Inr st \<and> binary_name st = ''DDS'' \<and>
    keys_of (param_default_value st) =
      filter (\<lambda>k. k \<noteq> ''SINI'') (keys_of (param_default_value st0)) @ [''SHAPMAX'']"
proof -
  obtain st where "DDS_init_body st0 = Inr st" "binary_name st = ''DDS''"
    and "param_default_value st =
           filter (\<lambda>p. fst p \<noteq> ''SINI'') (param_default_value st0) @ [(''SHAPMAX'', PyNum 0)]"
    using assms by (rule DDS_init_body_fields)
  then show ?thesis by (auto simp: keys_of_filter_neq)
qed

theorem DDS_init_param_table_witness:
  "''SINI'' \<in> set (keys_of (param_default_value (DD_init py_setattr DDSmodel))) \<and>
   ''SHAPMAX'' \<notin> set (keys_of (param_default_value (DD_init py_setattr DDSmodel))) \<and>
   (\<exists>st. DDS_init_body (DD_init py_setattr DDSmodel) = Inr st \<and> binary_name st = ''DDS'' \<and>
     keys_of (param_default_value st) =
       [''PB'', ''PBDOT'', ''ECC'', ''EDOT'', ''A1'', ''A1DOT'', ''T0'', ''OM'', ''OMDOT'',
        ''XPBDOT'', ''M2'', ''GAMMA'', ''A0'', ''B0'', ''DR'', ''DTH'', ''SHAPMAX''])"
proof -
  have k: "keys_of (param_default_value (DD_init py_setattr DDSmodel)) = keys_of DD_param_default_value"
    using fold_setattr_frame [OF py_setattr_warns_on] by (simp add: DD_init_def set_param_values_def)
  have a: "''SINI'' \<in> set (keys_of (param_default_value (DD_init py_setattr DDSmodel)))"
    and b: "''SHAPMAX'' \<notin> set (keys_of (param_default_value (DD_init py_setattr DDSmodel)))"
    by (simp_all only: k) (simp_all add: DD_param_default_value_def)
  show ?thesis
    using a b DDS_init_param_table [OF a b] by (simp add: k DD_param_default_value_def)
qed

text \<open>
  C7. The constructor takes the parameter list before it deletes \<^verbatim>\<open>SINI\<close> from the
  default table (line 55 before line 57): \<^verbatim>\<open>binary_params\<close> keeps \<^verbatim>\<open>SINI\<close> while the
  table, which \<^verbatim>\<open>set_param_values\<close> walks, no longer has it.
\<close>

theorem DDS_init_binary_params_keep_SINI:
  assumes "''SINI'' \<in> set (keys_of (param_default_value st0))"
    and "''SHAPMAX'' \<notin> set (keys_of (param_default_value st0))"
  shows "\<exists>st. DDS_init_body st0 = Inr st \<and>
    binary_params st = keys_of (param_default_value st0) @ [''SHAPMAX''] \<and>
    ''SINI'' \<in> set (binary_params st) \<and> ''SINI'' \<notin> set (keys_of (param_default_value st))"
proof -
  obtain st where "DDS_init_body st0 = Inr st"
    and "param_default_value st =
           filter (\<lambda>p. fst p \<noteq> ''SINI'') (param_default_value st0) @ [(''SHAPMAX'', PyNum 0)]"
    and "binary_params st = keys_of (param_default_value st0) @ [''SHAPMAX'']"
    using assms by (rule DDS_init_body_fields)
  with assms(1) show ?thesis by auto
qed

theorem DDS_init_binary_params_keep_SINI_witness:
  "''SINI'' \<in> set (keys_of (param_default_value (DD_init py_setattr DDSmodel))) \<and>
   ''SHAPMAX'' \<notin> set (keys_of (param_default_value (DD_init py_setattr DDSmodel))) \<and>
   (\<exists>st. DDS_init_body (DD_init py_setattr DDSmodel) = Inr st \<and>
     ''SINI'' \<in> set (binary_params st) \<and> ''SINI'' \<notin> set (keys_of (param_default_value st)))"
proof -
  have k: "keys_of (param_default_value (DD_init py_setattr DDSmodel)) = keys_of DD_param_default_value"
    using fold_setattr_frame [OF py_setattr_warns_on] by (simp add: DD_init_def set_param_values_def)
  have a: "''SINI'' \<in> set (keys_of (param_default_value (DD_init py_setattr DDSmodel)))"
    and b: "''SHAPMAX'' \<notin> set (keys_of (param_default_value (DD_init py_setattr DDSmodel)))"
    by (simp_all only: k) (simp_all add: DD_param_default_value_def)
  show ?thesis
    using a b DDS_init_binary_params_keep_SINI [OF a b] by blast
qed

text \<open>
  C8. After construction every entry of the default table is the value of its attribute,
  and the DDS constructor body itself issues no warning.
\<close>

theorem DDS_init_defaults_assigned:
  assumes "''SINI'' \<in> set (keys_of (param_default_value st0))"
    and "''SHAPMAX'' \<notin> set (keys_of (param_default_value st0))"
    and "dict_wf (param_default_value st0)"
  shows "\<exists>st. DDS_init_body st0 = Inr st \<and> warnings st = warnings st0 \<and>
    (\<forall>(k, v) \<in> set (param_default_value st). py_getattr st k = Inr v)"
proof -
  obtain st where init: "DDS_init_body st0 = Inr st"
    and tab: "param_default_value st =
           filter (\<lambda>p. fst p \<noteq> ''SINI'') (param_default_value st0) @ [(''SHAPMAX'', PyNum 0)]"
    and inst: "instance_dict st = dict_update (instance_dict st0) (param_default_value st)"
    and w: "warnings st = warnings st0"
    using assms(1,2) by (rule DDS_init_body_fields)
  have wf: "distinct (keys_of (param_default_value st))"
    using assms(2,3) by (auto simp: tab dict_wf_def distinct_filter_keys keys_of_filter_neq)
  have "py_getattr st k = Inr v" if kv: "(k, v) \<in> set (param_default_value st)" for k v
  proof -
    from kv have nk: "k \<noteq> ''SINI''" by (auto simp: tab)
    from wf kv have "map_of (param_default_value st) k = Some v" by (rule map_of_is_SomeI)
    then have "map_of (instance_dict st) k = Some v"
      by (simp add: inst map_of_dict_update_distinct [OF wf] map_add_find_right)
    with nk show ?thesis by (simp add: py_getattr_def load_attr_def)
  qed
  with init w show ?thesis by auto
qed

theorem DDS_init_defaults_assigned_witness:
  "''SINI'' \<in> set (keys_of (param_default_value (DD_init py_setattr DDSmodel))) \<and>
   ''SHAPMAX'' \<notin> set (keys_of (param_default_value (DD_init py_setattr DDSmodel))) \<and>
   dict_wf (param_default_value (DD_init py_setattr DDSmodel)) \<and>
   (\<exists>st. DDS_init_body (DD_init py_setattr DDSmodel) = Inr st \<and>
     warnings st = warnings (DD_init py_setattr DDSmodel) \<and>
     (\<forall>(k, v) \<in> set (param_default_value st). py_getattr st k = Inr v))"
proof -
  have p: "param_default_value (DD_init py_setattr DDSmodel) = DD_param_default_value"
    using fold_setattr_frame [OF py_setattr_warns_on] by (simp add: DD_init_def set_param_values_def)
  have a: "''SINI'' \<in> set (keys_of (param_default_value (DD_init py_setattr DDSmodel)))"
    and b: "''SHAPMAX'' \<notin> set (keys_of (param_default_value (DD_init py_setattr DDSmodel)))"
    and c: "dict_wf (param_default_value (DD_init py_setattr DDSmodel))"
    by (simp_all only: p) (simp_all add: DD_param_default_value_def dict_wf_def)
  show ?thesis
    using a b c DDS_init_defaults_assigned [OF a b c] by blast
qed

subsection \<open>Error paths of the derivative\<close>

text \<open>
  C9. \<^verbatim>\<open>d_SINI_d_par(par)\<close> for a name that is no attribute of the instance raises
  \<open>AttributeError\<close>: the lookup \<^verbatim>\<open>getattr(self, par)\<close> is outside the \<^verbatim>\<open>try\<close>.
\<close>

theorem d_SINI_d_par_no_attribute:
  assumes "cls st = DDSmodel" "par \<noteq> ''SINI''" "par \<notin> set (keys_of (instance_dict st))"
  shows "d_SINI_d_par st par = Inl (AttributeError par)"
proof -
  from assms(3) have "map_of (instance_dict st) par = None"
    by (simp add: map_of_eq_None_iff)
  with assms show ?thesis by (simp add: d_SINI_d_par_def py_getattr_def load_attr_def)
qed

theorem d_SINI_d_par_no_attribute_witness:
  "cls DDS_default_state = DDSmodel \<and>
   d_SINI_d_par DDS_default_state ''KIN'' = Inl (AttributeError ''KIN'')"
proof -
  have "''KIN'' \<notin> set (keys_of (instance_dict DDS_default_state))"
    by (simp add: DDS_default_state_def DDS_default_table_def DD_param_default_value_def)
  then show ?thesis
    using d_SINI_d_par_no_attribute [of DDS_default_state "''KIN''"]
    by (simp add: DDS_default_state_def)
qed

text \<open>
  C10. The "no dependency" fallback is not total: with \<^verbatim>\<open>SHAPMAX\<close> a plain number (its
  default is the \<^verbatim>\<open>int\<close> 0), \<^verbatim>\<open>SINI\<close> reads as a plain number, and
  \<^verbatim>\<open>d_SINI_d_par("SINI")\<close> raises \<open>AttributeError\<close> on \<^verbatim>\<open>par_obj.unit\<close> even with the
  epochs set.
\<close>

theorem d_SINI_d_par_SINI_unitless:
  assumes "cls st = DDSmodel" "load_attr st ''SHAPMAX'' = Inr (PyNum s)" "tt0 st = Some tt"
  shows "d_SINI_d_par st ''SINI'' = Inl (AttributeError ''unit'')"
  using assms
  by (simp add: d_SINI_d_par_def py_getattr_def DDS_SINI_def d_SINI_method_def len_tt0_def)

theorem d_SINI_d_par_SINI_unitless_witness:
  "cls (DDS_default_state\<lparr>tt0 := Some [0]\<rparr>) = DDSmodel \<and>
   load_attr (DDS_default_state\<lparr>tt0 := Some [0]\<rparr>) ''SHAPMAX'' = Inr (PyNum 0) \<and>
   d_SINI_d_par (DDS_default_state\<lparr>tt0 := Some [0]\<rparr>) ''SINI'' = Inl (AttributeError ''unit'')"
proof -
  have a: "cls (DDS_default_state\<lparr>tt0 := Some [0]\<rparr>) = DDSmodel"
    and b: "load_attr (DDS_default_state\<lparr>tt0 := Some [0]\<rparr>) ''SHAPMAX'' = Inr (PyNum 0)"
    by (simp_all add: DDS_default_state_def load_attr_def DDS_default_table_def
        DD_param_default_value_def)
  show ?thesis using a b d_SINI_d_par_SINI_unitless [OF a b] by simp
qed

text \<open>
  C11. Before any epochs are assigned, the fallback raises \<open>TypeError\<close> on
  \<^verbatim>\<open>len(self.tt0)\<close> for every parameter without a derivative rule.
\<close>

theorem d_SINI_d_par_no_epochs:
  assumes "cls st = DDSmodel" "par \<noteq> ''SHAPMAX''" "par \<noteq> ''par''"
    and "py_getattr st par = Inr v" "tt0 st = None"
  shows "d_SINI_d_par st par = Inl TypeError"
  using assms by (simp add: d_SINI_d_par_def d_SINI_method_def len_tt0_def)

theorem d_SINI_d_par_no_epochs_witness:
  "cls DDS_default_state = DDSmodel \<and> py_getattr DDS_default_state ''PB'' = Inr (PyQty 10 u_day) \<and>
   tt0 DDS_default_state = None \<and> d_SINI_d_par DDS_default_state ''PB'' = Inl TypeError"
proof -
  have a: "cls DDS_default_state = DDSmodel" and n: "tt0 DDS_default_state = None"
    and b: "py_getattr DDS_default_state ''PB'' = Inr (PyQty 10 u_day)"
    by (simp_all add: DDS_default_state_def py_getattr_def load_attr_def DDS_default_table_def
        DD_param_default_value_def)
  show ?thesis using a b n d_SINI_d_par_no_epochs [OF a _ _ b n] by simp
qed

text \<open>
  C12. The constructor body fails with \<open>KeyError\<close> on a base instance whose table has no
  \<^verbatim>\<open>SINI\<close>: \<^verbatim>\<open>del self.param_default_value["SINI"]\<close> is unguarded. Running it a second
  time on a DDS instance is such a case.
\<close>

theorem DDS_init_body_KeyError:
  assumes "''SINI'' \<notin> set (keys_of (param_default_value st0))"
  shows "DDS_init_body st0 = Inl (KeyError ''SINI'')"
  using assms
  by (simp add: DDS_init_body_def Let_def dict_update_def dict_delitem_def set_keys_dict_setitem)

theorem DDS_init_body_KeyError_witness:
  "''SINI'' \<notin> set (keys_of (param_default_value DDS_default_state)) \<and>
   DDS_init_body DDS_default_state = Inl (KeyError ''SINI'')"
proof -
  have a: "''SINI'' \<notin> set (keys_of (param_default_value DDS_default_state))"
    by (simp add: DDS_default_state_def DDS_default_table_def DD_param_default_value_def)
  show ?thesis using a DDS_init_body_KeyError [OF a] by simp
qed

subsection \<open>Bounds of the reparameterisation\<close>

text \<open>
  C19. Bounds of the reparameterisation (lines 16 and 62): when \<^verbatim>\<open>SHAPMAX\<close> is a number
  \<open>s\<close>, \<^verbatim>\<open>SINI\<close> is below 1, non-negative exactly when \<open>s\<close> is, and
  \<open>-log(1 - SINI) = s\<close>, the relation the class documentation states.
\<close>

theorem dds_reachable_SINI_bounds:
  assumes "dds_reachable st" "load_attr st ''SHAPMAX'' = Inr (PyNum s)"
  shows "\<exists>x. py_getattr st ''SINI'' = Inr (PyNum x) \<and> x < 1 \<and> (0 \<le> x \<longleftrightarrow> 0 \<le> s) \<and>
    - ln (1 - x) = s"
  using py_getattr_SINI_DDS [OF dds_reachable_cls [OF assms(1)] assms(2)] SINI_scalar_bounds [of s]
  by simp

theorem dds_reachable_SINI_bounds_witness:
  "\<exists>x. py_getattr (py_setattr DDS_default_state ''SHAPMAX'' (PyNum 2)) ''SINI'' = Inr (PyNum x) \<and>
     0 \<le> x \<and> x < 1"
proof -
  have r: "dds_reachable (py_setattr DDS_default_state ''SHAPMAX'' (PyNum 2))"
    by (rule dds_reachable.assign [OF dds_reachable_default])
  have l: "load_attr (py_setattr DDS_default_state ''SHAPMAX'' (PyNum 2)) ''SHAPMAX'' = Inr (PyNum 2)"
    by (simp add: py_setattr_def)
  show ?thesis using dds_reachable_SINI_bounds [OF r l] by auto
qed

end
