(* ===== verification/Matrix.thy ===== *)
theory Matrix
  imports Prelude
begin

text \<open>
  Dense real matrices as lists of rows, the representation numpy arrays have in the fitter
  (a design matrix is a list of rows, one per residual). Products, transposes and diagonal
  matrices, with their dimensions; \<open>mat_wf m n A\<close> says that \<open>A\<close> has \<open>m\<close> rows of
  length \<open>n\<close>. The linear solves of the fitter (numpy/scipy) are an interface,
  \<open>linalg\<close>, with the contract \<open>linalg_sound\<close>: a returned solution solves the system,
  a returned inverse is a square right inverse (numpy's \<^verbatim>\<open>inv\<close> returns a matrix of
  the shape of its argument).
\<close>

type_synonym mat = "real list list"
type_synonym vec = "real list"

definition dot :: "vec \<Rightarrow> vec \<Rightarrow> real" where
  "dot xs ys = sum_list (map2 (*) xs ys)"

definition mat_vec :: "mat \<Rightarrow> vec \<Rightarrow> vec" where
  "mat_vec A x = map (\<lambda>row. dot row x) A"

definition mat_mul :: "mat \<Rightarrow> mat \<Rightarrow> mat" where
  "mat_mul A B = map (\<lambda>row. map (\<lambda>col. dot row col) (transpose B)) A"

definition diag_mat :: "vec \<Rightarrow> mat" where
  "diag_mat ds =
     map (\<lambda>i. map (\<lambda>j. if i = j then ds ! i else 0) [0..<length ds]) [0..<length ds]"

definition ident_mat :: "nat \<Rightarrow> mat" where
  "ident_mat n = diag_mat (replicate n 1)"

definition mat_add :: "mat \<Rightarrow> mat \<Rightarrow> mat" where
  "mat_add A B = map2 (map2 (+)) A B"

definition mat_wf :: "nat \<Rightarrow> nat \<Rightarrow> mat \<Rightarrow> bool" where
  "mat_wf m n A \<longleftrightarrow> length A = m \<and> (\<forall>row \<in> set A. length row = n)"

record linalg =
  la_solve :: "mat \<Rightarrow> vec \<Rightarrow> vec option"
  la_inv :: "mat \<Rightarrow> mat option"

definition linalg_sound :: "linalg \<Rightarrow> bool" where
  "linalg_sound la \<longleftrightarrow>
     (\<forall>A b x. la_solve la A b = Some x \<longrightarrow> mat_vec A x = b) \<and>
     (\<forall>C B. la_inv la C = Some B \<longrightarrow>
        mat_wf (length C) (length C) B \<and> mat_mul C B = ident_mat (length C))"

lemma length_mat_vec [simp]: "length (mat_vec A x) = length A"
  by (simp add: mat_vec_def)

lemma length_mat_mul [simp]: "length (mat_mul A B) = length A"
  by (simp add: mat_mul_def)

lemma length_diag_mat [simp]: "length (diag_mat ds) = length ds"
  by (simp add: diag_mat_def)

lemma mat_wf_diag: "mat_wf (length ds) (length ds) (diag_mat ds)"
  by (auto simp: mat_wf_def diag_mat_def)

lemma dot_zero_right [simp]: "dot xs (replicate n 0) = 0"
proof (induction xs arbitrary: n)
  case Nil
  then show ?case by (simp add: dot_def)
next
  case (Cons a xs)
  then show ?case by (cases n) (simp_all add: dot_def)
qed

subsection \<open>Diagonal matrices and their inverses\<close>

lemma nth_diag_mat:
  "i < length ds \<Longrightarrow> j < length ds \<Longrightarrow> diag_mat ds ! i ! j = (if i = j then ds ! i else 0)"
  by (simp add: diag_mat_def)

lemma diag_mat_row:
  "i < length ds \<Longrightarrow> diag_mat ds ! i = map (\<lambda>j. if i = j then ds ! i else 0) [0..<length ds]"
  by (simp add: diag_mat_def)

lemma dot_nth: "length xs = length ys \<Longrightarrow> dot xs ys = (\<Sum>j<length xs. xs ! j * ys ! j)"
  by (simp add: dot_def sum_list_sum_nth atLeast0LessThan)

lemma dot_unit_left:
  assumes "i < n" "length v = n"
  shows "dot (map (\<lambda>j. if i = j then a else 0) [0..<n]) v = a * v ! i"
proof -
  have "dot (map (\<lambda>j. if i = j then a else 0) [0..<n]) v = (\<Sum>j<n. (if i = j then a else 0) * v ! j)"
    using assms(2) by (simp add: dot_nth)
  also have "\<dots> = (\<Sum>j<n. if i = j then a * v ! j else 0)"
    by (intro sum.cong) auto
  also have "\<dots> = a * v ! i" using assms(1) by simp
  finally show ?thesis .
qed

lemma foldr_max_rows:
  "\<forall>r \<in> set W. length r = n \<Longrightarrow> W \<noteq> [] \<Longrightarrow> foldr (\<lambda>xs. max (length xs)) W 0 = n"
proof (induction W)
  case Nil
  then show ?case by simp
next
  case (Cons r W)
  then show ?case by (cases W) simp_all
qed

lemma transpose_square:
  assumes "mat_wf n n W"
  shows "length (transpose W) = n \<and> (\<forall>j < n. transpose W ! j = map (\<lambda>r. r ! j) W)"
proof -
  from assms have len: "length W = n" and rows: "\<forall>r \<in> set W. length r = n"
    by (auto simp: mat_wf_def)
  have lt: "length (transpose W) = n"
  proof (cases "W = []")
    case True
    with len show ?thesis by simp
  next
    case False
    show ?thesis using foldr_max_rows [OF rows False] by (simp only: length_transpose)
  qed
  have "transpose W ! j = map (\<lambda>r. r ! j) W" if "j < n" for j
  proof -
    have "filter (\<lambda>ys. j < length ys) W = W" using rows that by (simp add: filter_id_conv)
    with that lt show ?thesis by (simp add: nth_transpose)
  qed
  with lt show ?thesis by blast
qed

lemma mat_mul_diag_left:
  assumes "mat_wf n n W" "length ds = n"
  shows "mat_mul (diag_mat ds) W = map (\<lambda>i. map (\<lambda>x. ds ! i * x) (W ! i)) [0..<n]"
proof (rule nth_equalityI)
  show "length (mat_mul (diag_mat ds) W) = length (map (\<lambda>i. map (\<lambda>x. ds ! i * x) (W ! i)) [0..<n])"
    using assms(2) by simp
next
  fix i assume "i < length (mat_mul (diag_mat ds) W)"
  then have i: "i < n" using assms(2) by simp
  from assms(1) have len: "length W = n" and rows: "\<forall>r \<in> set W. length r = n"
    by (auto simp: mat_wf_def)
  have Wi: "length (W ! i) = n" using rows i len by simp
  note tr = transpose_square [OF assms(1)]
  have "mat_mul (diag_mat ds) W ! i = map (\<lambda>col. dot (diag_mat ds ! i) col) (transpose W)"
    using i assms(2) by (simp add: mat_mul_def)
  also have "\<dots> = map (\<lambda>x. ds ! i * x) (W ! i)"
  proof (rule nth_equalityI)
    fix j assume "j < length (map (\<lambda>col. dot (diag_mat ds ! i) col) (transpose W))"
    then have j: "j < n" using tr by simp
    have "dot (diag_mat ds ! i) (transpose W ! j) = ds ! i * W ! i ! j"
      using i j tr len assms(2) by (simp add: diag_mat_row dot_unit_left)
    then show "map (\<lambda>col. dot (diag_mat ds ! i) col) (transpose W) ! j = map (\<lambda>x. ds ! i * x) (W ! i) ! j"
      using j tr Wi by simp
  qed (simp add: tr Wi)
  finally show "mat_mul (diag_mat ds) W ! i = map (\<lambda>i. map (\<lambda>x. ds ! i * x) (W ! i)) [0..<n] ! i"
    using i by simp
qed

lemma diag_right_inverse_unique:
  assumes "mat_wf n n W" "length ds = n" "\<forall>d \<in> set ds. d \<noteq> 0"
    and "mat_mul (diag_mat ds) W = ident_mat n"
  shows "W = diag_mat (map (\<lambda>d. 1 / d) ds)"
proof (rule nth_equalityI)
  from assms(1) have len: "length W = n" and rows: "\<forall>r \<in> set W. length r = n"
    by (auto simp: mat_wf_def)
  show "length W = length (diag_mat (map (\<lambda>d. 1 / d) ds))" using len assms(2) by simp
  fix i assume "i < length W"
  then have i: "i < n" using len by simp
  have Wi: "length (W ! i) = n" using rows i len by simp
  have "mat_mul (diag_mat ds) W ! i = map (\<lambda>x. ds ! i * x) (W ! i)"
    using mat_mul_diag_left [OF assms(1,2)] i by simp
  with assms(4) have row: "map (\<lambda>x. ds ! i * x) (W ! i) = ident_mat n ! i" by simp
  have nz: "ds ! i \<noteq> 0" using assms(2,3) i by simp
  show "W ! i = diag_mat (map (\<lambda>d. 1 / d) ds) ! i"
  proof (rule nth_equalityI)
    show "length (W ! i) = length (diag_mat (map (\<lambda>d. 1 / d) ds) ! i)"
      using Wi i assms(2) by (simp add: diag_mat_row)
    fix j assume "j < length (W ! i)"
    then have j: "j < n" using Wi by simp
    have eq: "ds ! i * W ! i ! j = (if i = j then 1 else 0)"
      using arg_cong [OF row, of "\<lambda>r. r ! j"] i j Wi by (simp add: ident_mat_def nth_diag_mat)
    have dg: "diag_mat (map (\<lambda>d. 1 / d) ds) ! i ! j = (if i = j then 1 / ds ! i else 0)"
      using i j assms(2) by (simp add: nth_diag_mat)
    show "W ! i ! j = diag_mat (map (\<lambda>d. 1 / d) ds) ! i ! j"
    proof (cases "i = j")
      case True
      with eq nz have "W ! i ! j = 1 / ds ! i" by (simp add: eq_divide_eq mult.commute)
      with True dg show ?thesis by simp
    next
      case False
      with eq nz dg show ?thesis by simp
    qed
  qed
qed

lemma map2_plus_zero: "length r = m \<Longrightarrow> map2 (+) r (replicate m (0::real)) = r"
proof (induction r arbitrary: m)
  case Nil
  then show ?case by simp
next
  case (Cons x r)
  then show ?case by (cases m) simp_all
qed

lemma map2_rows_zero:
  "\<forall>r \<in> set A. length r = m \<Longrightarrow>
   map2 (map2 (+)) A (replicate (length A) (replicate m (0::real))) = A"
  by (induction A) (simp_all add: map2_plus_zero)

lemma mat_add_zero_right:
  assumes "mat_wf n n A"
  shows "mat_add A (replicate n (replicate n 0)) = A"
proof -
  from assms have len: "length A = n" and rows: "\<forall>r \<in> set A. length r = n"
    by (auto simp: mat_wf_def)
  show ?thesis using map2_rows_zero [OF rows] len by (simp add: mat_add_def)
qed

lemma mat_mul_diag_inverse:
  assumes "\<forall>d \<in> set ds. d \<noteq> 0"
  shows "mat_mul (diag_mat ds) (diag_mat (map (\<lambda>d. 1 / d) ds)) = ident_mat (length ds)"
proof -
  have wf: "mat_wf (length ds) (length ds) (diag_mat (map (\<lambda>d. 1 / d) ds))"
    using mat_wf_diag [of "map (\<lambda>d. 1 / d) ds"] by simp
  show ?thesis
  proof (rule nth_equalityI)
    show "length (mat_mul (diag_mat ds) (diag_mat (map (\<lambda>d. 1 / d) ds))) = length (ident_mat (length ds))"
      by (simp add: ident_mat_def)
    fix i assume "i < length (mat_mul (diag_mat ds) (diag_mat (map (\<lambda>d. 1 / d) ds)))"
    then have i: "i < length ds" by simp
    have nz: "ds ! i \<noteq> 0" using assms i by simp
    have "mat_mul (diag_mat ds) (diag_mat (map (\<lambda>d. 1 / d) ds)) ! i =
        map (\<lambda>x. ds ! i * x) (diag_mat (map (\<lambda>d. 1 / d) ds) ! i)"
      using mat_mul_diag_left [OF wf] i by simp
    also have "\<dots> = ident_mat (length ds) ! i"
      using i nz by (simp add: diag_mat_row ident_mat_def)
    finally show "mat_mul (diag_mat ds) (diag_mat (map (\<lambda>d. 1 / d) ds)) ! i = ident_mat (length ds) ! i" .
  qed
qed

end
