(* ===== verification/Fitter.thy ===== *)
theory Fitter
  imports PyDict Matrix
begin

text \<open>
  The generalized multi-dataset fitter \<^verbatim>\<open>WidebandTOAFitter\<close> (\<^verbatim>\<open>pint/fitter.py\<close> and
  \<^verbatim>\<open>pint/residuals.py\<close>, not under src/), modelled from the specification (sections 3, 4.2
  and 7). The timing model's physics is an interface: \<open>model_eval\<close> gives each residual
  kind's residual and its partial derivatives at the current parameter values, and the
  correlated-noise covariance; numpy's solvers are the interface \<open>linalg\<close> of \<open>Matrix\<close>.
  What is modelled is the fitter's own logic:
  \<^item> construction (\<open>WidebandTOAFitter\<close>): one residual object per residual kind, in the
    order \<^verbatim>\<open>["toa", "dm"]\<close>, configured by \<^verbatim>\<open>additional_args\<close>, and the pre-fit
    residuals \<^verbatim>\<open>resids_init\<close>;
  \<^item> residuals computed on demand from the current parameters (\<open>resids_by_kind\<close>,
    \<open>combined_resids\<close>), with weighted mean subtraction and the weighted RMS;
  \<^item> \<^verbatim>\<open>set_fitparams\<close>/\<^verbatim>\<open>get_fitparams\<close> on the model's frozen flags;
  \<^item> \<^verbatim>\<open>get_designmatrix\<close>: rows per residual kind, an \<^verbatim>\<open>Offset\<close> column, labels;
  \<^item> one fit step (\<open>fit_step\<close>): weights (diagonal, or the inverse of the full covariance),
    normal equations, solve, then the update of the free parameters; and
    \<^verbatim>\<open>fit_toas\<close> (\<open>fit_toas\<close>), steps with an iteration bound and a threshold.
  A fit step returns the exception it raised together with the state it left, as Python
  does: a step that raises before the update leaves the fitter as it was.
\<close>

section \<open>Data\<close>

datatype resid_kind = ToaKind | DmKind

fun kind_label :: "resid_kind \<Rightarrow> string" where
  "kind_label ToaKind = ''toa''"
| "kind_label DmKind = ''dm''"

text \<open>A TOA: epoch, error, frequency, and the wideband DM measurement with its error.\<close>

record toa =
  toa_mjd :: real
  toa_error :: real
  toa_freq :: real
  toa_pp_dm :: "real option"
  toa_pp_dme :: "real option"

record param =
  par_value :: real
  par_frozen :: bool

record timing_model =
  tm_params :: "(string, param) pydict"

record model_eval =
  ev_resid :: "resid_kind \<Rightarrow> (string \<Rightarrow> real) \<Rightarrow> toa \<Rightarrow> real"
  ev_deriv :: "resid_kind \<Rightarrow> string \<Rightarrow> (string \<Rightarrow> real) \<Rightarrow> toa \<Rightarrow> real"
  ev_noise_cov :: "toa list \<Rightarrow> mat"

record resid_obj =
  ro_kind :: resid_kind
  ro_subtract_mean :: bool

record fitter =
  f_toas :: "toa list"
  f_model :: timing_model
  f_eval :: model_eval
  f_la :: linalg
  f_objs :: "(string, resid_obj) pydict"
  f_resids_init :: "(string, vec) pydict"

record design_matrix =
  dmx_rows :: mat
  dmx_row_labels :: "(string \<times> nat \<times> nat) list"
  dmx_derivative_params :: "string list"

section \<open>Residuals\<close>

definition param_values :: "timing_model \<Rightarrow> string \<Rightarrow> real" where
  "param_values m n = (case map_of (tm_params m) n of Some p \<Rightarrow> par_value p | None \<Rightarrow> 0)"

definition weighted_mean :: "vec \<Rightarrow> vec \<Rightarrow> real" where
  "weighted_mean xs ws = sum_list (map2 (*) ws xs) / sum_list ws"

text \<open>
  The data errors of a residual kind: the TOA errors, or the wideband DM errors, which
  every TOA must carry (\<open>KeyError\<close> otherwise).
\<close>

fun kind_errors :: "resid_kind \<Rightarrow> toa list \<Rightarrow> vec result" where
  "kind_errors ToaKind ts = Inr (map toa_error ts)"
| "kind_errors DmKind ts =
     (if \<forall>x \<in> set ts. toa_pp_dm x \<noteq> None \<and> toa_pp_dme x \<noteq> None
      then Inr (map (\<lambda>x. the (toa_pp_dme x)) ts) else Inl (KeyError ''pp_dm''))"

definition calc_resids :: "model_eval \<Rightarrow> timing_model \<Rightarrow> toa list \<Rightarrow> resid_obj \<Rightarrow> vec result" where
  "calc_resids ev m ts ro =
     rbind (kind_errors (ro_kind ro) ts) (\<lambda>errs.
       let raw = map (ev_resid ev (ro_kind ro) (param_values m)) ts
       in Inr (if ro_subtract_mean ro
               then map (\<lambda>r. r - weighted_mean raw (map (\<lambda>e. 1 / e\<^sup>2) errs)) raw
               else raw))"

text \<open>\<^verbatim>\<open>rms_weighted()\<close>: the weighted standard deviation; zero errors are refused.\<close>

definition rms_weighted :: "vec \<Rightarrow> vec \<Rightarrow> real result" where
  "rms_weighted rs errs =
     (if 0 \<in> set errs then Inl (ValueError ''zero data errors'')
      else let w = map (\<lambda>e. 1 / e\<^sup>2) errs; mu = weighted_mean rs w
           in Inr (sqrt (sum_list (map2 (\<lambda>wi r. wi * (r - mu)\<^sup>2) w rs) / sum_list w)))"

definition resids_by_kind :: "fitter \<Rightarrow> (string, vec) pydict result" where
  "resids_by_kind f =
     rmap (\<lambda>(l, ro). rbind (calc_resids (f_eval f) (f_model f) (f_toas f) ro) (\<lambda>r. Inr (l, r)))
          (f_objs f)"

definition combined_resids :: "fitter \<Rightarrow> vec result" where
  "combined_resids f = rbind (resids_by_kind f) (\<lambda>rs. Inr (concat (map snd rs)))"

definition combined_errors :: "fitter \<Rightarrow> vec result" where
  "combined_errors f =
     rbind (rmap (\<lambda>(l, ro). kind_errors (ro_kind ro) (f_toas f)) (f_objs f)) (\<lambda>es. Inr (concat es))"

section \<open>Construction\<close>

definition fit_data_names :: "resid_kind list" where
  "fit_data_names = [ToaKind, DmKind]"

fun default_subtract_mean :: "resid_kind \<Rightarrow> bool" where
  "default_subtract_mean ToaKind = True"
| "default_subtract_mean DmKind = False"

text \<open>
  The residual object of one kind, with the options \<^verbatim>\<open>additional_args[kind]\<close> gives;
  \<^verbatim>\<open>subtract_mean\<close> is the one recognised option.
\<close>

definition make_resid_obj ::
  "(string \<times> (string \<times> bool) list) list \<Rightarrow> resid_kind \<Rightarrow> resid_obj result" where
  "make_resid_obj add_args k =
     (let opts = (case map_of add_args (kind_label k) of None \<Rightarrow> [] | Some os \<Rightarrow> os)
      in case filter (\<lambda>n. n \<noteq> ''subtract_mean'') (keys_of opts) of
           n # _ \<Rightarrow> Inl (ConfigError n)
         | [] \<Rightarrow> Inr \<lparr>ro_kind = k,
                     ro_subtract_mean = (case map_of opts ''subtract_mean'' of
                                           None \<Rightarrow> default_subtract_mean k | Some b \<Rightarrow> b)\<rparr>)"

definition WidebandTOAFitter ::
  "toa list list \<Rightarrow> timing_model \<Rightarrow> model_eval \<Rightarrow> linalg \<Rightarrow>
   (string \<times> (string \<times> bool) list) list \<Rightarrow> fitter result" where
  "WidebandTOAFitter fit_data m ev la add_args =
     (case fit_data of
        [] \<Rightarrow> Inl IndexError
      | ts # _ \<Rightarrow>
          (case filter (\<lambda>k. k \<notin> set (map kind_label fit_data_names)) (keys_of add_args) of
             k # _ \<Rightarrow> Inl (ConfigError k)
           | [] \<Rightarrow>
               rbind (rmap (make_resid_obj add_args) fit_data_names) (\<lambda>ros.
                 let f0 = \<lparr>f_toas = ts, f_model = m, f_eval = ev, f_la = la,
                           f_objs = map (\<lambda>ro. (kind_label (ro_kind ro), ro)) ros,
                           f_resids_init = []\<rparr>
                 in rbind (resids_by_kind f0) (\<lambda>rs. Inr (f0\<lparr>f_resids_init := rs\<rparr>)))))"

section \<open>Free parameters\<close>

text \<open>
  \<^verbatim>\<open>get_fitparams()\<close>: the unfrozen parameters, in the model's order (not the order they
  were set in). \<^verbatim>\<open>set_fitparams(names)\<close>: a name the model lacks is a configuration
  error raised before anything changes; otherwise exactly the named parameters are free.
\<close>

definition get_fitparams :: "fitter \<Rightarrow> string list" where
  "get_fitparams f = map fst (filter (\<lambda>(n, p). \<not> par_frozen p) (tm_params (f_model f)))"

definition set_fitparams :: "string list \<Rightarrow> fitter \<Rightarrow> fitter result" where
  "set_fitparams names f =
     (case filter (\<lambda>n. n \<notin> set (keys_of (tm_params (f_model f)))) names of
        n # _ \<Rightarrow> Inl (ConfigError n)
      | [] \<Rightarrow> Inr (f\<lparr>f_model := \<lparr>tm_params =
               map (\<lambda>(n, p). (n, p\<lparr>par_frozen := n \<notin> set names\<rparr>)) (tm_params (f_model f))\<rparr>\<rparr>))"

section \<open>The design matrix\<close>

fun offset_col :: "resid_kind \<Rightarrow> real" where
  "offset_col ToaKind = 1"
| "offset_col DmKind = 0"

fun row_labels :: "(string \<times> nat) list \<Rightarrow> nat \<Rightarrow> (string \<times> nat \<times> nat) list" where
  "row_labels [] i = []"
| "row_labels ((l, n) # ls) i = (l, i, i + n) # row_labels ls (i + n)"

definition design_block :: "fitter \<Rightarrow> resid_kind \<Rightarrow> mat" where
  "design_block f k =
     map (\<lambda>x. offset_col k #
               map (\<lambda>p. ev_deriv (f_eval f) k p (param_values (f_model f)) x) (get_fitparams f))
         (f_toas f)"

definition get_designmatrix :: "fitter \<Rightarrow> design_matrix" where
  "get_designmatrix f =
     \<lparr>dmx_rows = concat (map (\<lambda>(l, ro). design_block f (ro_kind ro)) (f_objs f)),
      dmx_row_labels = row_labels (map (\<lambda>(l, ro). (l, length (f_toas f))) (f_objs f)) 0,
      dmx_derivative_params = ''Offset'' # get_fitparams f\<rparr>"

text \<open>numpy's \<^verbatim>\<open>shape\<close> of the matrix: rows, and the length of a row.\<close>

definition dmx_shape :: "design_matrix \<Rightarrow> nat \<times> nat" where
  "dmx_shape d = (length (dmx_rows d), case dmx_rows d of [] \<Rightarrow> 0 | r # _ \<Rightarrow> length r)"

section \<open>Fitting\<close>

text \<open>
  The weights of the least-squares problem: without \<^verbatim>\<open>full_cov\<close>, the inverse variances of
  the data errors on the diagonal; with it, the inverse of the full covariance (data
  variances plus the model's correlated noise), whose failure is a \<open>LinAlgError\<close>, never
  a silent fallback.
\<close>

definition fit_weights :: "bool \<Rightarrow> fitter \<Rightarrow> mat result" where
  "fit_weights full_cov f =
     rbind (combined_errors f) (\<lambda>errs.
       if full_cov
       then (case la_inv (f_la f)
                    (mat_add (diag_mat (map (\<lambda>e. e\<^sup>2) errs)) (ev_noise_cov (f_eval f) (f_toas f))) of
               None \<Rightarrow> Inl LinAlgError
             | Some W \<Rightarrow> Inr W)
       else Inr (diag_mat (map (\<lambda>e. 1 / e\<^sup>2) errs)))"

definition normal_matrix :: "mat \<Rightarrow> mat \<Rightarrow> mat" where
  "normal_matrix M W = mat_mul (mat_mul (transpose M) W) M"

definition normal_rhs :: "mat \<Rightarrow> mat \<Rightarrow> vec \<Rightarrow> vec" where
  "normal_rhs M W r = mat_vec (mat_mul (transpose M) W) r"

text \<open>
  The correction: residuals, weights, design matrix, then the solve of
  \<open>(M\<^sup>T W M) x = M\<^sup>T W r\<close>; its first entry belongs to the \<^verbatim>\<open>Offset\<close> column.
\<close>

definition fit_correction :: "bool \<Rightarrow> fitter \<Rightarrow> vec result" where
  "fit_correction full_cov f =
     rbind (combined_resids f) (\<lambda>r.
       rbind (fit_weights full_cov f) (\<lambda>W.
         let M = dmx_rows (get_designmatrix f)
         in case la_solve (f_la f) (normal_matrix M W) (normal_rhs M W r) of
              None \<Rightarrow> Inl LinAlgError
            | Some x \<Rightarrow> Inr x))"

text \<open>\<^verbatim>\<open>model[name].value -= delta\<close>.\<close>

definition update_param :: "string \<Rightarrow> real \<Rightarrow> fitter \<Rightarrow> fitter" where
  "update_param n d f =
     f\<lparr>f_model := \<lparr>tm_params =
        map (\<lambda>(k, p). if k = n then (k, p\<lparr>par_value := par_value p - d\<rparr>) else (k, p))
            (tm_params (f_model f))\<rparr>\<rparr>"

text \<open>The loop over the free parameters and the entries of the correction after the offset.\<close>

definition apply_correction :: "fitter \<Rightarrow> vec \<Rightarrow> fitter" where
  "apply_correction f x = fold (\<lambda>(n, d). update_param n d) (zip (get_fitparams f) (tl x)) f"

text \<open>One iteration; an exception is returned with the state the step left behind.\<close>

definition fit_step :: "bool \<Rightarrow> fitter \<Rightarrow> (py_error + vec) \<times> fitter" where
  "fit_step full_cov f =
     (case fit_correction full_cov f of
        Inl e \<Rightarrow> (Inl e, f)
      | Inr x \<Rightarrow> (Inr x, apply_correction f x))"

text \<open>
  \<^verbatim>\<open>fit_toas(maxiter, threshold, full_cov)\<close>: at most \<open>maxiter\<close> steps; with a threshold,
  stop once every parameter correction is below it.
\<close>

fun fit_toas :: "nat \<Rightarrow> real option \<Rightarrow> bool \<Rightarrow> fitter \<Rightarrow> (py_error + unit) \<times> fitter" where
  "fit_toas 0 thr full_cov f = (Inr (), f)"
| "fit_toas (Suc n) thr full_cov f =
     (case fit_step full_cov f of
        (Inl e, f') \<Rightarrow> (Inl e, f')
      | (Inr x, f') \<Rightarrow>
          (case thr of
             Some eps \<Rightarrow> if \<forall>d \<in> set (tl x). \<bar>d\<bar> < eps then (Inr (), f') else fit_toas n thr full_cov f'
           | None \<Rightarrow> fit_toas n thr full_cov f'))"

section \<open>Predicates on the inputs\<close>

text \<open>Wideband TOAs: every TOA carries a DM measurement and its error.\<close>

definition wideband :: "toa list \<Rightarrow> bool" where
  "wideband ts \<longleftrightarrow> (\<forall>x \<in> set ts. toa_pp_dm x \<noteq> None \<and> toa_pp_dme x \<noteq> None)"

text \<open>
  The interface fact that a residual kind depends only on the parameters \<open>D\<close>: the DM
  residuals of a timing model depend only on its DM parameters.
\<close>

definition depends_only_on :: "model_eval \<Rightarrow> resid_kind \<Rightarrow> string set \<Rightarrow> bool" where
  "depends_only_on ev k D \<longleftrightarrow>
     (\<forall>pv pv' x. (\<forall>p \<in> D. pv p = pv' p) \<longrightarrow> ev_resid ev k pv x = ev_resid ev k pv' x)"

section \<open>Construction, residuals and the design matrix\<close>


lemma kind_errors_Inr:
  "wideband ts \<Longrightarrow> \<exists>es. kind_errors k ts = Inr es \<and> length es = length ts"
  by (cases k) (auto simp: wideband_def)

lemma calc_resids_length:
  "calc_resids ev m ts ro = Inr rs \<Longrightarrow> length rs = length ts"
  by (auto simp: calc_resids_def rbind_eq_Inr_iff Let_def)

lemma calc_resids_Inr:
  "wideband ts \<Longrightarrow> \<exists>rs. calc_resids ev m ts ro = Inr rs \<and> length rs = length ts"
  using kind_errors_Inr [of ts "ro_kind ro"] by (auto simp: calc_resids_def Let_def)

lemma make_resid_obj_default:
  "map_of add_args (kind_label k) = None \<Longrightarrow>
   make_resid_obj add_args k = Inr \<lparr>ro_kind = k, ro_subtract_mean = default_subtract_mean k\<rparr>"
  by (simp add: make_resid_obj_def)

lemma make_resid_obj_subtract_mean:
  "map_of add_args (kind_label k) = Some [(''subtract_mean'', b)] \<Longrightarrow>
   make_resid_obj add_args k = Inr \<lparr>ro_kind = k, ro_subtract_mean = b\<rparr>"
  by (simp add: make_resid_obj_def)

text \<open>Construction succeeds on wideband TOAs when the options are accepted.\<close>

lemma WidebandTOAFitter_Inr:
  assumes "wideband ts"
    and ros: "rmap (make_resid_obj add_args) fit_data_names =
      Inr [\<lparr>ro_kind = ToaKind, ro_subtract_mean = sm\<rparr>, \<lparr>ro_kind = DmKind, ro_subtract_mean = False\<rparr>]"
    and keys: "set (keys_of add_args) \<subseteq> {''toa'', ''dm''}"
  shows "\<exists>f. WidebandTOAFitter [ts] m ev la add_args = Inr f \<and> f_toas f = ts \<and> f_model f = m \<and>
    f_eval f = ev \<and> f_la f = la \<and>
    f_objs f = [(''toa'', \<lparr>ro_kind = ToaKind, ro_subtract_mean = sm\<rparr>),
                (''dm'', \<lparr>ro_kind = DmKind, ro_subtract_mean = False\<rparr>)] \<and>
    resids_by_kind f = Inr (f_resids_init f)"
proof -
  define f0 where "f0 = \<lparr>f_toas = ts, f_model = m, f_eval = ev, f_la = la,
       f_objs = [(''toa'', \<lparr>ro_kind = ToaKind, ro_subtract_mean = sm\<rparr>),
                 (''dm'', \<lparr>ro_kind = DmKind, ro_subtract_mean = False\<rparr>)],
       f_resids_init = []\<rparr>"
  have k: "filter (\<lambda>k. k \<notin> kind_label ` set fit_data_names) (keys_of add_args) = []"
    using keys by (auto simp: fit_data_names_def filter_empty_conv)
  obtain r1 where r1: "calc_resids ev m ts \<lparr>ro_kind = ToaKind, ro_subtract_mean = sm\<rparr> = Inr r1"
    using calc_resids_Inr [OF assms(1)] by blast
  obtain r2 where r2: "calc_resids ev m ts \<lparr>ro_kind = DmKind, ro_subtract_mean = False\<rparr> = Inr r2"
    using calc_resids_Inr [OF assms(1)] by blast
  have rs: "resids_by_kind f0 = Inr [(''toa'', r1), (''dm'', r2)]"
    using r1 r2 by (simp add: resids_by_kind_def f0_def)
  have "WidebandTOAFitter [ts] m ev la add_args = rbind (resids_by_kind f0) (\<lambda>rs. Inr (f0\<lparr>f_resids_init := rs\<rparr>))"
    by (simp add: WidebandTOAFitter_def ros k Let_def f0_def)
  also have "\<dots> = Inr (f0\<lparr>f_resids_init := [(''toa'', r1), (''dm'', r2)]\<rparr>)"
    by (simp add: rs)
  finally have w: "WidebandTOAFitter [ts] m ev la add_args = Inr (f0\<lparr>f_resids_init := [(''toa'', r1), (''dm'', r2)]\<rparr>)" .
  have "resids_by_kind (f0\<lparr>f_resids_init := [(''toa'', r1), (''dm'', r2)]\<rparr>) =
      Inr [(''toa'', r1), (''dm'', r2)]"
    using r1 r2 by (simp add: resids_by_kind_def f0_def)
  with w show ?thesis by (simp add: f0_def)
qed

lemma rmap_make_resid_obj_default:
  "rmap (make_resid_obj []) fit_data_names =
     Inr [\<lparr>ro_kind = ToaKind, ro_subtract_mean = True\<rparr>, \<lparr>ro_kind = DmKind, ro_subtract_mean = False\<rparr>]"
  by (simp add: fit_data_names_def make_resid_obj_def)

lemma rmap_make_resid_obj_toa_option:
  "rmap (make_resid_obj [(''toa'', [(''subtract_mean'', b)])]) fit_data_names =
     Inr [\<lparr>ro_kind = ToaKind, ro_subtract_mean = b\<rparr>, \<lparr>ro_kind = DmKind, ro_subtract_mean = False\<rparr>]"
  by (simp add: fit_data_names_def make_resid_obj_def)

lemma combined_resids_two_kinds:
  assumes "wideband (f_toas f)" "map (ro_kind \<circ> snd) (f_objs f) = [ToaKind, DmKind]"
  shows "\<exists>cr. combined_resids f = Inr cr \<and> length cr = 2 * length (f_toas f)"
proof -
  obtain l1 o1 l2 o2 where objs: "f_objs f = [(l1, o1), (l2, o2)]"
    and k: "ro_kind o1 = ToaKind" "ro_kind o2 = DmKind"
    using assms(2) by (cases "f_objs f" rule: list.exhaust; auto; metis list.exhaust prod.exhaust_sel)
  obtain r1 where r1: "calc_resids (f_eval f) (f_model f) (f_toas f) o1 = Inr r1"
    "length r1 = length (f_toas f)"
    using calc_resids_Inr [OF assms(1)] by blast
  obtain r2 where r2: "calc_resids (f_eval f) (f_model f) (f_toas f) o2 = Inr r2"
    "length r2 = length (f_toas f)"
    using calc_resids_Inr [OF assms(1)] by blast
  show ?thesis
    using r1 r2 by (simp add: combined_resids_def resids_by_kind_def objs)
qed

lemma design_block_shape:
  "length (design_block f k) = length (f_toas f) \<and>
   (\<forall>row \<in> set (design_block f k). length row = Suc (length (get_fitparams f)))"
  by (auto simp: design_block_def)

lemma row_labels_fst: "map fst (row_labels ls i) = map fst ls"
  by (induction ls i rule: row_labels.induct) auto

lemma get_designmatrix_shape:
  "length (dmx_rows (get_designmatrix f)) = length (f_objs f) * length (f_toas f) \<and>
   (\<forall>row \<in> set (dmx_rows (get_designmatrix f)). length row = Suc (length (get_fitparams f))) \<and>
   map fst (dmx_row_labels (get_designmatrix f)) = map fst (f_objs f) \<and>
   dmx_derivative_params (get_designmatrix f) = ''Offset'' # get_fitparams f"
proof -
  have len: "length (concat (map (\<lambda>(l, ro). design_block f (ro_kind ro)) objs)) = length objs * length (f_toas f)"
    for objs :: "(string \<times> resid_obj) list"
    by (induction objs) (auto simp: design_block_shape)
  have "length (dmx_rows (get_designmatrix f)) = length (f_objs f) * length (f_toas f)"
    by (simp only: get_designmatrix_def design_matrix.select_convs len)
  then show ?thesis
    by (auto simp: get_designmatrix_def row_labels_fst design_block_def comp_def case_prod_beta)
qed

lemma dmx_shape_eq:
  assumes "0 < length (f_objs f) * length (f_toas f)"
  shows "dmx_shape (get_designmatrix f) =
    (length (f_objs f) * length (f_toas f), Suc (length (get_fitparams f)))"
proof -
  from get_designmatrix_shape [of f] assms
  obtain r rs where "dmx_rows (get_designmatrix f) = r # rs"
    by (cases "dmx_rows (get_designmatrix f)") auto
  with get_designmatrix_shape [of f] show ?thesis by (simp add: dmx_shape_def)
qed

lemma keys_unfrozen_after_set:
  "keys_of (filter (\<lambda>(n, p). \<not> par_frozen p)
     (map (\<lambda>(n, p). (n, p\<lparr>par_frozen := n \<notin> set names\<rparr>)) xs)) =
   filter (\<lambda>n. n \<in> set names) (keys_of xs)"
  by (induction xs) auto

lemma get_fitparams_set:
  assumes "set_fitparams names f = Inr f'"
  shows "set (get_fitparams f') = set names \<and>
    get_fitparams f' = filter (\<lambda>n. n \<in> set names) (keys_of (tm_params (f_model f)))"
proof -
  from assms have sub: "set names \<subseteq> set (keys_of (tm_params (f_model f)))"
    and f': "f' = f\<lparr>f_model := \<lparr>tm_params =
               map (\<lambda>(n, p). (n, p\<lparr>par_frozen := n \<notin> set names\<rparr>)) (tm_params (f_model f))\<rparr>\<rparr>"
    by (auto simp: set_fitparams_def filter_empty_conv split: list.splits)
  have g: "get_fitparams f' = filter (\<lambda>n. n \<in> set names) (keys_of (tm_params (f_model f)))"
    unfolding f' get_fitparams_def by (simp add: case_prod_beta keys_unfrozen_after_set)
  from g sub show ?thesis by auto
qed


section \<open>The fit step\<close>


lemma update_param_frame [simp]:
  "f_toas (update_param n d f) = f_toas f" "f_eval (update_param n d f) = f_eval f"
  "f_la (update_param n d f) = f_la f" "f_objs (update_param n d f) = f_objs f"
  "f_resids_init (update_param n d f) = f_resids_init f"
  by (simp_all add: update_param_def)

lemma update_param_keys [simp]:
  "keys_of (tm_params (f_model (update_param n d f))) = keys_of (tm_params (f_model f))"
  by (induction "tm_params (f_model f)") (auto simp: update_param_def comp_def case_prod_beta)

lemma update_param_get_fitparams [simp]:
  "get_fitparams (update_param n d f) = get_fitparams f"
proof -
  have "map fst (filter (\<lambda>(n, p). \<not> par_frozen p)
          (map (\<lambda>(k, p). if k = n then (k, p\<lparr>par_value := par_value p - d\<rparr>) else (k, p)) xs)) =
        map fst (filter (\<lambda>(n, p). \<not> par_frozen p) xs)" for xs :: "(string \<times> param) list"
    by (induction xs) (auto split: if_splits)
  then show ?thesis by (simp add: get_fitparams_def update_param_def)
qed

lemma map_of_update_param:
  "map_of (map (\<lambda>(k, p). if k = n then (k, p\<lparr>par_value := par_value p - d\<rparr>) else (k, p)) xs) k =
   (if k = n then map_option (\<lambda>p. p\<lparr>par_value := par_value p - d\<rparr>) (map_of xs k) else map_of xs k)"
  by (induction xs) auto

lemma update_param_values:
  "param_values (f_model (update_param n d f)) k =
   (if k = n \<and> k \<in> set (keys_of (tm_params (f_model f))) then param_values (f_model f) k - d
    else param_values (f_model f) k)"
proof (cases "k \<in> set (keys_of (tm_params (f_model f)))")
  case True
  then show ?thesis
    by (cases "map_of (tm_params (f_model f)) k")
       (auto simp: update_param_def param_values_def map_of_update_param map_of_eq_None_iff)
next
  case False
  then have "map_of (tm_params (f_model f)) k = None" by (simp add: map_of_eq_None_iff)
  with False show ?thesis
    by (auto simp: update_param_def param_values_def map_of_update_param)
qed

lemma fold_update_frame:
  "f_toas (fold (\<lambda>(n, d). update_param n d) nds f) = f_toas f \<and>
   f_eval (fold (\<lambda>(n, d). update_param n d) nds f) = f_eval f \<and>
   f_la (fold (\<lambda>(n, d). update_param n d) nds f) = f_la f \<and>
   f_objs (fold (\<lambda>(n, d). update_param n d) nds f) = f_objs f \<and>
   f_resids_init (fold (\<lambda>(n, d). update_param n d) nds f) = f_resids_init f \<and>
   get_fitparams (fold (\<lambda>(n, d). update_param n d) nds f) = get_fitparams f \<and>
   keys_of (tm_params (f_model (fold (\<lambda>(n, d). update_param n d) nds f))) =
     keys_of (tm_params (f_model f))"
  by (induction nds arbitrary: f) auto

lemma fold_update_other:
  "k \<notin> set (map fst nds) \<Longrightarrow>
   param_values (f_model (fold (\<lambda>(n, d). update_param n d) nds f)) k = param_values (f_model f) k"
  by (induction nds arbitrary: f) (auto simp: update_param_values)

lemma fold_update_values:
  assumes "distinct (map fst nds)" "set (map fst nds) \<subseteq> set (keys_of (tm_params (f_model f)))"
  shows "param_values (f_model (fold (\<lambda>(n, d). update_param n d) nds f)) k =
    param_values (f_model f) k - (case map_of nds k of Some d \<Rightarrow> d | None \<Rightarrow> 0)"
  using assms
proof (induction nds arbitrary: f)
  case Nil
  then show ?case by simp
next
  case (Cons nd nds)
  obtain n d where nd: "nd = (n, d)" by fastforce
  let ?f1 = "update_param n d f"
  have IH: "param_values (f_model (fold (\<lambda>(n, d). update_param n d) nds ?f1)) k =
      param_values (f_model ?f1) k - (case map_of nds k of Some d \<Rightarrow> d | None \<Rightarrow> 0)"
    using Cons.prems by (intro Cons.IH) (auto simp: nd)
  from Cons.prems have n_keys: "n \<in> set (keys_of (tm_params (f_model f)))"
    and n_nds: "n \<notin> set (map fst nds)" by (auto simp: nd)
  show ?case
  proof (cases "k = n")
    case True
    with n_nds have "map_of nds k = None" by (simp add: map_of_eq_None_iff)
    with IH True n_keys show ?thesis by (simp add: nd update_param_values)
  next
    case False
    with IH show ?thesis by (simp add: nd update_param_values)
  qed
qed

lemma get_fitparams_distinct:
  "dict_wf (tm_params (f_model f)) \<Longrightarrow> distinct (get_fitparams f)"
  by (simp add: get_fitparams_def dict_wf_def distinct_filter_keys)

lemma get_fitparams_keys: "set (get_fitparams f) \<subseteq> set (keys_of (tm_params (f_model f)))"
  by (auto simp: get_fitparams_def)

text \<open>The update applies \<open>- x\<^sub>i\<^sub>+\<^sub>1\<close> to the \<open>i\<close>-th free parameter and leaves every other value.\<close>

lemma apply_correction_values:
  assumes "dict_wf (tm_params (f_model f))"
  shows "param_values (f_model (apply_correction f x)) k =
    param_values (f_model f) k -
      (case map_of (zip (get_fitparams f) (tl x)) k of Some d \<Rightarrow> d | None \<Rightarrow> 0)"
proof -
  have "distinct (map fst (zip (get_fitparams f) (tl x)))"
    using get_fitparams_distinct [OF assms] by (simp add: map_fst_zip_take)
  moreover have "set (map fst (zip (get_fitparams f) (tl x))) \<subseteq> set (keys_of (tm_params (f_model f)))"
    using get_fitparams_keys [of f] by (auto dest!: set_zip_leftD)
  ultimately show ?thesis
    unfolding apply_correction_def by (rule fold_update_values)
qed

lemma apply_correction_frame:
  "f_toas (apply_correction f x) = f_toas f \<and> f_eval (apply_correction f x) = f_eval f \<and>
   f_la (apply_correction f x) = f_la f \<and> f_objs (apply_correction f x) = f_objs f \<and>
   f_resids_init (apply_correction f x) = f_resids_init f \<and>
   get_fitparams (apply_correction f x) = get_fitparams f"
  by (simp add: apply_correction_def fold_update_frame)

lemma apply_correction_fixed:
  "k \<notin> set (get_fitparams f) \<Longrightarrow>
   param_values (f_model (apply_correction f x)) k = param_values (f_model f) k"
  unfolding apply_correction_def
  by (rule fold_update_other) (auto dest: set_zip_leftD)

lemma fit_step_frame:
  "fit_step c f = (r, f') \<Longrightarrow>
   f_toas f' = f_toas f \<and> f_eval f' = f_eval f \<and> f_la f' = f_la f \<and> f_objs f' = f_objs f \<and>
   f_resids_init f' = f_resids_init f \<and> get_fitparams f' = get_fitparams f"
  by (auto simp: fit_step_def apply_correction_frame split: sum.splits)

lemma fit_step_fixed:
  "fit_step c f = (r, f') \<Longrightarrow> k \<notin> set (get_fitparams f) \<Longrightarrow>
   param_values (f_model f') k = param_values (f_model f) k"
  by (auto simp: fit_step_def apply_correction_fixed split: sum.splits)

text \<open>A residual kind that depends on no free parameter is the same after a step.\<close>

lemma fit_step_calc_resids_same:
  assumes "fit_step c f = (r, f')" "depends_only_on (f_eval f) (ro_kind ro) D"
    and "set (get_fitparams f) \<inter> D = {}"
  shows "calc_resids (f_eval f') (f_model f') (f_toas f') ro = calc_resids (f_eval f) (f_model f) (f_toas f) ro"
proof -
  have same: "\<forall>p \<in> D. param_values (f_model f') p = param_values (f_model f) p"
    using assms(1,3) fit_step_fixed by blast
  have "ev_resid (f_eval f) (ro_kind ro) (param_values (f_model f')) x =
        ev_resid (f_eval f) (ro_kind ro) (param_values (f_model f)) x" for x
    using assms(2) same by (simp add: depends_only_on_def)
  then have m: "map (ev_resid (f_eval f) (ro_kind ro) (param_values (f_model f'))) (f_toas f) =
      map (ev_resid (f_eval f) (ro_kind ro) (param_values (f_model f))) (f_toas f)"
    by simp
  from fit_step_frame [OF assms(1)] have ef: "f_eval f' = f_eval f" and tf: "f_toas f' = f_toas f"
    by simp_all
  show ?thesis unfolding calc_resids_def ef tf m by (rule refl)
qed

text \<open>The correction solves the normal equations whenever the solver is sound.\<close>

lemma fit_correction_normal_equations:
  assumes "linalg_sound (f_la f)" "fit_correction c f = Inr x"
  shows "\<exists>r W. combined_resids f = Inr r \<and> fit_weights c f = Inr W \<and>
    mat_vec (normal_matrix (dmx_rows (get_designmatrix f)) W) x =
      normal_rhs (dmx_rows (get_designmatrix f)) W r"
  using assms
  by (auto simp: fit_correction_def rbind_eq_Inr_iff linalg_sound_def Let_def split: option.splits)

lemma normal_rhs_zero:
  "normal_rhs M W (replicate n 0) = replicate (length (normal_matrix M W)) 0"
  by (simp add: normal_rhs_def normal_matrix_def mat_vec_def map_replicate_const)

text \<open>
  With no correlated noise and a sound solver, the full-covariance weights are the diagonal
  weights: the inverse of a diagonal matrix with nonzero entries is unique.
\<close>

lemma fit_weights_full_cov_diag:
  assumes e: "combined_errors f = Inr es" and nz: "0 \<notin> set es"
    and noise: "ev_noise_cov (f_eval f) (f_toas f) = replicate (length es) (replicate (length es) 0)"
    and sound: "linalg_sound (f_la f)"
    and inv: "la_inv (f_la f) (diag_mat (map (\<lambda>e. e\<^sup>2) es)) \<noteq> None"
  shows "fit_weights True f = fit_weights False f"
proof -
  let ?C = "diag_mat (map (\<lambda>e. e\<^sup>2) es)"
  have C: "mat_add ?C (ev_noise_cov (f_eval f) (f_toas f)) = ?C"
    using mat_add_zero_right [OF mat_wf_diag [of "map (\<lambda>e. e\<^sup>2) es"]] noise by simp
  obtain B where B: "la_inv (f_la f) ?C = Some B" using inv by blast
  with sound have "mat_wf (length ?C) (length ?C) B \<and> mat_mul ?C B = ident_mat (length ?C)"
    unfolding linalg_sound_def by blast
  then have "mat_wf (length es) (length es) B" "mat_mul ?C B = ident_mat (length es)" by simp_all
  then have "B = diag_mat (map (\<lambda>d. 1 / d) (map (\<lambda>e. e\<^sup>2) es))"
    using nz by (intro diag_right_inverse_unique) auto
  then have "B = diag_mat (map (\<lambda>e. 1 / e\<^sup>2) es)" by (simp add: comp_def)
  with B C show ?thesis by (simp add: fit_weights_def e)
qed

lemma fit_correction_weights_eq:
  "fit_weights True f = fit_weights False f \<Longrightarrow> fit_correction True f = fit_correction False f"
  by (simp add: fit_correction_def)

end
