(* ===== verification/WidebandTests.thy ===== *)
theory WidebandTests
  imports Fitter
begin

text \<open>
  \<^verbatim>\<open>src/tests/test_widebandTOA_fitting.py\<close>: the assertions the wideband tests make about
  the fitter, as result-valued predicates over any TOA set, timing model, model evaluator
  and solver (\<open>Inr True\<close>: every assertion holds; \<open>Inr False\<close>: an assertion fails;
  \<open>Inl e\<close>: the test raises \<open>e\<close>). The test data (the J1614-2230 files and TEMPO's
  residuals) are inputs. The fitting tests' computations are \<open>test_fitting_run\<close>, which
  returns the residual arrays and RMS values the assertions compare (\<open>fr_prefit\<close>,
  \<open>fr_postfit\<close>, the DM RMS); the comparisons with TEMPO and the tests as a whole are in
  \<open>TempoTests\<close>.
\<close>

definition fit_data_name :: "string list" where
  "fit_data_name = [''toa'', ''dm'']"

definition fit_params_lite :: "string list" where
  "fit_params_lite = [''F0'', ''F1'', ''ELONG'', ''ELAT'', ''DMJUMP1'', ''DMX_0022'']"

text \<open>\<^verbatim>\<open>assert b\<close> followed by the rest of the test.\<close>

definition py_assert :: "bool \<Rightarrow> bool result \<Rightarrow> bool result" where
  "py_assert b k = (if b then k else Inr False)"

text \<open>Lines 27-37.\<close>

definition test_fitter_init :: "toa list \<Rightarrow> timing_model \<Rightarrow> model_eval \<Rightarrow> linalg \<Rightarrow> bool result" where
  "test_fitter_init ts m ev la =
     rbind (WidebandTOAFitter [ts] m ev la []) (\<lambda>fitter.
       rbind (combined_resids fitter) (\<lambda>cr.
         py_assert (length cr = 2 * length ts)
           (rbind (WidebandTOAFitter [ts] m ev la [(''toa'', [(''subtract_mean'', False)])]) (\<lambda>fitter2.
              rbind (dict_getitem ''toa'' (f_objs fitter2)) (\<lambda>ro.
                py_assert (ro_subtract_mean ro = False) (Inr True))))))"

text \<open>Lines 39-49.\<close>

definition test_fitter_designmatrix ::
  "toa list \<Rightarrow> timing_model \<Rightarrow> model_eval \<Rightarrow> linalg \<Rightarrow> bool result" where
  "test_fitter_designmatrix ts m ev la =
     rbind (WidebandTOAFitter [ts] m ev la []) (\<lambda>fitter0.
       rbind (set_fitparams fit_params_lite fitter0) (\<lambda>fitter.
         py_assert (set (get_fitparams fitter) = set fit_params_lite)
           (let d_matrix = get_designmatrix fitter
            in py_assert (dmx_shape d_matrix = (2 * length ts, length fit_params_lite + 1))
                 (py_assert (map fst (dmx_row_labels d_matrix) = [''toa'', ''dm''])
                   (py_assert (dmx_derivative_params d_matrix = ''Offset'' # get_fitparams fitter)
                      (Inr True))))))"

text \<open>
  \<^verbatim>\<open>fitter.fit_toas()\<close> and \<^verbatim>\<open>fitter2.fit_toas(full_cov=True)\<close> (lines 55 and 73), with the
  method's defaults \<^verbatim>\<open>maxiter=1\<close> and no threshold.
\<close>

definition fit_toas_call :: "bool \<Rightarrow> fitter \<Rightarrow> (py_error + unit) \<times> fitter" where
  "fit_toas_call full_cov f = fit_toas 1 None full_cov f"

text \<open>
  Lines 51-86, the two fitting tests (\<open>full_cov\<close> false and true): the pre-fit RMS values,
  the fit, the post-fit residuals and RMS values; \<^verbatim>\<open>time_rms_post\<close> is computed in the
  full-covariance test only. The values the assertions compare are returned.
\<close>

record fit_run =
  fr_prefit :: vec
  fr_postfit :: vec
  fr_dm_rms_pre :: real
  fr_dm_rms_post :: real

definition test_fitting_run ::
  "bool \<Rightarrow> toa list \<Rightarrow> timing_model \<Rightarrow> model_eval \<Rightarrow> linalg \<Rightarrow> fit_run result" where
  "test_fitting_run full_cov ts m ev la =
     rbind (WidebandTOAFitter [ts] m ev la []) (\<lambda>fitter.
      rbind (dict_getitem ''toa'' (f_resids_init fitter)) (\<lambda>r_toa.
      rbind (rms_weighted r_toa (map toa_error ts)) (\<lambda>time_rms_pre.
      rbind (dict_getitem ''dm'' (f_resids_init fitter)) (\<lambda>r_dm.
      rbind (kind_errors DmKind ts) (\<lambda>e_dm.
      rbind (rms_weighted r_dm e_dm) (\<lambda>dm_rms_pre.
      case fit_toas_call full_cov fitter of
        (Inl e, _) \<Rightarrow> Inl e
      | (Inr _, fitter') \<Rightarrow>
          rbind (resids_by_kind fitter') (\<lambda>rs.
          rbind (if full_cov
                 then rbind (dict_getitem ''toa'' rs) (\<lambda>r. rms_weighted r (map toa_error ts))
                 else Inr 0) (\<lambda>time_rms_post.
          rbind (dict_getitem ''dm'' rs) (\<lambda>r_dm'.
          rbind (rms_weighted r_dm' e_dm) (\<lambda>dm_rms_post.
          rbind (dict_getitem ''toa'' rs) (\<lambda>postfit.
          Inr \<lparr>fr_prefit = r_toa, fr_postfit = postfit,
               fr_dm_rms_pre = dm_rms_pre, fr_dm_rms_post = dm_rms_post\<rparr>)))))))))))"

text \<open>Lines 67 and 86: \<^verbatim>\<open>abs(dm_rms_pre - dm_rms_post) < 3e-8\<close>.\<close>

definition dm_rms_assert :: "fit_run \<Rightarrow> bool" where
  "dm_rms_assert r \<longleftrightarrow> \<bar>fr_dm_rms_pre r - fr_dm_rms_post r\<bar> < 3 / 10 ^ 8"

subsection \<open>Example inputs\<close>

text \<open>
  Two wideband TOAs, a model whose only free parameter is \<^verbatim>\<open>F0\<close> and which fits the data
  exactly, an evaluator whose TOA residuals depend on \<^verbatim>\<open>F0\<close> and whose DM residuals on
  \<^verbatim>\<open>DM\<close> only and no correlated noise, and four solvers: one that always returns, one
  that is sound (it solves the systems whose right-hand side is zero), one that is sound and
  inverts diagonal matrices with nonzero entries, and one that cannot invert a covariance.
\<close>

definition ex_toas :: "toa list" where
  "ex_toas =
     [\<lparr>toa_mjd = 55000, toa_error = 1, toa_freq = 1400, toa_pp_dm = Some 10, toa_pp_dme = Some 1\<rparr>,
      \<lparr>toa_mjd = 55001, toa_error = 2, toa_freq = 800, toa_pp_dm = Some 10, toa_pp_dme = Some 1\<rparr>]"

definition ex_param :: "real \<Rightarrow> bool \<Rightarrow> param" where
  "ex_param v fr = \<lparr>par_value = v, par_frozen = fr\<rparr>"

definition ex_model :: timing_model where
  "ex_model = \<lparr>tm_params =
     [(''F0'', ex_param 100 False), (''F1'', ex_param 0 True), (''ELONG'', ex_param 0 True),
      (''ELAT'', ex_param 0 True), (''DMJUMP1'', ex_param 0 True), (''DMX_0022'', ex_param 0 True),
      (''DM'', ex_param 10 True)]\<rparr>"

definition ex_model_nodmx :: timing_model where
  "ex_model_nodmx = \<lparr>tm_params = filter (\<lambda>(n, p). n \<noteq> ''DMX_0022'') (tm_params ex_model)\<rparr>"

definition ex_eval :: model_eval where
  "ex_eval = \<lparr>ev_resid = (\<lambda>k pv x. case k of ToaKind \<Rightarrow> pv ''F0'' - 100
                                          | DmKind \<Rightarrow> the (toa_pp_dm x) - pv ''DM''),
             ev_deriv = (\<lambda>k p pv x. if k = ToaKind \<and> p = ''F0'' then 1 else 0),
             ev_noise_cov = (\<lambda>ts. replicate (2 * length ts) (replicate (2 * length ts) 0))\<rparr>"

definition ex_la_total :: linalg where
  "ex_la_total = \<lparr>la_solve = (\<lambda>A b. Some (replicate (length A) 0)), la_inv = (\<lambda>C. Some C)\<rparr>"

definition ex_la_zero :: linalg where
  "ex_la_zero = \<lparr>la_solve = (\<lambda>A b. if b = replicate (length A) 0 then Some (replicate (length A) 0) else None),
                la_inv = (\<lambda>C. None)\<rparr>"

definition ex_la_diag :: linalg where
  "ex_la_diag = \<lparr>la_solve = la_solve ex_la_zero,
     la_inv = (\<lambda>C. let ds = map (\<lambda>i. C ! i ! i) [0..<length C]
                   in if C = diag_mat ds \<and> list_all (\<lambda>d. d \<noteq> 0) ds
                      then Some (diag_mat (map (\<lambda>d. 1 / d) ds)) else None)\<rparr>"

section \<open>The tests' assertions\<close>

lemma py_assert_simps [simp]:
  "py_assert True k = k" "py_assert False k = Inr False"
  by (simp_all add: py_assert_def)

lemma fitter_default:
  assumes "wideband ts"
  obtains f where "WidebandTOAFitter [ts] m ev la [] = Inr f" "f_toas f = ts" "f_model f = m"
    "f_eval f = ev" "f_la f = la"
    "f_objs f = [(''toa'', \<lparr>ro_kind = ToaKind, ro_subtract_mean = True\<rparr>),
                 (''dm'', \<lparr>ro_kind = DmKind, ro_subtract_mean = False\<rparr>)]"
    "resids_by_kind f = Inr (f_resids_init f)"
  using WidebandTOAFitter_Inr [OF assms rmap_make_resid_obj_default, of m ev la] by auto

lemma set_fitparams_Inr:
  assumes "set names \<subseteq> set (keys_of (tm_params (f_model f)))"
  obtains f' where "set_fitparams names f = Inr f'" "f_toas f' = f_toas f" "f_objs f' = f_objs f"
    "get_fitparams f' = filter (\<lambda>n. n \<in> set names) (keys_of (tm_params (f_model f)))"
proof -
  have "filter (\<lambda>n. n \<notin> set (keys_of (tm_params (f_model f)))) names = []"
    using assms by (auto simp: filter_empty_conv)
  then obtain f' where f': "set_fitparams names f = Inr f'" "f_toas f' = f_toas f" "f_objs f' = f_objs f"
    by (simp add: set_fitparams_def)
  with get_fitparams_set [OF f'(1)] that show ?thesis by blast
qed

lemma set_fitparams_missing:
  assumes "\<not> set names \<subseteq> set (keys_of (tm_params (f_model f)))"
  obtains n where "set_fitparams names f = Inl (ConfigError n)" "n \<in> set names"
    "n \<notin> set (keys_of (tm_params (f_model f)))"
proof -
  obtain n ns where "filter (\<lambda>n. n \<notin> set (keys_of (tm_params (f_model f)))) names = n # ns"
    using assms by (cases "filter (\<lambda>n. n \<notin> set (keys_of (tm_params (f_model f)))) names")
                   (auto simp: filter_empty_conv)
  moreover from this have "n \<in> set (filter (\<lambda>n. n \<notin> set (keys_of (tm_params (f_model f)))) names)"
    by simp
  then have "n \<in> set names" "n \<notin> set (keys_of (tm_params (f_model f)))"
    by simp_all
  ultimately show ?thesis using that by (simp add: set_fitparams_def)
qed

lemma length_filter_keys:
  assumes "distinct (keys_of xs)" "set names \<subseteq> set (keys_of xs)" "distinct names"
  shows "length (filter (\<lambda>n. n \<in> set names) (keys_of xs)) = length names"
proof -
  have "length (filter (\<lambda>n. n \<in> set names) (keys_of xs)) = card ({n. n \<in> set names} \<inter> set (keys_of xs))"
    using assms(1) by (rule distinct_length_filter)
  also have "\<dots> = card (set names)" using assms(2) by (simp add: Int_absorb2 Collect_mem_eq)
  finally show ?thesis using assms(3) by (simp add: distinct_card)
qed

text \<open>
  C13. \<^verbatim>\<open>test_fitter_init\<close> (lines 27-37) passes on every set of wideband TOAs, whatever
  the timing model, evaluator and solver: the combined residuals have two entries per TOA, and
  the option \<^verbatim>\<open>subtract_mean=False\<close> reaches the TOA residual object.
\<close>

theorem test_fitter_init_passes:
  "wideband ts \<Longrightarrow> test_fitter_init ts m ev la = Inr True"
proof -
  assume w: "wideband ts"
  obtain f where f: "WidebandTOAFitter [ts] m ev la [] = Inr f" "f_toas f = ts"
    "f_objs f = [(''toa'', \<lparr>ro_kind = ToaKind, ro_subtract_mean = True\<rparr>),
                 (''dm'', \<lparr>ro_kind = DmKind, ro_subtract_mean = False\<rparr>)]"
    using fitter_default [OF w] by metis
  obtain cr where cr: "combined_resids f = Inr cr" "length cr = 2 * length ts"
    using combined_resids_two_kinds [of f] f w by auto
  obtain f2 where f2: "WidebandTOAFitter [ts] m ev la [(''toa'', [(''subtract_mean'', False)])] = Inr f2"
    "f_objs f2 = [(''toa'', \<lparr>ro_kind = ToaKind, ro_subtract_mean = False\<rparr>),
                  (''dm'', \<lparr>ro_kind = DmKind, ro_subtract_mean = False\<rparr>)]"
    using WidebandTOAFitter_Inr [OF w rmap_make_resid_obj_toa_option, of False m ev la] by auto
  show ?thesis by (simp add: test_fitter_init_def f cr f2)
qed

text \<open>
  C14. \<^verbatim>\<open>test_fitter_designmatrix\<close> (lines 39-49) passes for every nonempty set of
  wideband TOAs and every timing model with distinct parameter names that has the six
  parameters of \<^verbatim>\<open>fit_params_lite\<close>: exactly those are free, the design matrix has two rows
  per TOA and one column more than free parameters, its row blocks are labelled
  \<^verbatim>\<open>toa\<close> then \<^verbatim>\<open>dm\<close>, and its columns are \<^verbatim>\<open>Offset\<close> and the free parameters.
\<close>

theorem test_fitter_designmatrix_passes:
  assumes "wideband ts" "ts \<noteq> []" "dict_wf (tm_params m)"
    and "set fit_params_lite \<subseteq> set (keys_of (tm_params m))"
  shows "test_fitter_designmatrix ts m ev la = Inr True"
proof -
  obtain f0 where f0: "WidebandTOAFitter [ts] m ev la [] = Inr f0" "f_toas f0 = ts" "f_model f0 = m"
    "f_objs f0 = [(''toa'', \<lparr>ro_kind = ToaKind, ro_subtract_mean = True\<rparr>),
                  (''dm'', \<lparr>ro_kind = DmKind, ro_subtract_mean = False\<rparr>)]"
    using fitter_default [OF assms(1)] by metis
  obtain f where f: "set_fitparams fit_params_lite f0 = Inr f" "f_toas f = ts" "f_objs f = f_objs f0"
    "get_fitparams f = filter (\<lambda>n. n \<in> set fit_params_lite) (keys_of (tm_params m))"
    using set_fitparams_Inr [of fit_params_lite f0] assms(4) f0 by metis
  have len: "length (get_fitparams f) = length fit_params_lite"
    unfolding f(4) using assms(3,4)
    by (intro length_filter_keys) (simp_all add: dict_wf_def fit_params_lite_def)
  have set: "set (get_fitparams f) = set fit_params_lite"
    using f(4) assms(4) by auto
  have shape: "dmx_shape (get_designmatrix f) = (2 * length ts, length fit_params_lite + 1)"
    using dmx_shape_eq [of f] assms(2) len by (simp add: f f0)
  have labels: "map fst (dmx_row_labels (get_designmatrix f)) = [''toa'', ''dm'']"
    using get_designmatrix_shape [of f] by (simp add: f f0)
  have params: "dmx_derivative_params (get_designmatrix f) = ''Offset'' # get_fitparams f"
    using get_designmatrix_shape [of f] by simp
  show ?thesis
    by (simp add: test_fitter_designmatrix_def f0 f(1) set shape labels params)
qed

text \<open>
  C15. When the model lacks a parameter of \<^verbatim>\<open>fit_params_lite\<close>,
  \<^verbatim>\<open>test_fitter_designmatrix\<close> raises a configuration error that names a missing
  parameter.
\<close>

theorem test_fitter_designmatrix_missing:
  assumes "wideband ts" "\<not> set fit_params_lite \<subseteq> set (keys_of (tm_params m))"
  shows "\<exists>n. test_fitter_designmatrix ts m ev la = Inl (ConfigError n) \<and>
    n \<in> set fit_params_lite \<and> n \<notin> set (keys_of (tm_params m))"
proof -
  obtain f0 where f0: "WidebandTOAFitter [ts] m ev la [] = Inr f0" "f_model f0 = m"
    using fitter_default [OF assms(1)] by metis
  obtain n where "set_fitparams fit_params_lite f0 = Inl (ConfigError n)" "n \<in> set fit_params_lite"
    "n \<notin> set (keys_of (tm_params m))"
    using set_fitparams_missing [of fit_params_lite f0] assms(2) f0(2) by metis
  then show ?thesis by (simp add: test_fitter_designmatrix_def f0)
qed

lemma fit_toas_call_step:
  "fit_toas_call c f =
     (case fit_step c f of (Inl e, f') \<Rightarrow> (Inl e, f') | (Inr x, f') \<Rightarrow> (Inr (), f'))"
  by (simp add: fit_toas_call_def split: prod.splits sum.splits)

lemma kind_errors_DmKind:
  "wideband ts \<Longrightarrow> kind_errors DmKind ts = Inr (map (\<lambda>x. the (toa_pp_dme x)) ts)"
  by (simp add: wideband_def)

lemma nonzero_dm_errors:
  "wideband ts \<Longrightarrow> \<forall>x \<in> set ts. toa_pp_dme x \<noteq> Some 0 \<Longrightarrow>
   0 \<notin> set (map (\<lambda>x. the (toa_pp_dme x)) ts)"
  by (force simp: wideband_def)

lemma rms_weighted_Inr: "0 \<notin> set errs \<Longrightarrow> \<exists>v. rms_weighted rs errs = Inr v"
  by (simp add: rms_weighted_def Let_def)

text \<open>The two residual objects of a default fitter and their residuals.\<close>

lemma resids_two_kinds:
  assumes "wideband (f_toas f)"
    and "f_objs f = [(''toa'', \<lparr>ro_kind = ToaKind, ro_subtract_mean = True\<rparr>),
                     (''dm'', \<lparr>ro_kind = DmKind, ro_subtract_mean = False\<rparr>)]"
  obtains r1 r2 where
    "calc_resids (f_eval f) (f_model f) (f_toas f) \<lparr>ro_kind = ToaKind, ro_subtract_mean = True\<rparr> = Inr r1"
    "calc_resids (f_eval f) (f_model f) (f_toas f) \<lparr>ro_kind = DmKind, ro_subtract_mean = False\<rparr> = Inr r2"
    "resids_by_kind f = Inr [(''toa'', r1), (''dm'', r2)]"
proof -
  obtain r1 where r1: "calc_resids (f_eval f) (f_model f) (f_toas f) \<lparr>ro_kind = ToaKind, ro_subtract_mean = True\<rparr> = Inr r1"
    using calc_resids_Inr [OF assms(1)] by blast
  obtain r2 where r2: "calc_resids (f_eval f) (f_model f) (f_toas f) \<lparr>ro_kind = DmKind, ro_subtract_mean = False\<rparr> = Inr r2"
    using calc_resids_Inr [OF assms(1)] by blast
  have "resids_by_kind f = Inr [(''toa'', r1), (''dm'', r2)]"
    using r1 r2 by (simp add: resids_by_kind_def assms(2))
  with r1 r2 that show ?thesis by blast
qed

lemma combined_errors_two_kinds:
  assumes "wideband (f_toas f)"
    and "f_objs f = [(''toa'', \<lparr>ro_kind = ToaKind, ro_subtract_mean = True\<rparr>),
                     (''dm'', \<lparr>ro_kind = DmKind, ro_subtract_mean = False\<rparr>)]"
  shows "combined_errors f = Inr (map toa_error (f_toas f) @ map (\<lambda>x. the (toa_pp_dme x)) (f_toas f))"
  using assms(2) by (simp add: combined_errors_def kind_errors_DmKind [OF assms(1)]
    del: kind_errors.simps) simp

lemma fit_weights_Inr:
  "combined_errors f = Inr es \<Longrightarrow> c \<longrightarrow> (\<forall>C. la_inv (f_la f) C \<noteq> None) \<Longrightarrow>
   \<exists>W. fit_weights c f = Inr W"
  by (cases c) (auto simp: fit_weights_def split: option.splits)

lemma fit_correction_Inr:
  assumes "wideband (f_toas f)"
    and "f_objs f = [(''toa'', \<lparr>ro_kind = ToaKind, ro_subtract_mean = True\<rparr>),
                     (''dm'', \<lparr>ro_kind = DmKind, ro_subtract_mean = False\<rparr>)]"
    and "\<forall>A b. la_solve (f_la f) A b \<noteq> None" "c \<longrightarrow> (\<forall>C. la_inv (f_la f) C \<noteq> None)"
  shows "\<exists>x. fit_correction c f = Inr x"
proof -
  obtain r1 r2 where rs: "resids_by_kind f = Inr [(''toa'', r1), (''dm'', r2)]"
    using resids_two_kinds [OF assms(1,2)] by metis
  note e = combined_errors_two_kinds [OF assms(1,2)]
  obtain W where W: "fit_weights c f = Inr W"
    using fit_weights_Inr [OF e assms(4)] by blast
  show ?thesis
  proof (cases "la_solve (f_la f) (normal_matrix (dmx_rows (get_designmatrix f)) W)
      (normal_rhs (dmx_rows (get_designmatrix f)) W (r1 @ r2))")
    case None
    with assms(3) show ?thesis by blast
  next
    case (Some x)
    then show ?thesis by (simp add: fit_correction_def combined_resids_def rs W Let_def)
  qed
qed

text \<open>The fitting test before the fit: the fitter and the pre-fit residuals and RMS.\<close>

lemma test_fitting_run_setup:
  assumes "wideband ts" "\<forall>x \<in> set ts. toa_error x \<noteq> 0" "\<forall>x \<in> set ts. toa_pp_dme x \<noteq> Some 0"
  obtains f r1 r2 d1 where "WidebandTOAFitter [ts] m ev la [] = Inr f" "f_toas f = ts" "f_model f = m"
    "f_eval f = ev" "f_la f = la"
    "f_objs f = [(''toa'', \<lparr>ro_kind = ToaKind, ro_subtract_mean = True\<rparr>),
                 (''dm'', \<lparr>ro_kind = DmKind, ro_subtract_mean = False\<rparr>)]"
    "calc_resids ev m ts \<lparr>ro_kind = ToaKind, ro_subtract_mean = True\<rparr> = Inr r1"
    "calc_resids ev m ts \<lparr>ro_kind = DmKind, ro_subtract_mean = False\<rparr> = Inr r2"
    "rms_weighted r2 (map (\<lambda>x. the (toa_pp_dme x)) ts) = Inr d1"
    "\<And>c. test_fitting_run c ts m ev la =
       (case fit_toas_call c f of
          (Inl e, _) \<Rightarrow> Inl e
        | (Inr _, f') \<Rightarrow>
            rbind (resids_by_kind f') (\<lambda>rs.
            rbind (if c then rbind (dict_getitem ''toa'' rs) (\<lambda>r. rms_weighted r (map toa_error ts))
                   else Inr 0) (\<lambda>time_rms_post.
            rbind (dict_getitem ''dm'' rs) (\<lambda>r_dm'.
            rbind (rms_weighted r_dm' (map (\<lambda>x. the (toa_pp_dme x)) ts)) (\<lambda>dm_rms_post.
            rbind (dict_getitem ''toa'' rs) (\<lambda>postfit.
            Inr \<lparr>fr_prefit = r1, fr_postfit = postfit,
                 fr_dm_rms_pre = d1, fr_dm_rms_post = dm_rms_post\<rparr>))))))"
proof -
  obtain f where f: "WidebandTOAFitter [ts] m ev la [] = Inr f" "f_toas f = ts" "f_model f = m"
    "f_eval f = ev" "f_la f = la"
    "f_objs f = [(''toa'', \<lparr>ro_kind = ToaKind, ro_subtract_mean = True\<rparr>),
                 (''dm'', \<lparr>ro_kind = DmKind, ro_subtract_mean = False\<rparr>)]"
    "resids_by_kind f = Inr (f_resids_init f)"
    using fitter_default [OF assms(1)] by metis
  obtain r1 r2 where r: "calc_resids ev m ts \<lparr>ro_kind = ToaKind, ro_subtract_mean = True\<rparr> = Inr r1"
    "calc_resids ev m ts \<lparr>ro_kind = DmKind, ro_subtract_mean = False\<rparr> = Inr r2"
    "resids_by_kind f = Inr [(''toa'', r1), (''dm'', r2)]"
    using resids_two_kinds [of f] assms(1) f by metis
  have init: "f_resids_init f = [(''toa'', r1), (''dm'', r2)]" using r(3) f(7) by simp
  obtain t1 where t1: "rms_weighted r1 (map toa_error ts) = Inr t1"
    using rms_weighted_Inr [of "map toa_error ts" r1] assms(2) by force
  obtain d1 where d1: "rms_weighted r2 (map (\<lambda>x. the (toa_pp_dme x)) ts) = Inr d1"
    using rms_weighted_Inr nonzero_dm_errors [OF assms(1,3)] by blast
  have "test_fitting_run c ts m ev la =
       (case fit_toas_call c f of
          (Inl e, _) \<Rightarrow> Inl e
        | (Inr _, f') \<Rightarrow>
            rbind (resids_by_kind f') (\<lambda>rs.
            rbind (if c then rbind (dict_getitem ''toa'' rs) (\<lambda>r. rms_weighted r (map toa_error ts))
                   else Inr 0) (\<lambda>time_rms_post.
            rbind (dict_getitem ''dm'' rs) (\<lambda>r_dm'.
            rbind (rms_weighted r_dm' (map (\<lambda>x. the (toa_pp_dme x)) ts)) (\<lambda>dm_rms_post.
            rbind (dict_getitem ''toa'' rs) (\<lambda>postfit.
            Inr \<lparr>fr_prefit = r1, fr_postfit = postfit,
                 fr_dm_rms_pre = d1, fr_dm_rms_post = dm_rms_post\<rparr>))))))" for c
    by (simp add: test_fitting_run_def f(1) init t1 d1 kind_errors_DmKind [OF assms(1)]
        del: kind_errors.simps)
  with f r d1 that show ?thesis by blast
qed

text \<open>The fitting test returns its values whenever the fit step computes a correction.\<close>

lemma test_fitting_run_Inr:
  assumes "wideband ts" "\<forall>x \<in> set ts. toa_error x \<noteq> 0" "\<forall>x \<in> set ts. toa_pp_dme x \<noteq> Some 0"
    and f0: "WidebandTOAFitter [ts] m ev la [] = Inr f0" and x: "fit_correction c f0 = Inr x"
  shows "\<exists>r. test_fitting_run c ts m ev la = Inr r"
proof -
  obtain f r1 r2 d1 where S: "WidebandTOAFitter [ts] m ev la [] = Inr f" "f_toas f = ts" "f_model f = m"
    "f_eval f = ev" "f_la f = la"
    "f_objs f = [(''toa'', \<lparr>ro_kind = ToaKind, ro_subtract_mean = True\<rparr>),
                 (''dm'', \<lparr>ro_kind = DmKind, ro_subtract_mean = False\<rparr>)]"
    "calc_resids ev m ts \<lparr>ro_kind = ToaKind, ro_subtract_mean = True\<rparr> = Inr r1"
    "calc_resids ev m ts \<lparr>ro_kind = DmKind, ro_subtract_mean = False\<rparr> = Inr r2"
    "rms_weighted r2 (map (\<lambda>x. the (toa_pp_dme x)) ts) = Inr d1"
    and run: "\<And>c. test_fitting_run c ts m ev la =
       (case fit_toas_call c f of
          (Inl e, _) \<Rightarrow> Inl e
        | (Inr _, f') \<Rightarrow>
            rbind (resids_by_kind f') (\<lambda>rs.
            rbind (if c then rbind (dict_getitem ''toa'' rs) (\<lambda>r. rms_weighted r (map toa_error ts))
                   else Inr 0) (\<lambda>time_rms_post.
            rbind (dict_getitem ''dm'' rs) (\<lambda>r_dm'.
            rbind (rms_weighted r_dm' (map (\<lambda>x. the (toa_pp_dme x)) ts)) (\<lambda>dm_rms_post.
            rbind (dict_getitem ''toa'' rs) (\<lambda>postfit.
            Inr \<lparr>fr_prefit = r1, fr_postfit = postfit,
                 fr_dm_rms_pre = d1, fr_dm_rms_post = dm_rms_post\<rparr>))))))"
    by (rule test_fitting_run_setup [OF assms(1-3), of m ev la]) blast
  have "f = f0" using S(1) f0 by simp
  define f' where "f' = apply_correction f x"
  have step: "fit_step c f = (Inr x, f')" by (simp add: fit_step_def x \<open>f = f0\<close> f'_def)
  note fr = fit_step_frame [OF step]
  obtain q1 q2 where q: "resids_by_kind f' = Inr [(''toa'', q1), (''dm'', q2)]"
    using resids_two_kinds [of f'] fr S(2,6) assms(1) by metis
  obtain t2 where t2: "rms_weighted q1 (map toa_error ts) = Inr t2"
    using rms_weighted_Inr [of "map toa_error ts" q1] assms(2) by force
  obtain d2 where d2: "rms_weighted q2 (map (\<lambda>x. the (toa_pp_dme x)) ts) = Inr d2"
    using rms_weighted_Inr nonzero_dm_errors [OF assms(1,3)] by blast
  show ?thesis by (simp add: run fit_toas_call_step step q t2 d2)
qed

lemma test_fitting_dm_rms_equal:
  assumes "wideband ts" "\<forall>x \<in> set ts. toa_error x \<noteq> 0" "\<forall>x \<in> set ts. toa_pp_dme x \<noteq> Some 0"
    and "depends_only_on ev DmKind D" "\<forall>(n, p) \<in> set (tm_params m). n \<in> D \<longrightarrow> par_frozen p"
    and "\<forall>A b. la_solve la A b \<noteq> None" "c \<longrightarrow> (\<forall>C. la_inv la C \<noteq> None)"
  shows "\<exists>r. test_fitting_run c ts m ev la = Inr r \<and> fr_dm_rms_post r = fr_dm_rms_pre r"
proof -
  obtain f r1 r2 d1 where S: "WidebandTOAFitter [ts] m ev la [] = Inr f" "f_toas f = ts" "f_model f = m"
    "f_eval f = ev" "f_la f = la"
    "f_objs f = [(''toa'', \<lparr>ro_kind = ToaKind, ro_subtract_mean = True\<rparr>),
                 (''dm'', \<lparr>ro_kind = DmKind, ro_subtract_mean = False\<rparr>)]"
    "calc_resids ev m ts \<lparr>ro_kind = ToaKind, ro_subtract_mean = True\<rparr> = Inr r1"
    "calc_resids ev m ts \<lparr>ro_kind = DmKind, ro_subtract_mean = False\<rparr> = Inr r2"
    "rms_weighted r2 (map (\<lambda>x. the (toa_pp_dme x)) ts) = Inr d1"
    and run: "\<And>c. test_fitting_run c ts m ev la =
       (case fit_toas_call c f of
          (Inl e, _) \<Rightarrow> Inl e
        | (Inr _, f') \<Rightarrow>
            rbind (resids_by_kind f') (\<lambda>rs.
            rbind (if c then rbind (dict_getitem ''toa'' rs) (\<lambda>r. rms_weighted r (map toa_error ts))
                   else Inr 0) (\<lambda>time_rms_post.
            rbind (dict_getitem ''dm'' rs) (\<lambda>r_dm'.
            rbind (rms_weighted r_dm' (map (\<lambda>x. the (toa_pp_dme x)) ts)) (\<lambda>dm_rms_post.
            rbind (dict_getitem ''toa'' rs) (\<lambda>postfit.
            Inr \<lparr>fr_prefit = r1, fr_postfit = postfit,
                 fr_dm_rms_pre = d1, fr_dm_rms_post = dm_rms_post\<rparr>))))))"
    by (rule test_fitting_run_setup [OF assms(1-3), of m ev la]) blast
  obtain x where x: "fit_correction c f = Inr x"
    using fit_correction_Inr [of f c] S(2,5,6) assms(1,6,7) by auto
  define f' where "f' = apply_correction f x"
  have step: "fit_step c f = (Inr x, f')" by (simp add: fit_step_def x f'_def)
  note fr = fit_step_frame [OF step]
  have disj: "set (get_fitparams f) \<inter> D = {}"
    using assms(5) S(3) by (auto simp: get_fitparams_def)
  have same: "calc_resids (f_eval f') (f_model f') (f_toas f') \<lparr>ro_kind = DmKind, ro_subtract_mean = False\<rparr> =
      calc_resids (f_eval f) (f_model f) (f_toas f) \<lparr>ro_kind = DmKind, ro_subtract_mean = False\<rparr>"
    by (rule fit_step_calc_resids_same [OF step _ disj]) (simp add: S(4) assms(4))
  obtain q1 q2 where q: "calc_resids (f_eval f') (f_model f') (f_toas f') \<lparr>ro_kind = DmKind, ro_subtract_mean = False\<rparr> = Inr q2"
    "resids_by_kind f' = Inr [(''toa'', q1), (''dm'', q2)]"
    using resids_two_kinds [of f'] fr S(2,6) assms(1) by metis
  have q2: "q2 = r2" using same q(1) S(2-4,8) by simp
  obtain t2 where t2: "rms_weighted q1 (map toa_error ts) = Inr t2"
    using rms_weighted_Inr [of "map toa_error ts" q1] assms(2) by force
  have "test_fitting_run c ts m ev la =
      Inr \<lparr>fr_prefit = r1, fr_postfit = q1, fr_dm_rms_pre = d1, fr_dm_rms_post = d1\<rparr>"
    by (simp add: run fit_toas_call_step step q(2) q2 t2 S(9))
  then show ?thesis by simp
qed

text \<open>
  C16. The DM assertions of the two fitting tests (lines 67 and 86) hold whenever the DM
  residuals depend only on frozen parameters and the solver returns: the test runs to its
  end, the fit leaves the DM residuals as they were, and the pre- and post-fit DM RMS are
  equal.
\<close>

theorem test_fitting_dm_rms_stable:
  assumes "wideband ts" "\<forall>x \<in> set ts. toa_error x \<noteq> 0" "\<forall>x \<in> set ts. toa_pp_dme x \<noteq> Some 0"
    and "depends_only_on ev DmKind D" "\<forall>(n, p) \<in> set (tm_params m). n \<in> D \<longrightarrow> par_frozen p"
    and "\<forall>A b. la_solve la A b \<noteq> None" "c \<longrightarrow> (\<forall>C. la_inv la C \<noteq> None)"
  shows "\<exists>r. test_fitting_run c ts m ev la = Inr r \<and> fr_dm_rms_post r = fr_dm_rms_pre r \<and>
    dm_rms_assert r"
  using test_fitting_dm_rms_equal [OF assms] by (auto simp: dm_rms_assert_def)

text \<open>
  C17. Whatever the fitting test returns, its pre-fit TOA residuals are those of the initial
  model, the correction solves the weighted normal equations
  \<open>(M\<^sup>T W M) x = M\<^sup>T W r\<close>, and its post-fit TOA residuals are those of the model
  whose free parameters are decreased by the correction, every other parameter kept.
\<close>

theorem test_fitting_postfit:
  assumes "wideband ts" "\<forall>x \<in> set ts. toa_error x \<noteq> 0" "\<forall>x \<in> set ts. toa_pp_dme x \<noteq> Some 0"
    and "dict_wf (tm_params m)" "linalg_sound la" "test_fitting_run c ts m ev la = Inr r"
  shows "\<exists>f x m'. WidebandTOAFitter [ts] m ev la [] = Inr f \<and> fit_correction c f = Inr x \<and>
    (\<exists>rr W. combined_resids f = Inr rr \<and> fit_weights c f = Inr W \<and>
       mat_vec (normal_matrix (dmx_rows (get_designmatrix f)) W) x =
         normal_rhs (dmx_rows (get_designmatrix f)) W rr) \<and>
    Inr (fr_prefit r) = calc_resids ev m ts \<lparr>ro_kind = ToaKind, ro_subtract_mean = True\<rparr> \<and>
    Inr (fr_postfit r) = calc_resids ev m' ts \<lparr>ro_kind = ToaKind, ro_subtract_mean = True\<rparr> \<and>
    (\<forall>k. param_values m' k = param_values m k -
       (case map_of (zip (get_fitparams f) (tl x)) k of Some d \<Rightarrow> d | None \<Rightarrow> 0))"
proof -
  obtain f r1 r2 d1 where S: "WidebandTOAFitter [ts] m ev la [] = Inr f" "f_toas f = ts" "f_model f = m"
    "f_eval f = ev" "f_la f = la"
    "f_objs f = [(''toa'', \<lparr>ro_kind = ToaKind, ro_subtract_mean = True\<rparr>),
                 (''dm'', \<lparr>ro_kind = DmKind, ro_subtract_mean = False\<rparr>)]"
    "calc_resids ev m ts \<lparr>ro_kind = ToaKind, ro_subtract_mean = True\<rparr> = Inr r1"
    "calc_resids ev m ts \<lparr>ro_kind = DmKind, ro_subtract_mean = False\<rparr> = Inr r2"
    "rms_weighted r2 (map (\<lambda>x. the (toa_pp_dme x)) ts) = Inr d1"
    and run: "\<And>c. test_fitting_run c ts m ev la =
       (case fit_toas_call c f of
          (Inl e, _) \<Rightarrow> Inl e
        | (Inr _, f') \<Rightarrow>
            rbind (resids_by_kind f') (\<lambda>rs.
            rbind (if c then rbind (dict_getitem ''toa'' rs) (\<lambda>r. rms_weighted r (map toa_error ts))
                   else Inr 0) (\<lambda>time_rms_post.
            rbind (dict_getitem ''dm'' rs) (\<lambda>r_dm'.
            rbind (rms_weighted r_dm' (map (\<lambda>x. the (toa_pp_dme x)) ts)) (\<lambda>dm_rms_post.
            rbind (dict_getitem ''toa'' rs) (\<lambda>postfit.
            Inr \<lparr>fr_prefit = r1, fr_postfit = postfit,
                 fr_dm_rms_pre = d1, fr_dm_rms_post = dm_rms_post\<rparr>))))))"
    by (rule test_fitting_run_setup [OF assms(1-3), of m ev la]) blast
  obtain x where x: "fit_correction c f = Inr x"
  proof (cases "fit_correction c f")
    case (Inl e)
    then have "fit_step c f = (Inl e, f)" by (simp add: fit_step_def)
    then have "test_fitting_run c ts m ev la = Inl e" by (simp add: run fit_toas_call_step)
    with assms(6) show ?thesis by simp
  qed
  define f' where "f' = apply_correction f x"
  have step: "fit_step c f = (Inr x, f')" by (simp add: fit_step_def x f'_def)
  note fr = fit_step_frame [OF step]
  obtain q1 q2 where q: "calc_resids (f_eval f') (f_model f') (f_toas f') \<lparr>ro_kind = ToaKind, ro_subtract_mean = True\<rparr> = Inr q1"
    "resids_by_kind f' = Inr [(''toa'', q1), (''dm'', q2)]"
    using resids_two_kinds [of f'] fr S(2,6) assms(1) by metis
  obtain t2 where t2: "rms_weighted q1 (map toa_error ts) = Inr t2"
    using rms_weighted_Inr [of "map toa_error ts" q1] assms(2) by force
  obtain d2 where d2: "rms_weighted q2 (map (\<lambda>x. the (toa_pp_dme x)) ts) = Inr d2"
    using rms_weighted_Inr nonzero_dm_errors [OF assms(1,3)] by blast
  have "test_fitting_run c ts m ev la =
      Inr \<lparr>fr_prefit = r1, fr_postfit = q1, fr_dm_rms_pre = d1, fr_dm_rms_post = d2\<rparr>"
    by (simp add: run fit_toas_call_step step q(2) t2 d2)
  with assms(6) have r: "fr_prefit r = r1" "fr_postfit r = q1" by auto
  have ne: "\<exists>rr W. combined_resids f = Inr rr \<and> fit_weights c f = Inr W \<and>
       mat_vec (normal_matrix (dmx_rows (get_designmatrix f)) W) x =
         normal_rhs (dmx_rows (get_designmatrix f)) W rr"
    using fit_correction_normal_equations [of f c x] x assms(5) S(5) by simp
  have vals: "param_values (f_model f') k = param_values m k -
       (case map_of (zip (get_fitparams f) (tl x)) k of Some d \<Rightarrow> d | None \<Rightarrow> 0)" for k
    using apply_correction_values [of f x k] assms(4) S(3) by (simp add: f'_def)
  show ?thesis
    using S(1,7) x ne vals q(1) fr S(2,4) r by (intro exI [of _ f] exI [of _ x] exI [of _ "f_model f'"]) auto
qed

text \<open>
  C18. With no correlated noise in the timing model and a sound solver that inverts the
  diagonal data covariance, the full-covariance fitting test and the diagonal one return the
  same values: the spec's agreement of full-covariance and block-diagonal fits when the
  off-diagonal covariance vanishes.
\<close>

theorem test_fitting_full_cov_equiv:
  assumes "wideband ts" "\<forall>x \<in> set ts. toa_error x \<noteq> 0" "\<forall>x \<in> set ts. toa_pp_dme x \<noteq> Some 0"
    and "ev_noise_cov ev ts = replicate (2 * length ts) (replicate (2 * length ts) 0)"
    and "linalg_sound la"
    and "la_inv la (diag_mat (map (\<lambda>e. e\<^sup>2) (map toa_error ts @ map (\<lambda>x. the (toa_pp_dme x)) ts))) \<noteq> None"
  shows "test_fitting_run True ts m ev la = test_fitting_run False ts m ev la"
proof -
  obtain f r1 r2 d1 where S: "WidebandTOAFitter [ts] m ev la [] = Inr f" "f_toas f = ts" "f_model f = m"
    "f_eval f = ev" "f_la f = la"
    "f_objs f = [(''toa'', \<lparr>ro_kind = ToaKind, ro_subtract_mean = True\<rparr>),
                 (''dm'', \<lparr>ro_kind = DmKind, ro_subtract_mean = False\<rparr>)]"
    "calc_resids ev m ts \<lparr>ro_kind = ToaKind, ro_subtract_mean = True\<rparr> = Inr r1"
    "calc_resids ev m ts \<lparr>ro_kind = DmKind, ro_subtract_mean = False\<rparr> = Inr r2"
    "rms_weighted r2 (map (\<lambda>x. the (toa_pp_dme x)) ts) = Inr d1"
    and run: "\<And>c. test_fitting_run c ts m ev la =
       (case fit_toas_call c f of
          (Inl e, _) \<Rightarrow> Inl e
        | (Inr _, f') \<Rightarrow>
            rbind (resids_by_kind f') (\<lambda>rs.
            rbind (if c then rbind (dict_getitem ''toa'' rs) (\<lambda>r. rms_weighted r (map toa_error ts))
                   else Inr 0) (\<lambda>time_rms_post.
            rbind (dict_getitem ''dm'' rs) (\<lambda>r_dm'.
            rbind (rms_weighted r_dm' (map (\<lambda>x. the (toa_pp_dme x)) ts)) (\<lambda>dm_rms_post.
            rbind (dict_getitem ''toa'' rs) (\<lambda>postfit.
            Inr \<lparr>fr_prefit = r1, fr_postfit = postfit,
                 fr_dm_rms_pre = d1, fr_dm_rms_post = dm_rms_post\<rparr>))))))"
    by (rule test_fitting_run_setup [OF assms(1-3), of m ev la]) blast
  let ?es = "map toa_error ts @ map (\<lambda>x. the (toa_pp_dme x)) ts"
  have e: "combined_errors f = Inr ?es"
    using combined_errors_two_kinds [of f] S(2,6) assms(1) by simp
  have nz: "0 \<notin> set ?es" using nonzero_dm_errors [OF assms(1,3)] assms(2) by auto
  have "fit_weights True f = fit_weights False f"
    by (rule fit_weights_full_cov_diag [OF e nz]) (use assms(4-6) S(2,4,5) in simp_all)
  then have fc: "fit_correction True f = fit_correction False f" by (rule fit_correction_weights_eq)
  show ?thesis
  proof (cases "fit_correction False f")
    case (Inl e)
    then show ?thesis by (simp add: run fit_toas_call_step fit_step_def fc)
  next
    case (Inr x)
    define f' where "f' = apply_correction f x"
    have step: "fit_step c f = (Inr x, f')" for c
      using Inr fc by (cases c) (simp_all add: fit_step_def f'_def)
    note fr = fit_step_frame [OF step [of False]]
    obtain q1 q2 where q: "resids_by_kind f' = Inr [(''toa'', q1), (''dm'', q2)]"
      using resids_two_kinds [of f'] fr S(2,6) assms(1) by metis
    obtain t2 where t2: "rms_weighted q1 (map toa_error ts) = Inr t2"
      using rms_weighted_Inr [of "map toa_error ts" q1] assms(2) by force
    show ?thesis by (simp add: run fit_toas_call_step step q t2)
  qed
qed

subsection \<open>The tests on the example inputs\<close>

lemma ex_la_zero_sound: "linalg_sound ex_la_zero"
  by (auto simp: linalg_sound_def ex_la_zero_def mat_vec_def comp_def map_replicate_const split: if_splits)

lemma ex_wideband: "wideband ex_toas"
  by (simp add: wideband_def ex_toas_def)

theorem test_fitter_init_passes_witness:
  "test_fitter_init ex_toas ex_model ex_eval ex_la_total = Inr True"
  by (rule test_fitter_init_passes) (simp add: wideband_def ex_toas_def)

theorem test_fitter_designmatrix_passes_witness:
  "test_fitter_designmatrix ex_toas ex_model ex_eval ex_la_total = Inr True"
  by (rule test_fitter_designmatrix_passes)
     (simp_all add: wideband_def ex_toas_def dict_wf_def ex_model_def fit_params_lite_def)

theorem test_fitter_designmatrix_missing_witness:
  "test_fitter_designmatrix ex_toas ex_model_nodmx ex_eval ex_la_total = Inl (ConfigError ''DMX_0022'')"
proof -
  have keys: "fst ` set (tm_params ex_model_nodmx) =
      {''F0'', ''F1'', ''ELONG'', ''ELAT'', ''DMJUMP1'', ''DM''}"
    by (simp add: ex_model_nodmx_def ex_model_def)
  have nk: "\<not> set fit_params_lite \<subseteq> set (keys_of (tm_params ex_model_nodmx))"
    by (simp add: keys fit_params_lite_def)
  obtain n where "test_fitter_designmatrix ex_toas ex_model_nodmx ex_eval ex_la_total = Inl (ConfigError n)"
    "n \<in> set fit_params_lite" "n \<notin> set (keys_of (tm_params ex_model_nodmx))"
    using test_fitter_designmatrix_missing [OF ex_wideband nk] by blast
  moreover from this(2,3) have "n = ''DMX_0022''"
    by (simp add: keys fit_params_lite_def)
  ultimately show ?thesis by simp
qed

theorem test_fitting_dm_rms_stable_witness:
  "\<exists>r. test_fitting_run True ex_toas ex_model ex_eval ex_la_total = Inr r \<and> dm_rms_assert r"
proof -
  have "\<exists>r. test_fitting_run True ex_toas ex_model ex_eval ex_la_total = Inr r \<and>
      fr_dm_rms_post r = fr_dm_rms_pre r \<and> dm_rms_assert r"
    by (rule test_fitting_dm_rms_stable [where D = "{''DM''}"])
       (simp_all add: wideband_def ex_toas_def depends_only_on_def ex_eval_def ex_model_def ex_param_def
         ex_la_total_def)
  then show ?thesis by blast
qed

lemma ex_calc_resids:
  "calc_resids ex_eval ex_model ex_toas \<lparr>ro_kind = ToaKind, ro_subtract_mean = True\<rparr> = Inr [0, 0]"
  "calc_resids ex_eval ex_model ex_toas \<lparr>ro_kind = DmKind, ro_subtract_mean = False\<rparr> = Inr [0, 0]"
  by (simp_all add: calc_resids_def ex_eval_def ex_toas_def param_values_def ex_model_def ex_param_def
      weighted_mean_def)

lemma ex_run_zero: "\<exists>r. test_fitting_run False ex_toas ex_model ex_eval ex_la_zero = Inr r"
proof -
  obtain f where f: "WidebandTOAFitter [ex_toas] ex_model ex_eval ex_la_zero [] = Inr f"
    "f_toas f = ex_toas" "f_model f = ex_model" "f_eval f = ex_eval" "f_la f = ex_la_zero"
    "f_objs f = [(''toa'', \<lparr>ro_kind = ToaKind, ro_subtract_mean = True\<rparr>),
                 (''dm'', \<lparr>ro_kind = DmKind, ro_subtract_mean = False\<rparr>)]"
    using fitter_default [OF ex_wideband] by metis
  have cr: "combined_resids f = Inr (replicate 4 0)"
    using f(2-4,6) ex_calc_resids by (simp add: combined_resids_def resids_by_kind_def numeral_eq_Suc)
  obtain W where W: "fit_weights False f = Inr W"
    using fit_weights_Inr [OF combined_errors_two_kinds [of f], of False] f(2,6) ex_wideband by auto
  have c: "fit_correction False f = Inr (replicate (length (normal_matrix (dmx_rows (get_designmatrix f)) W)) 0)"
    by (simp add: fit_correction_def cr W Let_def f(5) ex_la_zero_def normal_rhs_zero)
  show ?thesis
    by (rule test_fitting_run_Inr [OF ex_wideband _ _ f(1) c]) (simp_all add: ex_toas_def)
qed

theorem test_fitting_postfit_witness:
  "\<exists>r f x m'. test_fitting_run False ex_toas ex_model ex_eval ex_la_zero = Inr r \<and>
     WidebandTOAFitter [ex_toas] ex_model ex_eval ex_la_zero [] = Inr f \<and> fit_correction False f = Inr x \<and>
     Inr (fr_postfit r) = calc_resids ex_eval m' ex_toas \<lparr>ro_kind = ToaKind, ro_subtract_mean = True\<rparr>"
proof -
  obtain r where r: "test_fitting_run False ex_toas ex_model ex_eval ex_la_zero = Inr r"
    using ex_run_zero by blast
  have dwf: "dict_wf (tm_params ex_model)" by (simp add: dict_wf_def ex_model_def)
  have "\<exists>f x m'. WidebandTOAFitter [ex_toas] ex_model ex_eval ex_la_zero [] = Inr f \<and>
    fit_correction False f = Inr x \<and>
    (\<exists>rr W. combined_resids f = Inr rr \<and> fit_weights False f = Inr W \<and>
       mat_vec (normal_matrix (dmx_rows (get_designmatrix f)) W) x =
         normal_rhs (dmx_rows (get_designmatrix f)) W rr) \<and>
    Inr (fr_prefit r) = calc_resids ex_eval ex_model ex_toas \<lparr>ro_kind = ToaKind, ro_subtract_mean = True\<rparr> \<and>
    Inr (fr_postfit r) = calc_resids ex_eval m' ex_toas \<lparr>ro_kind = ToaKind, ro_subtract_mean = True\<rparr> \<and>
    (\<forall>k. param_values m' k = param_values ex_model k -
       (case map_of (zip (get_fitparams f) (tl x)) k of Some d \<Rightarrow> d | None \<Rightarrow> 0))"
    by (rule test_fitting_postfit [OF ex_wideband _ _ dwf ex_la_zero_sound r]) (simp_all add: ex_toas_def)
  then obtain f x m' where "WidebandTOAFitter [ex_toas] ex_model ex_eval ex_la_zero [] = Inr f"
    "fit_correction False f = Inr x"
    "Inr (fr_postfit r) = calc_resids ex_eval m' ex_toas \<lparr>ro_kind = ToaKind, ro_subtract_mean = True\<rparr>"
    by blast
  with r show ?thesis by (intro exI conjI)
qed

lemma ex_la_diag_sound: "linalg_sound ex_la_diag"
proof -
  have solve: "\<forall>A b x. la_solve ex_la_diag A b = Some x \<longrightarrow> mat_vec A x = b"
    using ex_la_zero_sound by (simp add: linalg_sound_def ex_la_diag_def)
  have "mat_wf (length C) (length C) B \<and> mat_mul C B = ident_mat (length C)"
    if "la_inv ex_la_diag C = Some B" for C B
  proof -
    define ds where "ds = map (\<lambda>i. C ! i ! i) [0..<length C]"
    from that have C: "C = diag_mat ds" and nz: "\<forall>d \<in> set ds. d \<noteq> 0"
      and B: "B = diag_mat (map (\<lambda>d. 1 / d) ds)"
      by (simp_all add: ex_la_diag_def ds_def Let_def list_all_iff split: if_splits)
    have len: "length C = length ds" by (simp add: ds_def)
    show ?thesis
      using mat_wf_diag [of "map (\<lambda>d. 1 / d) ds"] mat_mul_diag_inverse [OF nz] len
      by (simp add: B) (simp add: C)
  qed
  with solve show ?thesis by (simp add: linalg_sound_def)
qed

theorem test_fitting_full_cov_equiv_witness:
  "test_fitting_run True ex_toas ex_model ex_eval ex_la_diag =
   test_fitting_run False ex_toas ex_model ex_eval ex_la_diag"
  by (rule test_fitting_full_cov_equiv)
     (simp_all add: ex_wideband ex_la_diag_sound, simp_all add: ex_toas_def ex_eval_def ex_la_diag_def
       diag_mat_def)

end
