(* ===== verification/TempoTests.thy ===== *)
theory TempoTests
  imports WidebandTests
begin

text \<open>
  The comparisons of the fitting tests with TEMPO (\<^verbatim>\<open>test_widebandTOA_fitting.py\<close>, lines
  58-66 and 77-85) and the two fitting tests as a whole. TEMPO's residuals are the rows
  of the test-data file \<^verbatim>\<open>J1614-2230_NANOGrav_12yv3.wb.tempo_test\<close> as
  \<^verbatim>\<open>np.genfromtxt\<close> reads them, an input here: column 0 the pre-fit, column 1 the post-fit
  residuals in microseconds, as a two-dimensional array (a list of rows). PINT's residual
  arrays are in seconds. The numpy operations
  the comparison uses are modelled with their errors: subtraction broadcasts a length-one
  operand and raises \<open>ValueError\<close> on other mismatched lengths; \<^verbatim>\<open>max\<close> raises
  \<open>ValueError\<close> on an empty array; a column index beyond a row raises \<open>IndexError\<close>.
\<close>

text \<open>\<^verbatim>\<open>a - b\<close> on two one-dimensional arrays, with numpy's broadcasting.\<close>

definition np_sub :: "real list \<Rightarrow> real list \<Rightarrow> real list result" where
  "np_sub a b =
     (if length a = length b then Inr (map2 (-) a b)
      else if length b = 1 then Inr (map (\<lambda>x. x - hd b) a)
      else if length a = 1 then Inr (map (\<lambda>y. hd a - y) b)
      else Inl (ValueError ''operands could not be broadcast together''))"

text \<open>
  \<^verbatim>\<open>x.mean()\<close>; the mean of an empty array (\<open>nan\<close> in numpy) only reaches the \<^verbatim>\<open>max\<close> of an
  empty array below, which raises first.
\<close>

definition np_mean :: "real list \<Rightarrow> real" where
  "np_mean xs = sum_list xs / real (length xs)"

definition np_max :: "real list \<Rightarrow> real result" where
  "np_max xs =
     (case xs of
        [] \<Rightarrow> Inl (ValueError ''zero-size array to reduction operation maximum which has no identity'')
      | x # xs' \<Rightarrow> Inr (fold max xs' x))"

text \<open>\<^verbatim>\<open>self.tempo_res[:, j]\<close>.\<close>

definition np_column :: "real list list \<Rightarrow> nat \<Rightarrow> real list result" where
  "np_column rows j =
     (if list_all (\<lambda>r. j < length r) rows then Inr (map (\<lambda>r. r ! j) rows) else Inl IndexError)"

text \<open>
  Lines 59-62 (and 64-66, 78-81, 83-85): the difference of PINT's residuals (seconds) and
  TEMPO's (microseconds, converted to PINT's unit by the subtraction), in nanoseconds, and
  the assertion that it deviates from its mean by less than 50 ns.
\<close>

definition tempo_check :: "real list \<Rightarrow> real list \<Rightarrow> bool result" where
  "tempo_check pint tempo_us =
     rbind (np_sub pint (map (\<lambda>t. t / 10 ^ 6) tempo_us)) (\<lambda>d.
       let diff = map (\<lambda>x. x * 10 ^ 9) d
       in rbind (np_max (map (\<lambda>x. \<bar>x - np_mean diff\<bar>) diff)) (\<lambda>mx. Inr (mx < 50)))"

text \<open>
  The assertions of a fitting test after its computations (\<open>test_fitting_run\<close>): the
  pre-fit comparison, the post-fit comparison, the DM RMS; each \<^verbatim>\<open>tempo_res\<close> column is
  read just before its comparison.
\<close>

definition test_fitting_tempo ::
  "bool \<Rightarrow> toa list \<Rightarrow> timing_model \<Rightarrow> model_eval \<Rightarrow> linalg \<Rightarrow> real list list \<Rightarrow> bool result" where
  "test_fitting_tempo full_cov ts m ev la tempo_res =
     rbind (test_fitting_run full_cov ts m ev la) (\<lambda>r.
     rbind (np_column tempo_res 0) (\<lambda>prefit_tempo.
     rbind (tempo_check (fr_prefit r) prefit_tempo) (\<lambda>ok_pre. py_assert ok_pre (
     rbind (np_column tempo_res 1) (\<lambda>postfit_tempo.
     rbind (tempo_check (fr_postfit r) postfit_tempo) (\<lambda>ok_post. py_assert ok_post (
     py_assert (dm_rms_assert r) (Inr True))))))))"

text \<open>Lines 51-67 and 69-86.\<close>

definition test_fitting_no_full_cov ::
  "toa list \<Rightarrow> timing_model \<Rightarrow> model_eval \<Rightarrow> linalg \<Rightarrow> real list list \<Rightarrow> bool result" where
  "test_fitting_no_full_cov = test_fitting_tempo False"

definition test_fitting_full_cov ::
  "toa list \<Rightarrow> timing_model \<Rightarrow> model_eval \<Rightarrow> linalg \<Rightarrow> real list list \<Rightarrow> bool result" where
  "test_fitting_full_cov = test_fitting_tempo True"

section \<open>Properties of the comparisons\<close>

lemma map2_minus_shift:
  "map2 (-) (map (\<lambda>x. x + c) a) b = map (\<lambda>x. x + c) (map2 (-) a (b :: real list))"
proof (induction a arbitrary: b)
  case Nil
  then show ?case by simp
next
  case (Cons x a)
  then show ?case by (cases b) simp_all
qed

lemma np_sub_shift:
  "np_sub (map (\<lambda>x. x + c) a) b = map_sum id (map (\<lambda>x. x + c)) (np_sub a b)"
  by (auto simp: np_sub_def map2_minus_shift length_Suc_conv)

lemma np_mean_shift:
  "xs \<noteq> [] \<Longrightarrow> np_mean (map (\<lambda>x. x + k) xs) = np_mean xs + k"
  by (simp add: np_mean_def sum_list_addf sum_list_triv field_simps)

lemma deviations_shift:
  "map (\<lambda>x. \<bar>x - np_mean (map (\<lambda>x. x + k) xs)\<bar>) (map (\<lambda>x. x + k) xs) =
   map (\<lambda>x. \<bar>x - np_mean xs\<bar>) xs"
  by (cases "xs = []") (simp_all add: np_mean_shift)

text \<open>
  C22. A constant offset between PINT's and TEMPO's residuals (a different reference phase)
  never changes the outcome of a TEMPO comparison, errors included: the comparison
  subtracts the mean of the difference before bounding it.
\<close>

theorem tempo_check_offset_invariant:
  "tempo_check (map (\<lambda>x. x + c) pint) tempo_us = tempo_check pint tempo_us"
proof (cases "np_sub pint (map (\<lambda>t. t / 10 ^ 6) tempo_us)")
  case (Inl e)
  then show ?thesis by (simp add: tempo_check_def np_sub_shift)
next
  case (Inr d)
  have "map (\<lambda>x. x * 10 ^ 9) (map (\<lambda>x. x + c) d) = map (\<lambda>x. x + c * 10 ^ 9) (map (\<lambda>x. x * 10 ^ 9) d)"
    by (simp add: algebra_simps)
  with Inr show ?thesis
    by (simp add: tempo_check_def np_sub_shift Let_def deviations_shift del: map_map)
qed

end
