(* ===== verification/Pytest.thy ===== *)
theory Pytest
  imports Prelude
begin

text \<open>
  The test harness as the test files of \<^verbatim>\<open>src/tests\<close> use it. A test function body is a
  sequence of statements in the result type: \<^verbatim>\<open>assert b\<close> raises \<open>AssertionError\<close> when
  \<open>b\<close> is false, \<^verbatim>\<open>pytest.skip(m)\<close> raises \<open>PytestSkip m\<close>, and pytest reports the
  outcome of the body: passed when it returns, failed on \<open>AssertionError\<close>, skipped on
  \<open>PytestSkip\<close>, and an error on any other exception. Tests call library code (astropy,
  the observatory registry, the parameter-file reader) that is not in the repository; each
  test theory takes those calls as a record of functions, so its theorems hold for every
  behaviour of the library.
\<close>

datatype test_outcome = Passed | Failed | Skipped string | Errored py_error

definition py_assert_stmt :: "bool \<Rightarrow> unit result" where
  "py_assert_stmt b = (if b then Inr () else Inl AssertionError)"

definition pytest_skip :: "string \<Rightarrow> unit result" where
  "pytest_skip m = Inl (PytestSkip m)"

definition pytest_outcome :: "unit result \<Rightarrow> test_outcome" where
  "pytest_outcome r =
     (case r of
        Inr _ \<Rightarrow> Passed
      | Inl AssertionError \<Rightarrow> Failed
      | Inl (PytestSkip m) \<Rightarrow> Skipped m
      | Inl e \<Rightarrow> Errored e)"

text \<open>\<^verbatim>\<open>numpy.isclose(a, b)\<close> on two floats, with its defaults: \<open>|a - b| \<le> atol + rtol |b|\<close>.\<close>

definition np_isclose :: "real \<Rightarrow> real \<Rightarrow> bool" where
  "np_isclose a b \<longleftrightarrow> \<bar>a - b\<bar> \<le> 1 / 10 ^ 8 + 1 / 10 ^ 5 * \<bar>b\<bar>"

lemma py_assert_stmt_simps [simp]:
  "py_assert_stmt True = Inr ()" "py_assert_stmt False = Inl AssertionError"
  by (simp_all add: py_assert_stmt_def)

lemma pytest_outcome_simps [simp]:
  "pytest_outcome (Inr ()) = Passed"
  "pytest_outcome (Inl AssertionError) = Failed"
  "pytest_outcome (Inl (PytestSkip m)) = Skipped m"
  by (simp_all add: pytest_outcome_def)

lemma pytest_outcome_error:
  "e \<noteq> AssertionError \<Longrightarrow> (\<forall>m. e \<noteq> PytestSkip m) \<Longrightarrow> pytest_outcome (Inl e) = Errored e"
  by (cases e) (simp_all add: pytest_outcome_def)

lemma rbind_py_assert_stmt [simp]:
  "rbind (py_assert_stmt b) k = (if b then k () else Inl AssertionError)"
  by (simp add: py_assert_stmt_def)

end
