(* ===== verification/ClockTests.thy ===== *)
theory ClockTests
  imports Pytest Quantity
begin

text \<open>
  \<^verbatim>\<open>src/tests/test_clockcorr.py\<close>: two tests of clock-correction files. The observatory
  registry (\<^verbatim>\<open>Observatory.get\<close>), the environment, the clock-file reader
  (\<^verbatim>\<open>ClockFile.read\<close>), its interpolation (\<^verbatim>\<open>evaluate\<close>), astropy's unit conversion and
  its \<^verbatim>\<open>numpy.isclose\<close> on quantities are library code that is not in the repository,
  and are the fields of the record \<open>clock_lib\<close>; each may raise. The tests' own logic is
  modelled line by line: the order of the lookup, the skip and the reads, the times and
  expected values, and the tolerance \<^verbatim>\<open>numpy.isclose\<close> applies to plain floats.
\<close>

text \<open>An \<^verbatim>\<open>astropy.time.Time(val, format=..., scale=...)\<close>.\<close>

record astro_time =
  time_val :: real
  time_format :: string
  time_scale :: string

text \<open>The attributes of an observatory the test reads.\<close>

record observatory =
  obs_clock_fullpath :: string
  obs_clock_fmt :: string
  obs_tempo_code :: string

record 'cf clock_lib =
  obs_get :: "string \<Rightarrow> observatory result"
  getenv :: "string \<Rightarrow> string option"
  clock_read :: "string \<Rightarrow> string \<Rightarrow> string \<Rightarrow> 'cf result"
  clock_evaluate :: "'cf \<Rightarrow> astro_time \<Rightarrow> pyval result"
  q_to_value :: "pyval \<Rightarrow> punit \<Rightarrow> real result"
  q_isclose :: "pyval \<Rightarrow> pyval \<Rightarrow> bool result"

definition u_us :: punit where
  "u_us = base_unit ''us''"

definition parkes_skip_msg :: string where
  "parkes_skip_msg = ''TEMPO2 evnironment variable is not set, can't run this test''"

text \<open>
  Lines 19-31. The observatory is looked up before the environment is checked; the skip
  is an exception raised in the middle of the body.
\<close>

definition test_parkes :: "'cf clock_lib \<Rightarrow> unit result" where
  "test_parkes lib =
     rbind (obs_get lib ''Parkes'') (\<lambda>obs.
     rbind (if getenv lib ''TEMPO2'' = None then pytest_skip parkes_skip_msg else Inr ()) (\<lambda>_.
     rbind (clock_read lib (obs_clock_fullpath obs) (obs_clock_fmt obs) (obs_tempo_code obs)) (\<lambda>cf.
     rbind (clock_evaluate lib cf \<lparr>time_val = 5121173 / 100, time_format = ''pulsar_mjd'',
                                   time_scale = ''utc''\<rparr>) (\<lambda>e1.
     rbind (q_isclose lib e1 (PyQty (175358956 / 10 ^ 8) u_us)) (\<lambda>b1.
     rbind (py_assert_stmt b1) (\<lambda>_.
     rbind (clock_evaluate lib cf \<lparr>time_val = 5541811285 / 10 ^ 5, time_format = ''pulsar_mjd'',
                                   time_scale = ''utc''\<rparr>) (\<lambda>e2.
     rbind (q_isclose lib e2 (PyQty (- 593622 / 10 ^ 6) u_us)) (\<lambda>b2.
     py_assert_stmt b2))))))))"

text \<open>\<^verbatim>\<open>path.join(datadir, name)\<close> for a directory name without a trailing separator.\<close>

definition path_join :: "string \<Rightarrow> string \<Rightarrow> string" where
  "path_join d n = d @ ''/'' @ n"

text \<open>Lines 33-41: \<^verbatim>\<open>numpy.isclose\<close> on the value in microseconds, a plain float.\<close>

definition test_wsrt :: "'cf clock_lib \<Rightarrow> string \<Rightarrow> unit result" where
  "test_wsrt lib datadir =
     rbind (clock_read lib (path_join datadir ''wsrt2gps.clk'') ''tempo2'' ''i'') (\<lambda>cf.
     rbind (clock_evaluate lib cf \<lparr>time_val = 571095 / 10, time_format = ''mjd'', time_scale = ''utc''\<rparr>) (\<lambda>e.
     rbind (q_to_value lib e u_us) (\<lambda>v.
     py_assert_stmt (np_isclose v (7907 / 1000)))))"

subsection \<open>Example library\<close>

text \<open>
  A registry that knows Parkes, an environment with \<^verbatim>\<open>TEMPO2\<close> set, and a clock file whose
  correction is 7.907 us at every time.
\<close>

definition ex_observatory :: observatory where
  "ex_observatory = \<lparr>obs_clock_fullpath = ''/tempo2/clock/pks2gps.clk'', obs_clock_fmt = ''tempo2'',
     obs_tempo_code = ''7''\<rparr>"

definition ex_clock_lib :: "unit clock_lib" where
  "ex_clock_lib = \<lparr>obs_get = (\<lambda>n. if n = ''Parkes'' then Inr ex_observatory else Inl (KeyError n)),
     getenv = (\<lambda>v. Some ''/tempo2''),
     clock_read = (\<lambda>p f c. Inr ()),
     clock_evaluate = (\<lambda>cf t. Inr (PyQty 7907 u_us)),
     q_to_value = (\<lambda>q u. case q of PyQty x _ \<Rightarrow> Inr (x / 1000) | _ \<Rightarrow> Inl UnitConversionError),
     q_isclose = (\<lambda>a b. Inr True)\<rparr>"

section \<open>The tests' outcomes\<close>

text \<open>
  C20. The skip of \<^verbatim>\<open>test_parkes\<close> comes after the observatory lookup (lines 20-22):
  when \<^verbatim>\<open>TEMPO2\<close> is unset the test raises whatever \<^verbatim>\<open>Observatory.get("Parkes")\<close>
  raises, and otherwise is skipped without reading or evaluating any clock file.
\<close>

theorem test_parkes_skip_after_lookup:
  assumes "getenv lib ''TEMPO2'' = None"
  shows "test_parkes lib =
    (case obs_get lib ''Parkes'' of Inl e \<Rightarrow> Inl e | Inr _ \<Rightarrow> Inl (PytestSkip parkes_skip_msg))"
  using assms by (simp add: test_parkes_def pytest_skip_def split: sum.split)

theorem test_parkes_skip_after_lookup_witness:
  "test_parkes (ex_clock_lib\<lparr>obs_get := (\<lambda>n. Inl (KeyError n)), getenv := (\<lambda>v. None)\<rparr>) =
     Inl (KeyError ''Parkes'') \<and>
   pytest_outcome (test_parkes (ex_clock_lib\<lparr>getenv := (\<lambda>v. None)\<rparr>)) = Skipped parkes_skip_msg"
  using test_parkes_skip_after_lookup [of "ex_clock_lib\<lparr>obs_get := (\<lambda>n. Inl (KeyError n)), getenv := (\<lambda>v. None)\<rparr>"]
    test_parkes_skip_after_lookup [of "ex_clock_lib\<lparr>getenv := (\<lambda>v. None)\<rparr>"]
  by (simp add: ex_clock_lib_def)

end
