(* ===== verification/PardictTests.thy ===== *)
theory PardictTests
  imports Pytest
begin

text \<open>
  \<^verbatim>\<open>src/tests/test_pardict.py\<close>: every parameter file of the test data is loaded with
  \<^verbatim>\<open>get_model\<close> and, when it loads, exported with \<^verbatim>\<open>as_dict\<close>. The reader and the export are
  library code not in the repository, the fields of the record \<open>pardict_lib\<close>; the
  test's logic is modelled: the bare \<^verbatim>\<open>except:\<close> that turns any failure to load into
  \<^verbatim>\<open>readin = False\<close>, the assertion on the type of the export, and the parametrisation
  over the files and the two values of \<^verbatim>\<open>components\<close>.
\<close>

record ('m, 'o) pardict_lib =
  get_model :: "string \<Rightarrow> 'm result"
  as_dict :: "'m \<Rightarrow> bool \<Rightarrow> 'o result"
  isinstance_dict :: "'o \<Rightarrow> bool"

text \<open>Lines 9-17.\<close>

definition test_derived_params :: "('m, 'o) pardict_lib \<Rightarrow> string \<Rightarrow> bool \<Rightarrow> unit result" where
  "test_derived_params lib parname components =
     (case get_model lib parname of
        Inl _ \<Rightarrow> Inr ()
      | Inr m \<Rightarrow> rbind (as_dict lib m components) (\<lambda>out. py_assert_stmt (isinstance_dict lib out)))"

text \<open>
  Lines 7-8: one test per pair of a parameter file (\<^verbatim>\<open>glob\<close> of \<^verbatim>\<open>*.par\<close> in the data
  directory) and a value of \<^verbatim>\<open>components\<close>; the outcomes of the run as a list (the
  order in which pytest runs the pairs is not claimed).
\<close>

definition test_derived_params_run :: "('m, 'o) pardict_lib \<Rightarrow> string list \<Rightarrow> test_outcome list" where
  "test_derived_params_run lib parnames =
     map (\<lambda>(p, c). pytest_outcome (test_derived_params lib p c)) (List.product parnames [True, False])"

text \<open>An example reader: one broken file, every other file loads and exports a list.\<close>

definition ex_pardict_lib :: "(string, string list) pardict_lib" where
  "ex_pardict_lib = \<lparr>get_model = (\<lambda>p. if p = ''broken.par'' then Inl (ValueError ''bad line'') else Inr p),
     as_dict = (\<lambda>m c. Inr [m]), isinstance_dict = (\<lambda>ob. True)\<rparr>"

section \<open>The test's outcomes\<close>

text \<open>
  C21. The bare \<^verbatim>\<open>except:\<close> of line 13 hides every failure to load: a parameter file
  that \<^verbatim>\<open>get_model\<close> cannot read, for whatever reason, makes its test pass.
\<close>

theorem test_derived_params_load_failure_passes:
  "get_model lib parname = Inl e \<Longrightarrow> pytest_outcome (test_derived_params lib parname c) = Passed"
  by (simp add: test_derived_params_def)

theorem test_derived_params_load_failure_passes_witness:
  "pytest_outcome (test_derived_params ex_pardict_lib ''broken.par'' True) = Passed"
  using test_derived_params_load_failure_passes [of ex_pardict_lib "''broken.par''" "ValueError ''bad line''" True]
  by (simp add: ex_pardict_lib_def)

end
