(* ===== verification/Spec2Isabelle.thy ===== *)
theory Spec2Isabelle
  imports DDS TempoTests ClockTests PardictTests
begin

text \<open>
  \<^bold>\<open>A verification library for PINT's DDS binary model and wideband fitter.\<close>

  \<^bold>\<open>The program.\<close> PINT computes pulsar timing models. The part modelled here has two
  subsystems: the binary orbit models (the DD family, of which
  \<^verbatim>\<open>src/src/pint/models/stand_alone_psr_binaries/DDS_model.py\<close> is the source at hand) and
  the generalized multi-dataset fitter (\<^verbatim>\<open>WidebandTOAFitter\<close>, exercised by
  \<^verbatim>\<open>src/tests/test_widebandTOA_fitting.py\<close>). The fitter queries a timing model for
  residuals and derivatives, builds a design matrix, solves the weighted normal equations and
  updates the model's parameters. The DDS model is a DD model in which the inclination
  parameter \<^verbatim>\<open>SINI\<close> is retired and replaced by \<^verbatim>\<open>SHAPMAX = -log(1 - SINI)\<close>.

  \<^bold>\<open>Theories.\<close>
  \<^item> \<open>Prelude\<close>: Python exceptions as the datatype \<open>py_error\<close>, the result type
    \<open>py_error + 'a\<close> with its bind \<open>rbind\<close> (a statement that raises stops the method), the
    \<open>named_theorems\<close> collections and shared lemmas on association lists.
  \<^item> \<open>PyDict\<close>: Python's insertion-ordered \<^verbatim>\<open>dict\<close> as an association list
    (\<open>dict_setitem\<close>, \<open>dict_update\<close>, \<open>dict_delitem\<close> with its \<open>KeyError\<close>), related to
    \<open>map_of\<close> and to the library's \<open>AList.update\<close>.
  \<^item> \<open>Quantity\<close>: the numbers, numpy arrays and astropy quantities the model computes with
    (datatype \<open>pyval\<close>), units as exponent lists with the abstraction \<open>unit_exp\<close>, and the
    library operations the source calls (\<^verbatim>\<open>np.exp\<close>, \<^verbatim>\<open>np.zeros\<close>, \<^verbatim>\<open>1 - x\<close>,
    \<^verbatim>\<open>x.unit\<close>, multiplication and division by a unit), each with the error astropy raises.
  \<^item> \<open>BinaryModel\<close>: the DD base class, modelled from the specification since its source is
    not in the repository: the record \<open>binary_model\<close> (class, name, default table
    \<^verbatim>\<open>param_default_value\<close>, \<^verbatim>\<open>binary_params\<close>, instance attributes, epochs \<^verbatim>\<open>t\<close>, cached
    \<^verbatim>\<open>tt0\<close>, warnings issued), \<^verbatim>\<open>set_param_values\<close>, the DD constructor and the \<^verbatim>\<open>t\<close>
    setter. The base class calls \<^verbatim>\<open>setattr\<close> on an instance of a subclass, so its
    operations take the attribute-assignment function as a parameter; the contract
    \<open>warns_on\<close> states what the subclasses' assignment does, and the lemmas
    \<open>set_param_values_facts\<close> give the effect of \<^verbatim>\<open>set_param_values\<close> under it.
  \<^item> \<open>DDS\<close>: \<^verbatim>\<open>DDS_model.py\<close> line by line: the \<^verbatim>\<open>SINI\<close> property (\<open>DDS_SINI\<close>,
    \<open>DDS_SINI_setter\<close>), \<^verbatim>\<open>d_SINI_d_SHAPMAX\<close>, \<^verbatim>\<open>d_SINI_d_par\<close> with its method lookup
    \<open>d_SINI_method\<close>, the constructor (\<open>DDS_init_body\<close>, \<open>DDSmodel_init\<close>), and Python's
    attribute protocol on the two classes (\<open>py_setattr\<close>, \<open>py_getattr\<close>), which
    instantiates the base class's parameter. The reachable states of an instance are the
    inductive predicate \<open>dds_reachable\<close> (construction, assignments, epochs), and
    \<open>DDS_inv\<close> is their invariant, proved by rule induction.

  \<^item> \<open>Matrix\<close>: dense real matrices as row lists (the numpy arrays of the fitter) and the
    solver interface \<open>linalg\<close> with its contract \<open>linalg_sound\<close> (a solution solves the
    system; an inverse is a square right inverse); diagonal matrices, their products and
    the uniqueness of their inverses.
  \<^item> \<open>Fitter\<close>: the wideband fitter, modelled from the specification since \<^verbatim>\<open>pint/fitter.py\<close>
    and \<^verbatim>\<open>pint/residuals.py\<close> are not in the repository. The record \<open>fitter\<close> holds the
    TOAs, the model, the physics interface \<open>model_eval\<close> (residuals, derivatives and noise
    covariance of a timing model), the solver, the residual objects per kind and the pre-fit
    residuals. Operations: \<open>calc_resids\<close> and \<open>rms_weighted\<close> (one residual object),
    \<open>resids_by_kind\<close>/\<open>combined_resids\<close>, the constructor \<open>WidebandTOAFitter\<close> with its
    \<^verbatim>\<open>additional_args\<close>, \<open>set_fitparams\<close>/\<open>get_fitparams\<close>, \<open>get_designmatrix\<close>,
    \<open>fit_weights\<close> (diagonal or full covariance), \<open>fit_correction\<close> (normal equations),
    \<open>fit_step\<close> (returns its error together with the state it leaves) and \<open>fit_toas\<close>, structurally recursive in \<^verbatim>\<open>maxiter\<close> and hence total.
    Its lemmas: construction succeeds on wideband TOAs, the design matrix's shape and labels,
    the set round trip of the free parameters, the frame of a step (what it never changes),
    the exact parameter update, and that the correction solves the normal equations under
    a sound solver.
  \<^item> \<open>WidebandTests\<close>: \<^verbatim>\<open>src/tests/test_widebandTOA_fitting.py\<close> line by line, each test a
    result-valued predicate (\<open>Inr True\<close> passes, \<open>Inr False\<close> fails an assertion, \<open>Inl\<close>
    raises), for any TOAs, model, evaluator and solver, with example inputs on which the
    claims are applied.
  \<^item> \<open>TempoTests\<close>: the comparisons of the fitting tests with TEMPO's residuals (numpy
    broadcasting subtraction, \<^verbatim>\<open>mean\<close>, \<^verbatim>\<open>max\<close> and column indexing, with their errors)
    and the two fitting tests as a whole, \<open>test_fitting_no_full_cov\<close> and
    \<open>test_fitting_full_cov\<close>; TEMPO's residuals are an input.
  \<^item> \<open>Pytest\<close>: pytest's outcome of a test body (passed, failed on \<open>AssertionError\<close>,
    skipped on \<^verbatim>\<open>pytest.skip\<close>, an error on any other exception), \<^verbatim>\<open>assert\<close>, and
    \<^verbatim>\<open>numpy.isclose\<close> on floats.
  \<^item> \<open>ClockTests\<close>: \<^verbatim>\<open>src/tests/test_clockcorr.py\<close> (\<open>test_parkes\<close>, \<open>test_wsrt\<close>) with the
    observatory registry, environment, clock-file reader and astropy calls as the
    interface \<open>clock_lib\<close>.
  \<^item> \<open>PardictTests\<close>: \<^verbatim>\<open>src/tests/test_pardict.py\<close> (\<open>test_derived_params\<close> and its
    parametrised run) with \<^verbatim>\<open>get_model\<close> and \<^verbatim>\<open>as_dict\<close> as the interface
    \<open>pardict_lib\<close>.

  \<^bold>\<open>What is proved.\<close> In \<open>DDS\<close> (C1-C12 and C19): \<^verbatim>\<open>SINI\<close> reads as
  \<open>1 - exp (-SHAPMAX)\<close> exactly (C1) and in every reachable state is computed from
  \<^verbatim>\<open>SHAPMAX\<close>, never stored (C5); assigning it changes nothing and warns once (C3). The
  analytic derivative \<^verbatim>\<open>d_SINI_d_SHAPMAX\<close> returns \<open>-exp SHAPMAX\<close> while the derivative
  of the getter is \<open>exp (-SHAPMAX)\<close> (C2, a defect of the code). For an unrelated
  parameter the derivative is a zero array with one entry per epoch and the inverse unit
  in every reachable state (C4), but the fallback raises when the parameter is not an
  attribute (C9), when its value has no unit (C10) and before epochs are set (C11). The
  constructor removes \<^verbatim>\<open>SINI\<close> from the table and appends \<^verbatim>\<open>SHAPMAX\<close> (C6), assigns
  every default (C8), keeps \<^verbatim>\<open>SINI\<close> in \<^verbatim>\<open>binary_params\<close> (C7), and fails with
  \<open>KeyError\<close> on a base table without \<^verbatim>\<open>SINI\<close> (C12). For a numeric \<^verbatim>\<open>SHAPMAX\<close> \<open>s\<close>,
  \<^verbatim>\<open>SINI\<close> lies below 1, is non-negative exactly when \<open>s\<close> is, and \<open>-log(1 - SINI) = s\<close>,
  the relation of the class documentation (C19).
  In \<open>WidebandTests\<close> (C13-C18): \<^verbatim>\<open>test_fitter_init\<close> passes on all wideband TOAs
  (C13); \<^verbatim>\<open>test_fitter_designmatrix\<close> passes on every model with distinct parameter names
  holding \<^verbatim>\<open>fit_params_lite\<close> (C14) and raises a configuration error otherwise (C15); the
  DM assertion of the fitting tests holds, with equal RMS, when the DM residuals depend on
  frozen parameters only (C16); the post-fit residuals are those of the Gauss-Newton update
  that solves the normal equations (C17). With no correlated noise and a sound solver, the
  full-covariance and the diagonal fitting tests return the same values (C18, an
  equivalence resting on the uniqueness of the inverse of a nonzero diagonal matrix,
  \<open>diag_right_inverse_unique\<close> in \<open>Matrix\<close>).
  In \<open>ClockTests\<close>: with \<^verbatim>\<open>TEMPO2\<close> unset, \<^verbatim>\<open>test_parkes\<close> reports the registry
  lookup's exception and is skipped otherwise, reading no clock file (C20). In
  \<open>PardictTests\<close>: a file that does not load makes its test pass, whatever the failure
  (C21). In \<open>TempoTests\<close>: a constant offset between PINT's and TEMPO's residuals never
  changes a comparison, errors included, because the test subtracts the mean difference
  (C22).

  \<^bold>\<open>Choices.\<close> Real numbers are HOL's \<open>real\<close>: rounding of floating point is not
  modelled, so the theorems about values are exact statements about the formulas the code
  evaluates. \<^verbatim>\<open>warnings.warn\<close> is recorded at every call, as under the \<^verbatim>\<open>"always"\<close>
  filter that test harnesses use. \<^verbatim>\<open>getattr\<close> is modelled on parameter attributes and
  class properties; the bookkeeping attributes of the model object (its name, the lists of
  delay functions) are record fields, not attributes a parameter name can reach. The tests'
  \<^verbatim>\<open>fit_toas()\<close> uses one iteration (\<^verbatim>\<open>maxiter=1\<close>, no threshold), which is the fuel of
  \<open>fit_toas\<close> there; \<open>fit_toas\<close> needs no other bound since it recurses on the iteration
  count. The fitter's timing physics and linear algebra are interfaces (\<open>model_eval\<close>,
  \<open>linalg\<close>), so the fitter theorems hold for every timing model and for every solver
  meeting the stated contract.

  \<^bold>\<open>Not modelled.\<close> The orbital delay formulas of the DD model and their other
  derivatives (not in the repository; the specification gives no formulas); astropy unit
  conversion between different units of one dimension (the TEMPO comparison's
  microsecond-to-second conversion is written out); the values of the test data (TOA and
  parameter files, TEMPO's residuals), which are inputs of the test predicates; the
  clock-file
  reader, its interpolation and the observatory registry, which the clock tests call
  (not in the repository; file I/O and external data, a non-goal of the specification);
  parameter-file parsing and \<^verbatim>\<open>as_dict\<close>, which the parameter-file test calls (also a
  non-goal). The tests that call them are modelled with the calls as interfaces.
  No property is of kind termination: the repository's code has no loop whose termination
  is in question (the model's recursions are structural, over lists or the iteration
  count of \<^verbatim>\<open>fit_toas\<close>), so every definition is total by construction.

  \<^bold>\<open>Further work.\<close> The wideband fitter's own code (\<^verbatim>\<open>pint/fitter.py\<close>) is not in the
  repository; if it were added, its model here (from the specification) could be checked
  against it line by line, and the threshold exit of \<open>fit_toas\<close> and full-covariance
  weights with correlated noise stated as claims about it.
\<close>

end
